theory Spec2Isabelle
  imports Main "HOL-Library.Sublist" "HOL-Library.Word"
begin

unbundle bit_operations_syntax

section \<open>Strings, numbers and paths\<close>

text \<open>
  The handlers of \<^verbatim>\<open>api/file.go\<close>, \<^verbatim>\<open>api/s3.go\<close> and \<^verbatim>\<open>api/bucket.go\<close> build
  storage paths with \<^verbatim>\<open>fmt.Sprintf("%d", id)\<close> and \<^verbatim>\<open>filepath.Join\<close>, and the ETag
  with \<^verbatim>\<open>fmt.Sprintf("%x", sum)\<close>. These library functions are written out here, for a
  Unix target (separator \<^verbatim>\<open>/\<close>, no volume names). A Go string is a byte sequence, as
  an Isabelle \<^typ>\<open>string\<close> is.
\<close>

definition digit_char :: "nat \<Rightarrow> char" where
  "digit_char d = ''0123456789'' ! d"

fun dec_nat :: "nat \<Rightarrow> string" where
  "dec_nat n = (if n < 10 then [digit_char n] else dec_nat (n div 10) @ [digit_char (n mod 10)])"

text \<open>\<^verbatim>\<open>fmt.Sprintf("%d", x)\<close> for an \<^verbatim>\<open>int64\<close>.\<close>

definition fmt_d :: "int \<Rightarrow> string" where
  "fmt_d x = (if x < 0 then CHR ''-'' # dec_nat (nat (- x)) else dec_nat (nat x))"

definition hex_char :: "nat \<Rightarrow> char" where
  "hex_char d = ''0123456789abcdef'' ! d"

text \<open>\<^verbatim>\<open>fmt.Sprintf("%x", b)\<close> for a byte slice: two lower-case digits for each byte.\<close>

definition fmt_x :: "string \<Rightarrow> string" where
  "fmt_x b = concat (map (\<lambda>c. [hex_char (of_char c div 16), hex_char (of_char c mod 16)]) b)"

text \<open>
  \<^verbatim>\<open>crypto/md5\<close>: the MD5 digest (RFC 1321) of a byte sequence, 16 bytes. The message
  is padded with the byte 0x80, zero bytes up to 56 modulo 64, and its length in bits
  as 8 little-endian bytes; each block of 64 bytes, read as 16 little-endian words of 32
  bits, goes through 64 steps on four words of state.
\<close>

definition md5_K :: "32 word list" where
  "md5_K =
    [0xd76aa478, 0xe8c7b756, 0x242070db, 0xc1bdceee, 0xf57c0faf, 0x4787c62a, 0xa8304613,
     0xfd469501, 0x698098d8, 0x8b44f7af, 0xffff5bb1, 0x895cd7be, 0x6b901122, 0xfd987193,
     0xa679438e, 0x49b40821, 0xf61e2562, 0xc040b340, 0x265e5a51, 0xe9b6c7aa, 0xd62f105d,
     0x02441453, 0xd8a1e681, 0xe7d3fbc8, 0x21e1cde6, 0xc33707d6, 0xf4d50d87, 0x455a14ed,
     0xa9e3e905, 0xfcefa3f8, 0x676f02d9, 0x8d2a4c8a, 0xfffa3942, 0x8771f681, 0x6d9d6122,
     0xfde5380c, 0xa4beea44, 0x4bdecfa9, 0xf6bb4b60, 0xbebfbc70, 0x289b7ec6, 0xeaa127fa,
     0xd4ef3085, 0x04881d05, 0xd9d4d039, 0xe6db99e5, 0x1fa27cf8, 0xc4ac5665, 0xf4292244,
     0x432aff97, 0xab9423a7, 0xfc93a039, 0x655b59c3, 0x8f0ccc92, 0xffeff47d, 0x85845dd1,
     0x6fa87e4f, 0xfe2ce6e0, 0xa3014314, 0x4e0811a1, 0xf7537e82, 0xbd3af235, 0x2ad7d2bb,
     0xeb86d391]"

definition md5_s :: "nat list" where
  "md5_s = [7, 12, 17, 22, 7, 12, 17, 22, 7, 12, 17, 22, 7, 12, 17, 22,
            5, 9, 14, 20, 5, 9, 14, 20, 5, 9, 14, 20, 5, 9, 14, 20,
            4, 11, 16, 23, 4, 11, 16, 23, 4, 11, 16, 23, 4, 11, 16, 23,
            6, 10, 15, 21, 6, 10, 15, 21, 6, 10, 15, 21, 6, 10, 15, 21]"

type_synonym md5_state = "32 word \<times> 32 word \<times> 32 word \<times> 32 word"

definition md5_step :: "32 word list \<Rightarrow> nat \<Rightarrow> md5_state \<Rightarrow> md5_state" where
  "md5_step M i = (\<lambda>(A, B, C, D).
     let (F, g) = (if i < 16 then ((B AND C) OR (NOT B AND D), i)
                   else if i < 32 then ((D AND B) OR (NOT D AND C), (5 * i + 1) mod 16)
                   else if i < 48 then (B XOR C XOR D, (3 * i + 5) mod 16)
                   else (C XOR (B OR NOT D), (7 * i) mod 16));
         F' = F + A + md5_K ! i + M ! g
     in (D, B + word_rotl (md5_s ! i) F', B, C))"

definition le_word :: "string \<Rightarrow> 32 word" where
  "le_word bs = foldr (\<lambda>c w. of_char c + push_bit 8 w) bs 0"

fun chunks :: "nat \<Rightarrow> 'a list \<Rightarrow> 'a list list" where
  "chunks n xs = (if n = 0 \<or> xs = [] then [] else take n xs # chunks n (drop n xs))"

definition md5_block :: "md5_state \<Rightarrow> string \<Rightarrow> md5_state" where
  "md5_block h blk = (case h of (a0, b0, c0, d0) \<Rightarrow>
     (case fold (md5_step (map le_word (chunks 4 blk))) [0..<64] h of
        (A, B, C, D) \<Rightarrow> (a0 + A, b0 + B, c0 + C, d0 + D)))"

definition le_bytes :: "nat \<Rightarrow> 'a::len word \<Rightarrow> string" where
  "le_bytes k w = map (\<lambda>i. char_of (uint (drop_bit (8 * i) w))) [0..<k]"

definition md5_pad :: "string \<Rightarrow> string" where
  "md5_pad m = m @ [CHR 0x80] @ replicate ((55 + 64 - length m mod 64) mod 64) (CHR 0x00)
      @ le_bytes 8 (8 * of_nat (length m) :: 64 word)"

definition md5 :: "string \<Rightarrow> string" where
  "md5 m = (case fold (\<lambda>blk h. md5_block h blk) (chunks 64 (md5_pad m))
                   (0x67452301, 0xefcdab89, 0x98badcfe, 0x10325476) of
              (a, b, c, d) \<Rightarrow> concat (map (le_bytes 4) [a, b, c, d]))"

text \<open>\<^verbatim>\<open>fmt.Sprintf(`"%s"`, s)\<close>: the string between double quotes.\<close>

definition quoted :: "string \<Rightarrow> string" where
  "quoted s = [CHR 0x22] @ s @ [CHR 0x22]"

text \<open>\<^verbatim>\<open>strings.Split(s, "/")\<close> and \<^verbatim>\<open>strings.Join(elems, "/")\<close>.\<close>

fun split_slash :: "string \<Rightarrow> string list" where
  "split_slash [] = [[]]"
| "split_slash (c # cs) =
     (if c = CHR ''/'' then [] # split_slash cs
      else (case split_slash cs of [] \<Rightarrow> [[c]] | s # ss \<Rightarrow> (c # s) # ss))"

fun join_slash :: "string list \<Rightarrow> string" where
  "join_slash [] = []"
| "join_slash [s] = s"
| "join_slash (s # t # ss) = s @ CHR ''/'' # join_slash (t # ss)"

text \<open>
  \<^verbatim>\<open>filepath.Clean\<close> works through the path elements from left to right, writing the
  result into a buffer: an empty element and \<^verbatim>\<open>.\<close> are dropped; \<^verbatim>\<open>..\<close> removes the last
  element written, unless there is none to remove (the buffer is empty or holds only
  \<^verbatim>\<open>..\<close> elements), in which case it is dropped for a rooted path and written for a
  relative one; any other element is written. \<open>clean_elems\<close> is that loop, with the
  buffer as the list of elements written so far, the last one first.
\<close>

fun clean_elems :: "bool \<Rightarrow> string list \<Rightarrow> string list \<Rightarrow> string list" where
  "clean_elems rooted out [] = rev out"
| "clean_elems rooted out (e # es) =
     (if e = [] \<or> e = ''.'' then clean_elems rooted out es
      else if e = ''..'' then
        (case out of
           [] \<Rightarrow> if rooted then clean_elems rooted [] es else clean_elems rooted [''..''] es
         | o1 # out' \<Rightarrow>
             if o1 = ''..'' then clean_elems rooted (''..'' # out) es
             else clean_elems rooted out' es)
      else clean_elems rooted (e # out) es)"

definition rooted :: "string \<Rightarrow> bool" where
  "rooted p = (case p of [] \<Rightarrow> False | c # _ \<Rightarrow> c = CHR ''/'')"

definition render_path :: "bool \<Rightarrow> string list \<Rightarrow> string" where
  "render_path r es =
     (if r then CHR ''/'' # join_slash es else if es = [] then ''.'' else join_slash es)"

definition Clean :: "string \<Rightarrow> string" where
  "Clean p = render_path (rooted p) (clean_elems (rooted p) [] (split_slash p))"

text \<open>
  \<^verbatim>\<open>filepath.Join\<close>: leading empty elements are skipped, the rest is joined with
  \<^verbatim>\<open>/\<close> and cleaned; the result is empty when every element is.
\<close>

definition Join :: "string list \<Rightarrow> string" where
  "Join elem =
     (case dropWhile (\<lambda>e. e = []) elem of [] \<Rightarrow> [] | es \<Rightarrow> Clean (join_slash es))"

text \<open>\<^verbatim>\<open>filepath.Dir\<close>: the path without its last element, cleaned.\<close>

definition Dir :: "string \<Rightarrow> string" where
  "Dir p = Clean (rev (dropWhile (\<lambda>c. c \<noteq> CHR ''/'') (rev p)))"


text \<open>
  \<^verbatim>\<open>url.QueryUnescape\<close>: \<^verbatim>\<open>%XY\<close> with two hexadecimal digits is the byte they
  denote, \<^verbatim>\<open>+\<close> is a space; a \<^verbatim>\<open>%\<close> that is not followed by two hexadecimal digits
  is an error (\<open>None\<close>).
\<close>

definition ishex :: "char \<Rightarrow> bool" where
  "ishex c = (let n = (of_char c :: nat) in
     (48 \<le> n \<and> n \<le> 57) \<or> (97 \<le> n \<and> n \<le> 102) \<or> (65 \<le> n \<and> n \<le> 70))"

definition unhex :: "char \<Rightarrow> nat" where
  "unhex c = (let n = (of_char c :: nat) in
     if 48 \<le> n \<and> n \<le> 57 then n - 48
     else if 97 \<le> n \<and> n \<le> 102 then n - 97 + 10
     else if 65 \<le> n \<and> n \<le> 70 then n - 65 + 10
     else 0)"

fun QueryUnescape :: "string \<Rightarrow> string option" where
  "QueryUnescape [] = Some []"
| "QueryUnescape (c # cs) =
     (if c = CHR ''%'' then
        (case cs of
           h1 # h2 # rest \<Rightarrow>
             if ishex h1 \<and> ishex h2
             then map_option ((#) (char_of (unhex h1 * 16 + unhex h2))) (QueryUnescape rest)
             else None
         | _ \<Rightarrow> None)
      else map_option ((#) (if c = CHR ''+'' then CHR '' '' else c)) (QueryUnescape cs))"

text \<open>\<^verbatim>\<open>path[strings.LastIndex(path, "/")+1:]\<close>: what follows the last slash.\<close>

definition after_last_slash :: "string \<Rightarrow> string" where
  "after_last_slash p = rev (takeWhile (\<lambda>c. c \<noteq> CHR ''/'') (rev p))"

section \<open>The data model\<close>

text \<open>
  The structs \<^verbatim>\<open>db.Bucket\<close> and \<^verbatim>\<open>db.File\<close>; the authenticated user that
  \<^verbatim>\<open>middleware.GetUserFromContext\<close> returns, of which the handlers read the id and
  the e-mail address. An \<^verbatim>\<open>int64\<close> is an \<^typ>\<open>int\<close> (ids and sizes are never
  computed with), a \<^verbatim>\<open>time.Time\<close> is a number of seconds, the zero time being 0.
\<close>

record User =
  user_ID :: int
  user_Email :: string

record Bucket =
  bucket_ID :: int
  bucket_Name :: string
  bucket_UserID :: int
  bucket_Description :: string
  bucket_IsPublic :: bool
  bucket_CreatedAt :: int
  bucket_UpdatedAt :: int

record File =
  file_ID :: int
  file_BucketID :: int
  file_Name :: string
  file_Path :: string
  file_ContentType :: string
  file_Size :: int
  file_ETag :: string
  file_UserID :: int
  file_CreatedAt :: int
  file_UpdatedAt :: int

datatype level = Error | Info

text \<open>
  The state the handlers work on: the rows of the tables \<^verbatim>\<open>buckets\<close> and
  \<^verbatim>\<open>files\<close> in insertion order, the last id the \<^verbatim>\<open>files\<close> table has given out, the
  directories and the regular files of the file system (by cleaned path), and the log
  (the messages of level error and info; debug messages are left out).
\<close>

record world =
  buckets :: "Bucket list"
  files :: "File list"
  last_file_id :: int
  dirs :: "string set"
  disk :: "string \<rightharpoonup> string"
  logs :: "(level \<times> string) list"

text \<open>
  What a request meets from outside the handlers: the configured
  \<^verbatim>\<open>app.storage.path\<close>, the character
  folding of the database's \<^verbatim>\<open>LIKE\<close> (the identity for an engine that compares case
  sensitively), the current time, and the operations of the database and of the file
  system that fail during this request: each operation in \<open>failing\<close> returns an error,
  and \<open>copy_fails_at = Some n\<close> makes \<^verbatim>\<open>io.Copy\<close> to the disk fail after \<open>n\<close> bytes.
\<close>

datatype operation =
  BucketGet | BucketList | BucketDelete
  | FileGet | FileInsert | FileUpdate | FileDelete | FileCount | FileList
  | MkdirAll | OsCreate | OsOpen | OsRemove

datatype error = DbFailure | IoFailure

record env =
  storage_path :: string
  like_fold :: "char \<Rightarrow> char"
  now :: int
  failing :: "operation set"
  copy_fails_at :: "nat option"

definition log_error :: "string \<Rightarrow> world \<Rightarrow> world" where
  "log_error msg w = w\<lparr>logs := logs w @ [(Error, msg)]\<rparr>"

definition log_info :: "string \<Rightarrow> world \<Rightarrow> world" where
  "log_info msg w = w\<lparr>logs := logs w @ [(Info, msg)]\<rparr>"


section \<open>The repositories\<close>

text \<open>
  The queries of \<^verbatim>\<open>db.BucketRepository\<close> and \<^verbatim>\<open>db.FileRepository\<close>, read on the
  tables of the state. A method returning \<^verbatim>\<open>(*T, error)\<close> returns \<open>Inl\<close> an error,
  \<open>Inr None\<close> for \<^verbatim>\<open>(nil, nil)\<close> (no row) or \<open>Inr (Some row)\<close>; \<^verbatim>\<open>QueryRow\<close> takes the
  first row that matches.
\<close>

definition bucket_GetByID :: "env \<Rightarrow> world \<Rightarrow> int \<Rightarrow> error + Bucket option" where
  "bucket_GetByID env w id' =
     (if BucketGet \<in> failing env then Inl DbFailure
      else Inr (find (\<lambda>b. bucket_ID b = id') (buckets w)))"

definition bucket_GetByName :: "env \<Rightarrow> world \<Rightarrow> string \<Rightarrow> int \<Rightarrow> error + Bucket option" where
  "bucket_GetByName env w name userID =
     (if BucketGet \<in> failing env then Inl DbFailure
      else Inr (find (\<lambda>b. bucket_Name b = name \<and> bucket_UserID b = userID) (buckets w)))"

definition bucket_Delete :: "env \<Rightarrow> world \<Rightarrow> int \<Rightarrow> error + world" where
  "bucket_Delete env w id' =
     (if BucketDelete \<in> failing env then Inl DbFailure
      else Inr (w\<lparr>buckets := filter (\<lambda>b. bucket_ID b \<noteq> id') (buckets w)\<rparr>))"

text \<open>
  \<^verbatim>\<open>LIMIT ? OFFSET ?\<close>: a negative offset counts as 0; a negative limit is no limit
  (SQLite, whose \<^verbatim>\<open>?\<close> placeholders the queries use). The handlers pass a positive
  limit and a non-negative offset.
\<close>

definition limit_offset :: "int \<Rightarrow> int \<Rightarrow> 'a list \<Rightarrow> 'a list" where
  "limit_offset limit offset rows =
     (let rest = drop (nat offset) rows in if limit < 0 then rest else take (nat limit) rest)"

text \<open>
  \<^verbatim>\<open>ORDER BY created_at DESC\<close>: the rows sorted by descending creation time; rows of
  equal time, whose order SQL leaves open, keep their table order.
\<close>

definition bucket_List :: "env \<Rightarrow> world \<Rightarrow> int \<Rightarrow> int \<Rightarrow> int \<Rightarrow> error + Bucket list" where
  "bucket_List env w userID limit offset =
     (if BucketList \<in> failing env then Inl DbFailure
      else Inr (limit_offset limit offset
             (sort_key (\<lambda>b. - bucket_CreatedAt b)
                (filter (\<lambda>b. bucket_UserID b = userID) (buckets w)))))"

text \<open>
  \<^verbatim>\<open>FileRepository.Create\<close>: the \<^verbatim>\<open>INSERT\<close> names the columns bucket_id, name, path,
  content_type, size, etag and user_id; the table gives the row its id and its times.
  On success the struct passed in has its \<^verbatim>\<open>ID\<close> set and is otherwise unchanged.

  Modelled from the spec: the declaration of the table \<^verbatim>\<open>files\<close> is not among the
  migrations of the source. Following section 4.3 (a unique key on (bucketID, key) is
  enforced at the storage layer) an insert of a (bucket_id, name) that a row already has
  fails; following section 3 and the tables the migrations do declare, the id is the
  next of an increasing sequence and created_at and updated_at default to the current
  time.
\<close>

definition file_Create :: "env \<Rightarrow> world \<Rightarrow> File \<Rightarrow> error + (File \<times> world)" where
  "file_Create env w file =
     (if FileInsert \<in> failing env
         \<or> (\<exists>g \<in> set (files w). file_BucketID g = file_BucketID file \<and> file_Name g = file_Name file)
      then Inl DbFailure
      else let id' = last_file_id w + 1;
               row = file\<lparr>file_ID := id', file_CreatedAt := now env, file_UpdatedAt := now env\<rparr>
           in Inr (file\<lparr>file_ID := id'\<rparr>, w\<lparr>files := files w @ [row], last_file_id := id'\<rparr>))"

definition file_GetByID :: "env \<Rightarrow> world \<Rightarrow> int \<Rightarrow> error + File option" where
  "file_GetByID env w id' =
     (if FileGet \<in> failing env then Inl DbFailure
      else Inr (find (\<lambda>f. file_ID f = id') (files w)))"

definition file_GetByName :: "env \<Rightarrow> world \<Rightarrow> int \<Rightarrow> string \<Rightarrow> error + File option" where
  "file_GetByName env w bucketID name =
     (if FileGet \<in> failing env then Inl DbFailure
      else Inr (find (\<lambda>f. file_BucketID f = bucketID \<and> file_Name f = name) (files w)))"

text \<open>
  \<^verbatim>\<open>FileRepository.Update\<close> sets name, path, content_type, size, etag and updated_at
  of the rows with the file's id; bucket_id, user_id and created_at are not among the
  columns it sets. An id that no row has is no error.
\<close>

definition file_Update :: "env \<Rightarrow> world \<Rightarrow> File \<Rightarrow> error + world" where
  "file_Update env w file =
     (if FileUpdate \<in> failing env then Inl DbFailure
      else Inr (w\<lparr>files := map (\<lambda>g. if file_ID g = file_ID file
                     then g\<lparr>file_Name := file_Name file, file_Path := file_Path file,
                            file_ContentType := file_ContentType file, file_Size := file_Size file,
                            file_ETag := file_ETag file, file_UpdatedAt := now env\<rparr>
                     else g) (files w)\<rparr>))"

definition file_Delete :: "env \<Rightarrow> world \<Rightarrow> int \<Rightarrow> error + world" where
  "file_Delete env w id' =
     (if FileDelete \<in> failing env then Inl DbFailure
      else Inr (w\<lparr>files := filter (\<lambda>f. file_ID f \<noteq> id') (files w)\<rparr>))"

definition file_List :: "env \<Rightarrow> world \<Rightarrow> int \<Rightarrow> int \<Rightarrow> int \<Rightarrow> error + File list" where
  "file_List env w bucketID limit offset =
     (if FileList \<in> failing env then Inl DbFailure
      else Inr (limit_offset limit offset
             (sort_key (\<lambda>f. - file_CreatedAt f)
                (filter (\<lambda>f. file_BucketID f = bucketID) (files w)))))"

definition file_Count :: "env \<Rightarrow> world \<Rightarrow> int \<Rightarrow> error + int" where
  "file_Count env w bucketID =
     (if FileCount \<in> failing env then Inl DbFailure
      else Inr (int (length (filter (\<lambda>f. file_BucketID f = bucketID) (files w)))))"

text \<open>
  The SQL operator \<^verbatim>\<open>LIKE\<close>: in the pattern \<^verbatim>\<open>%\<close> stands for any sequence of
  characters and \<^verbatim>\<open>_\<close> for any one character; every other character of the pattern
  stands for itself, compared after the folding of the engine.
\<close>

fun like_match :: "(char \<Rightarrow> char) \<Rightarrow> string \<Rightarrow> string \<Rightarrow> bool" where
  "like_match fd [] s = (s = [])"
| "like_match fd (p # ps) [] = (p = CHR ''%'' \<and> like_match fd ps [])"
| "like_match fd (p # ps) (c # cs) =
     (if p = CHR ''%'' then like_match fd ps (c # cs) \<or> like_match fd (p # ps) cs
      else (p = CHR ''_'' \<or> fd p = fd c) \<and> like_match fd ps cs)"

text \<open>\<^verbatim>\<open>FileRepository.ListByPrefix\<close>: \<^verbatim>\<open>name LIKE ?\<close> with the argument \<^verbatim>\<open>prefix+"%"\<close>.\<close>

definition file_ListByPrefix ::
  "env \<Rightarrow> world \<Rightarrow> int \<Rightarrow> string \<Rightarrow> int \<Rightarrow> int \<Rightarrow> error + File list" where
  "file_ListByPrefix env w bucketID prefix' limit offset =
     (if FileList \<in> failing env then Inl DbFailure
      else Inr (limit_offset limit offset
             (sort_key (\<lambda>f. - file_CreatedAt f)
                (filter (\<lambda>f. file_BucketID f = bucketID
                              \<and> like_match (like_fold env) (prefix' @ ''%'') (file_Name f))
                   (files w)))))"

section \<open>The file system\<close>

text \<open>
  Modelled from the spec: \<^verbatim>\<open>service.EnsureDir\<close> and \<^verbatim>\<open>service.FileExists\<close> are not in
  the source. Following section 4.2, \<open>EnsureDir\<close> creates the directory with every
  missing parent (it fails where one of them is a regular file) and \<open>FileExists\<close> says
  whether a file is at the path.
\<close>

definition ancestors :: "string \<Rightarrow> string list" where
  "ancestors p =
     map (render_path (rooted p)) (tl (prefixes (clean_elems (rooted p) [] (split_slash p))))"

definition EnsureDir :: "env \<Rightarrow> world \<Rightarrow> string \<Rightarrow> error + world" where
  "EnsureDir env w dir =
     (if MkdirAll \<in> failing env \<or> (\<exists>a \<in> set (ancestors dir). disk w a \<noteq> None)
      then Inl IoFailure
      else Inr (w\<lparr>dirs := dirs w \<union> set (ancestors dir)\<rparr>))"

definition FileExists :: "world \<Rightarrow> string \<Rightarrow> bool" where
  "FileExists w p = (disk w p \<noteq> None)"

text \<open>
  \<^verbatim>\<open>os.Create\<close> makes an empty file, or empties the file that is there; it fails where
  the path is a directory or its parent is not one. \<^verbatim>\<open>io.Copy\<close> to the file appends
  the content to it, or a part of the content and then fails. \<^verbatim>\<open>os.Remove\<close> deletes
  the file, or fails and leaves it (the handlers call it on regular files only); it
  fails also where no file is at the path. \<open>os_Remove_dropped\<close> is the call as a
  statement of its own, \<^verbatim>\<open>os.Remove(filePath)\<close>, whose result the caller drops: after an
  error the state is as it was. \<^verbatim>\<open>os.Open\<close> followed by reading to the end gives the
  content.
\<close>

definition os_Create :: "env \<Rightarrow> world \<Rightarrow> string \<Rightarrow> error + world" where
  "os_Create env w p =
     (if OsCreate \<in> failing env \<or> p \<in> dirs w \<or> Dir p \<notin> dirs w then Inl IoFailure
      else Inr (w\<lparr>disk := (disk w)(p \<mapsto> [])\<rparr>))"

definition io_Copy :: "env \<Rightarrow> world \<Rightarrow> string \<Rightarrow> string \<Rightarrow> (error + int) \<times> world" where
  "io_Copy env w p content =
     (let old = (case disk w p of None \<Rightarrow> [] | Some c \<Rightarrow> c) in
      case copy_fails_at env of
        Some n \<Rightarrow> (Inl IoFailure, w\<lparr>disk := (disk w)(p \<mapsto> old @ take n content)\<rparr>)
      | None \<Rightarrow> (Inr (int (length content)), w\<lparr>disk := (disk w)(p \<mapsto> old @ content)\<rparr>))"

definition os_Remove :: "env \<Rightarrow> world \<Rightarrow> string \<Rightarrow> error + world" where
  "os_Remove env w p =
     (if OsRemove \<in> failing env \<or> disk w p = None then Inl IoFailure
      else Inr (w\<lparr>disk := (disk w)(p := None)\<rparr>))"

definition os_Remove_dropped :: "env \<Rightarrow> world \<Rightarrow> string \<Rightarrow> world" where
  "os_Remove_dropped env w p = (case os_Remove env w p of Inl err \<Rightarrow> w | Inr w' \<Rightarrow> w')"

definition os_Open :: "env \<Rightarrow> world \<Rightarrow> string \<Rightarrow> error + string" where
  "os_Open env w p =
     (if OsOpen \<in> failing env then Inl IoFailure
      else case disk w p of None \<Rightarrow> Inl IoFailure | Some c \<Rightarrow> Inr c)"


section \<open>Requests and responses\<close>

text \<open>
  A response is its status code, the headers the handler sets and its body: nothing
  (\<^verbatim>\<open>w.WriteHeader\<close> alone), the map given to \<^verbatim>\<open>service.WriteJSON\<close>, the bytes copied
  from a file, or the \<^verbatim>\<open>ListBucketResult\<close> that is encoded as XML.
\<close>

datatype json =
  JInt int | JStr string | JBool bool | JTime int | JArr "json list" | JObj "(string \<times> json) list"

record Content =
  content_Key :: string
  content_LastModified :: int
  content_ETag :: string
  content_Size :: int
  content_StorageClass :: string
  content_OwnerID :: string

record ListBucketResult =
  result_Name :: string
  result_Prefix :: string
  result_MaxKeys :: int
  result_IsTruncated :: bool
  result_Contents :: "Content list"

datatype body = NoBody | JSON json | Bytes string | XML ListBucketResult

record response =
  status :: nat
  headers :: "(string \<times> string) list"
  body :: body

abbreviation StatusOK :: nat where "StatusOK \<equiv> 200"
abbreviation StatusNoContent :: nat where "StatusNoContent \<equiv> 204"
abbreviation StatusBadRequest :: nat where "StatusBadRequest \<equiv> 400"
abbreviation StatusUnauthorized :: nat where "StatusUnauthorized \<equiv> 401"
abbreviation StatusForbidden :: nat where "StatusForbidden \<equiv> 403"
abbreviation StatusNotFound :: nat where "StatusNotFound \<equiv> 404"
abbreviation StatusInternalServerError :: nat where "StatusInternalServerError \<equiv> 500"

definition error_json :: "nat \<Rightarrow> string \<Rightarrow> response" where
  "error_json code msg =
     \<lparr>status = code, headers = [], body = JSON (JObj [(''errorMessage'', JStr msg)])\<rparr>"

definition message_json :: "nat \<Rightarrow> string \<Rightarrow> response" where
  "message_json code msg =
     \<lparr>status = code, headers = [], body = JSON (JObj [(''message'', JStr msg)])\<rparr>"

definition header_only :: "nat \<Rightarrow> response" where
  "header_only code = \<lparr>status = code, headers = [], body = NoBody\<rparr>"

definition file_json :: "File \<Rightarrow> json" where
  "file_json f = JObj
     [(''id'', JInt (file_ID f)), (''name'', JStr (file_Name f)),
      (''bucket_id'', JInt (file_BucketID f)), (''content_type'', JStr (file_ContentType f)),
      (''size'', JInt (file_Size f)), (''etag'', JStr (file_ETag f)),
      (''created_at'', JTime (file_CreatedAt f)), (''updated_at'', JTime (file_UpdatedAt f))]"

definition bucket_json :: "Bucket \<Rightarrow> json" where
  "bucket_json b = JObj
     [(''id'', JInt (bucket_ID b)), (''name'', JStr (bucket_Name b)),
      (''description'', JStr (bucket_Description b)), (''is_public'', JBool (bucket_IsPublic b)),
      (''created_at'', JTime (bucket_CreatedAt b)), (''updated_at'', JTime (bucket_UpdatedAt b))]"

definition getStoragePath :: "env \<Rightarrow> string" where
  "getStoragePath env = (if storage_path env = [] then ''./storage'' else storage_path env)"

text \<open>
  The multipart form of an upload as the handler sees it: \<^verbatim>\<open>ParseMultipartForm\<close>
  fails, or \<^verbatim>\<open>FormFile("file")\<close> fails, or there is a file part with its file name,
  its \<^verbatim>\<open>Content-Type\<close> header and its content.
\<close>

datatype upload_form = BadForm | NoFile | FormFile string string string

section \<open>The native handlers\<close>

text \<open>
  Each handler takes the user of the request context (\<open>None\<close> when
  \<^verbatim>\<open>GetUserFromContext\<close> finds none), the decoded parameters of the request (a numeric
  parameter is \<open>None\<close> when \<^verbatim>\<open>strconv\<close> rejects it) and the state, and returns the
  response with the new state. The layout of a time in a header or in XML is not
  modelled: the time stands as its number of seconds.

  A long handler is written in the parts it has in the source, each part a definition
  that ends by calling the next: for \<^verbatim>\<open>UploadFile\<close> the checks of the request and of
  the bucket (lines 38 to 115 of \<^verbatim>\<open>api/file.go\<close>), the writing of the content (lines 117
  to 153) and the writing of the metadata with the response (lines 155 to 214).
\<close>

definition UploadFile_commit ::
  "env \<Rightarrow> world \<Rightarrow> User \<Rightarrow> int \<Rightarrow> string \<Rightarrow> string \<Rightarrow> string \<Rightarrow> File option \<Rightarrow> string \<Rightarrow> int
     \<Rightarrow> response \<times> world" where
  "UploadFile_commit env w3 user bucketID fileName partType content existingFile filePath size' =
   (let etag = fmt_x (md5 content);
        contentType = (if partType = [] then ''application/octet-stream'' else partType);
        dbFile = \<lparr>file_ID = 0, file_BucketID = bucketID, file_Name = fileName,
                  file_Path = filePath, file_ContentType = contentType, file_Size = size',
                  file_ETag = etag, file_UserID = user_ID user,
                  file_CreatedAt = 0, file_UpdatedAt = 0\<rparr>
    in
    case existingFile of
      Some existing \<Rightarrow>
        (case file_Update env w3 (dbFile\<lparr>file_ID := file_ID existing\<rparr>) of
           Inl err \<Rightarrow> (error_json StatusInternalServerError ''Failed to save file metadata'',
                        os_Remove_dropped env (log_error ''Failed to update file'' w3) filePath)
         | Inr w4 \<Rightarrow> (\<lparr>status = StatusOK, headers = [],
                         body = JSON (file_json (dbFile\<lparr>file_ID := file_ID existing\<rparr>))\<rparr>,
                       log_info ''File updated successfully'' w4))
    | None \<Rightarrow>
        (case file_Create env w3 dbFile of
           Inl err \<Rightarrow> (error_json StatusInternalServerError ''Failed to save file metadata'',
                        os_Remove_dropped env (log_error ''Failed to create file'' w3) filePath)
         | Inr (created, w4) \<Rightarrow>
             (\<lparr>status = StatusOK, headers = [], body = JSON (file_json created)\<rparr>,
              log_info ''File uploaded successfully'' w4)))"

definition UploadFile_store ::
  "env \<Rightarrow> world \<Rightarrow> User \<Rightarrow> int \<Rightarrow> string \<Rightarrow> string \<Rightarrow> string \<Rightarrow> File option
     \<Rightarrow> response \<times> world" where
  "UploadFile_store env w user bucketID fileName partType content existingFile =
   (let storageBase = getStoragePath env;
        storageDir = Join [storageBase, fmt_d (user_ID user), fmt_d bucketID]
    in
    case EnsureDir env w storageDir of
      Inl err \<Rightarrow> (error_json StatusInternalServerError ''Failed to create storage directory'',
                   log_error ''Failed to create storage directory'' w)
    | Inr w1 \<Rightarrow>
   (let filePath = Join [storageDir, fileName] in
    case os_Create env w1 filePath of
      Inl err \<Rightarrow> (error_json StatusInternalServerError ''Failed to save file'',
                   log_error ''Failed to create file'' w1)
    | Inr w2 \<Rightarrow>
   (case io_Copy env w2 filePath content of
      (Inl err, w3) \<Rightarrow> (error_json StatusInternalServerError ''Failed to save file'',
                         os_Remove_dropped env (log_error ''Failed to save file'' w3) filePath)
    | (Inr size', w3) \<Rightarrow>
        UploadFile_commit env w3 user bucketID fileName partType content existingFile
          filePath size')))"

definition UploadFile ::
  "env \<Rightarrow> world \<Rightarrow> User option \<Rightarrow> int option \<Rightarrow> upload_form \<Rightarrow> response \<times> world" where
  "UploadFile env w ctx bucketId form =
   (case ctx of
      None \<Rightarrow> (error_json StatusUnauthorized ''Unauthorized'', w)
    | Some user \<Rightarrow>
   (case bucketId of
      None \<Rightarrow> (error_json StatusBadRequest ''Invalid bucket ID'', w)
    | Some bucketID \<Rightarrow>
   (case bucket_GetByID env w bucketID of
      Inl err \<Rightarrow> (error_json StatusInternalServerError ''Failed to retrieve bucket'',
                   log_error ''Failed to get bucket'' w)
    | Inr None \<Rightarrow> (error_json StatusNotFound ''Bucket not found'', w)
    | Inr (Some bucket) \<Rightarrow>
   if bucket_UserID bucket \<noteq> user_ID user \<and> \<not> bucket_IsPublic bucket
   then (error_json StatusForbidden ''Access denied'', w)
   else
   (case form of
      BadForm \<Rightarrow> (error_json StatusBadRequest ''Failed to parse form'', w)
    | NoFile \<Rightarrow> (error_json StatusBadRequest ''No file provided'', w)
    | FormFile fileName partType content \<Rightarrow>
   if fileName = [] then (error_json StatusBadRequest ''Invalid file name'', w)
   else
   (case file_GetByName env w bucketID fileName of
      Inl err \<Rightarrow> (error_json StatusInternalServerError ''Failed to upload file'',
                   log_error ''Failed to check existing file'' w)
    | Inr existingFile \<Rightarrow>
        UploadFile_store env w user bucketID fileName partType content existingFile)))))"

text \<open>\<^verbatim>\<open>ListFiles\<close>: the checks (lines 221 to 261), then the page (lines 263 to 324).\<close>

definition ListFiles_page ::
  "env \<Rightarrow> world \<Rightarrow> int \<Rightarrow> int option \<Rightarrow> int option \<Rightarrow> string \<Rightarrow> response \<times> world" where
  "ListFiles_page env w bucketID limitParam offsetParam prefix' =
   (let limit = (case limitParam of
                   Some l \<Rightarrow> if l > 0 \<and> l \<le> 100 then l else 50 | None \<Rightarrow> 50);
        offset = (case offsetParam of Some off \<Rightarrow> if off \<ge> 0 then off else 0 | None \<Rightarrow> 0)
    in
    case (if prefix' \<noteq> [] then file_ListByPrefix env w bucketID prefix' limit offset
          else file_List env w bucketID limit offset) of
      Inl err \<Rightarrow> (error_json StatusInternalServerError ''Failed to list files'',
                   log_error ''Failed to list files'' w)
    | Inr listed \<Rightarrow>
   (let (total, w1) = (case file_Count env w bucketID of
                         Inl err \<Rightarrow> (0, log_error ''Failed to count files'' w)
                       | Inr n \<Rightarrow> (n, w))
    in (\<lparr>status = StatusOK, headers = [],
         body = JSON (JObj [(''files'', JArr (map file_json listed)), (''total'', JInt total),
                            (''limit'', JInt limit), (''offset'', JInt offset)])\<rparr>, w1)))"

definition ListFiles ::
  "env \<Rightarrow> world \<Rightarrow> User option \<Rightarrow> int option \<Rightarrow> int option \<Rightarrow> int option \<Rightarrow> string
     \<Rightarrow> response \<times> world" where
  "ListFiles env w ctx bucketId limitParam offsetParam prefix' =
   (case ctx of
      None \<Rightarrow> (error_json StatusUnauthorized ''Unauthorized'', w)
    | Some user \<Rightarrow>
   (case bucketId of
      None \<Rightarrow> (error_json StatusBadRequest ''Invalid bucket ID'', w)
    | Some bucketID \<Rightarrow>
   (case bucket_GetByID env w bucketID of
      Inl err \<Rightarrow> (error_json StatusInternalServerError ''Failed to retrieve bucket'',
                   log_error ''Failed to get bucket'' w)
    | Inr None \<Rightarrow> (error_json StatusNotFound ''Bucket not found'', w)
    | Inr (Some bucket) \<Rightarrow>
   if bucket_UserID bucket \<noteq> user_ID user \<and> \<not> bucket_IsPublic bucket
   then (error_json StatusForbidden ''Access denied'', w)
   else ListFiles_page env w bucketID limitParam offsetParam prefix')))"

definition GetBucket :: "env \<Rightarrow> world \<Rightarrow> User option \<Rightarrow> int option \<Rightarrow> response \<times> world" where
  "GetBucket env w ctx id' =
   (case ctx of
      None \<Rightarrow> (error_json StatusUnauthorized ''Unauthorized'', w)
    | Some user \<Rightarrow>
   (case id' of
      None \<Rightarrow> (error_json StatusBadRequest ''Invalid bucket ID'', w)
    | Some bucketID \<Rightarrow>
   (case bucket_GetByID env w bucketID of
      Inl err \<Rightarrow> (error_json StatusInternalServerError ''Failed to retrieve bucket'',
                   log_error ''Failed to get bucket'' w)
    | Inr None \<Rightarrow> (error_json StatusNotFound ''Bucket not found'', w)
    | Inr (Some bucket) \<Rightarrow>
   if bucket_UserID bucket \<noteq> user_ID user \<and> \<not> bucket_IsPublic bucket
   then (error_json StatusForbidden ''Access denied'', w)
   else (\<lparr>status = StatusOK, headers = [], body = JSON (bucket_json bucket)\<rparr>, w))))"

text \<open>
  \<^verbatim>\<open>DeleteBucket\<close>: the checks (lines 222 to 262 of \<^verbatim>\<open>api/bucket.go\<close>), then the count
  of the files and the deletion (lines 264 to 297).
\<close>

definition DeleteBucket_remove :: "env \<Rightarrow> world \<Rightarrow> int \<Rightarrow> response \<times> world" where
  "DeleteBucket_remove env w bucketID =
   (case file_Count env w bucketID of
      Inl err \<Rightarrow> (error_json StatusInternalServerError ''Failed to delete bucket'',
                   log_error ''Failed to count files'' w)
    | Inr fileCount \<Rightarrow>
   if fileCount > 0
   then (error_json StatusBadRequest ''Cannot delete bucket with existing files'', w)
   else
   (case bucket_Delete env w bucketID of
      Inl err \<Rightarrow> (error_json StatusInternalServerError ''Failed to delete bucket'',
                   log_error ''Failed to delete bucket'' w)
    | Inr w1 \<Rightarrow> (message_json StatusOK ''Bucket deleted successfully'',
                  log_info ''Bucket deleted successfully'' w1)))"

definition DeleteBucket :: "env \<Rightarrow> world \<Rightarrow> User option \<Rightarrow> int option \<Rightarrow> response \<times> world" where
  "DeleteBucket env w ctx id' =
   (case ctx of
      None \<Rightarrow> (error_json StatusUnauthorized ''Unauthorized'', w)
    | Some user \<Rightarrow>
   (case id' of
      None \<Rightarrow> (error_json StatusBadRequest ''Invalid bucket ID'', w)
    | Some bucketID \<Rightarrow>
   (case bucket_GetByID env w bucketID of
      Inl err \<Rightarrow> (error_json StatusInternalServerError ''Failed to retrieve bucket'',
                   log_error ''Failed to get bucket'' w)
    | Inr None \<Rightarrow> (error_json StatusNotFound ''Bucket not found'', w)
    | Inr (Some bucket) \<Rightarrow>
   if bucket_UserID bucket \<noteq> user_ID user
   then (error_json StatusForbidden ''Access denied'', w)
   else DeleteBucket_remove env w bucketID)))"

text \<open>
  \<^verbatim>\<open>DownloadFile\<close>: the checks (lines 415 to 464 of \<^verbatim>\<open>api/file.go\<close>), then the lookup
  of the file and the sending of its content (lines 466 to 518).
\<close>

definition DownloadFile_send :: "env \<Rightarrow> world \<Rightarrow> int \<Rightarrow> int \<Rightarrow> response \<times> world" where
  "DownloadFile_send env w bucketID fileID =
   (case file_GetByID env w fileID of
      Inl err \<Rightarrow> (error_json StatusInternalServerError ''Failed to retrieve file'',
                   log_error ''Failed to get file'' w)
    | Inr found \<Rightarrow>
   (case (case found of None \<Rightarrow> None
          | Some f \<Rightarrow> if file_BucketID f \<noteq> bucketID then None else Some f) of
      None \<Rightarrow> (error_json StatusNotFound ''File not found'', w)
    | Some file \<Rightarrow>
   if \<not> FileExists w (file_Path file)
   then (error_json StatusNotFound ''File not found on disk'', w)
   else
   (case os_Open env w (file_Path file) of
      Inl err \<Rightarrow> (error_json StatusInternalServerError ''Failed to read file'',
                   log_error ''Failed to open file'' w)
    | Inr fileData \<Rightarrow>
       (\<lparr>status = StatusOK,
         headers = [(''Content-Type'', file_ContentType file),
                    (''Content-Disposition'',
                       ''attachment; filename='' @ quoted (file_Name file)),
                    (''Content-Length'', fmt_d (file_Size file)),
                    (''ETag'', file_ETag file)],
         body = Bytes fileData\<rparr>,
        log_info ''File downloaded successfully'' w))))"

definition DownloadFile ::
  "env \<Rightarrow> world \<Rightarrow> User option \<Rightarrow> int option \<Rightarrow> int option \<Rightarrow> response \<times> world" where
  "DownloadFile env w ctx bucketId fileId =
   (case ctx of
      None \<Rightarrow> (error_json StatusUnauthorized ''Unauthorized'', w)
    | Some user \<Rightarrow>
   (case bucketId of
      None \<Rightarrow> (error_json StatusBadRequest ''Invalid bucket ID'', w)
    | Some bucketID \<Rightarrow>
   (case fileId of
      None \<Rightarrow> (error_json StatusBadRequest ''Invalid file ID'', w)
    | Some fileID \<Rightarrow>
   (case bucket_GetByID env w bucketID of
      Inl err \<Rightarrow> (error_json StatusInternalServerError ''Failed to retrieve bucket'',
                   log_error ''Failed to get bucket'' w)
    | Inr None \<Rightarrow> (error_json StatusNotFound ''Bucket not found'', w)
    | Inr (Some bucket) \<Rightarrow>
   if bucket_UserID bucket \<noteq> user_ID user \<and> \<not> bucket_IsPublic bucket
   then (error_json StatusForbidden ''Access denied'', w)
   else DownloadFile_send env w bucketID fileID))))"

text \<open>
  \<^verbatim>\<open>DeleteFile\<close>: the checks (lines 525 to 574), then the removal from the disk and
  from the table (lines 576 to 617); an error of \<^verbatim>\<open>os.Remove\<close> is logged there, and the
  row is deleted all the same.
\<close>

definition DeleteFile_remove :: "env \<Rightarrow> world \<Rightarrow> int \<Rightarrow> int \<Rightarrow> response \<times> world" where
  "DeleteFile_remove env w bucketID fileID =
   (case file_GetByID env w fileID of
      Inl err \<Rightarrow> (error_json StatusInternalServerError ''Failed to retrieve file'',
                   log_error ''Failed to get file'' w)
    | Inr found \<Rightarrow>
   (case (case found of None \<Rightarrow> None
          | Some f \<Rightarrow> if file_BucketID f \<noteq> bucketID then None else Some f) of
      None \<Rightarrow> (error_json StatusNotFound ''File not found'', w)
    | Some file \<Rightarrow>
   (let w1 = (if FileExists w (file_Path file)
              then (case os_Remove env w (file_Path file) of
                      Inl err \<Rightarrow> log_error ''Failed to delete file from disk'' w
                    | Inr w' \<Rightarrow> w')
              else w) in
    case file_Delete env w1 fileID of
      Inl err \<Rightarrow> (error_json StatusInternalServerError ''Failed to delete file'',
                   log_error ''Failed to delete file'' w1)
    | Inr w2 \<Rightarrow> (message_json StatusOK ''File deleted successfully'',
                  log_info ''File deleted successfully'' w2))))"

definition DeleteFile ::
  "env \<Rightarrow> world \<Rightarrow> User option \<Rightarrow> int option \<Rightarrow> int option \<Rightarrow> response \<times> world" where
  "DeleteFile env w ctx bucketId fileId =
   (case ctx of
      None \<Rightarrow> (error_json StatusUnauthorized ''Unauthorized'', w)
    | Some user \<Rightarrow>
   (case bucketId of
      None \<Rightarrow> (error_json StatusBadRequest ''Invalid bucket ID'', w)
    | Some bucketID \<Rightarrow>
   (case fileId of
      None \<Rightarrow> (error_json StatusBadRequest ''Invalid file ID'', w)
    | Some fileID \<Rightarrow>
   (case bucket_GetByID env w bucketID of
      Inl err \<Rightarrow> (error_json StatusInternalServerError ''Failed to retrieve bucket'',
                   log_error ''Failed to get bucket'' w)
    | Inr None \<Rightarrow> (error_json StatusNotFound ''Bucket not found'', w)
    | Inr (Some bucket) \<Rightarrow>
   if bucket_UserID bucket \<noteq> user_ID user
   then (error_json StatusForbidden ''Access denied'', w)
   else DeleteFile_remove env w bucketID fileID))))"

section \<open>The S3 handlers\<close>

text \<open>
  What the S3 handlers read of a request: the route parameters \<^verbatim>\<open>bucketName\<close> and
  \<^verbatim>\<open>*\<close>, the path of the URL, the \<^verbatim>\<open>Content-Type\<close> header, the body, and the query
  parameters \<^verbatim>\<open>prefix\<close> and \<^verbatim>\<open>max-keys\<close> (\<open>None\<close> when it is absent or
  \<^verbatim>\<open>strconv.Atoi\<close> rejects it).
\<close>

record s3_request =
  req_bucketName :: string
  req_wildcard :: string
  req_path :: string
  req_contentType :: string
  req_body :: string
  req_prefix :: string
  req_maxKeys :: "int option"

text \<open>
  The object key, as the put, get and delete handlers each compute it: the wildcard
  parameter, or the last element of the URL path when that is empty, URL-decoded when
  the decoding succeeds.
\<close>

definition object_key :: "s3_request \<Rightarrow> string" where
  "object_key r =
     (let objectKey = (if req_wildcard r = [] then after_last_slash (req_path r)
                       else req_wildcard r)
      in case QueryUnescape objectKey of Some decodedKey \<Rightarrow> decodedKey | None \<Rightarrow> objectKey)"

text \<open>
  \<^verbatim>\<open>S3PutObject\<close>: the checks (lines 217 to 256 of \<^verbatim>\<open>api/s3.go\<close>), the writing of the
  content (lines 258 to 288) and the writing of the metadata with the response (lines
  290 to 318). The results of \<^verbatim>\<open>GetByName\<close>, \<^verbatim>\<open>Update\<close> and \<^verbatim>\<open>Create\<close> on the files
  are dropped there: after an error the handler goes on with the state as it is.
\<close>

definition S3PutObject_commit ::
  "env \<Rightarrow> world \<Rightarrow> User \<Rightarrow> Bucket \<Rightarrow> string \<Rightarrow> s3_request \<Rightarrow> string \<Rightarrow> int \<Rightarrow> response \<times> world"
  where
  "S3PutObject_commit env w3 user bucket objectKey r filePath size' =
   (let etag = fmt_x (md5 (req_body r));
        contentType = (if req_contentType r = [] then ''application/octet-stream''
                       else req_contentType r);
        existingFile = (case file_GetByName env w3 (bucket_ID bucket) objectKey of
                          Inl err \<Rightarrow> None | Inr found \<Rightarrow> found);
        dbFile = \<lparr>file_ID = 0, file_BucketID = bucket_ID bucket, file_Name = objectKey,
                  file_Path = filePath, file_ContentType = contentType, file_Size = size',
                  file_ETag = etag, file_UserID = user_ID user,
                  file_CreatedAt = 0, file_UpdatedAt = 0\<rparr>;
        w4 = (case existingFile of
                Some existing \<Rightarrow>
                  (case file_Update env w3 (dbFile\<lparr>file_ID := file_ID existing\<rparr>) of
                     Inl err \<Rightarrow> w3 | Inr w' \<Rightarrow> w')
              | None \<Rightarrow>
                  (case file_Create env w3 dbFile of
                     Inl err \<Rightarrow> w3 | Inr (created, w') \<Rightarrow> w'))
    in (\<lparr>status = StatusOK, headers = [(''ETag'', quoted etag)], body = NoBody\<rparr>, w4))"

definition S3PutObject_store ::
  "env \<Rightarrow> world \<Rightarrow> User \<Rightarrow> Bucket \<Rightarrow> string \<Rightarrow> s3_request \<Rightarrow> response \<times> world" where
  "S3PutObject_store env w user bucket objectKey r =
   (let storageBase = getStoragePath env;
        storageDir = Join [storageBase, fmt_d (user_ID user), fmt_d (bucket_ID bucket)]
    in
    case EnsureDir env w storageDir of
      Inl err \<Rightarrow> (header_only StatusInternalServerError,
                   log_error ''Failed to create storage directory'' w)
    | Inr w1 \<Rightarrow>
   (let filePath = Join [storageDir, objectKey] in
    case os_Create env w1 filePath of
      Inl err \<Rightarrow> (header_only StatusInternalServerError, log_error ''Failed to create file'' w1)
    | Inr w2 \<Rightarrow>
   (case io_Copy env w2 filePath (req_body r) of
      (Inl err, w3) \<Rightarrow> (header_only StatusInternalServerError,
                         os_Remove_dropped env (log_error ''Failed to save file'' w3) filePath)
    | (Inr size', w3) \<Rightarrow> S3PutObject_commit env w3 user bucket objectKey r filePath size')))"

definition S3PutObject :: "env \<Rightarrow> world \<Rightarrow> User option \<Rightarrow> s3_request \<Rightarrow> response \<times> world" where
  "S3PutObject env w ctx r =
   (case ctx of
      None \<Rightarrow> (header_only StatusUnauthorized, w)
    | Some user \<Rightarrow>
   (let bucketName = req_bucketName r; objectKey = object_key r in
    if bucketName = [] \<or> objectKey = [] then (header_only StatusBadRequest, w)
    else
   (case bucket_GetByName env w bucketName (user_ID user) of
      Inl err \<Rightarrow> (header_only StatusInternalServerError, log_error ''Failed to get bucket'' w)
    | Inr None \<Rightarrow> (header_only StatusNotFound, w)
    | Inr (Some bucket) \<Rightarrow>
   if bucket_UserID bucket \<noteq> user_ID user \<and> \<not> bucket_IsPublic bucket
   then (header_only StatusForbidden, w)
   else S3PutObject_store env w user bucket objectKey r)))"

text \<open>
  \<^verbatim>\<open>S3GetObject\<close>: the checks (lines 326 to 365), then the lookup of the file and the
  sending of its content (lines 367 to 405).
\<close>

definition S3GetObject_send :: "env \<Rightarrow> world \<Rightarrow> Bucket \<Rightarrow> string \<Rightarrow> response \<times> world" where
  "S3GetObject_send env w bucket objectKey =
   (case file_GetByName env w (bucket_ID bucket) objectKey of
      Inl err \<Rightarrow> (header_only StatusInternalServerError, log_error ''Failed to get file'' w)
    | Inr None \<Rightarrow> (header_only StatusNotFound, w)
    | Inr (Some file) \<Rightarrow>
   if \<not> FileExists w (file_Path file) then (header_only StatusNotFound, w)
   else
   (case os_Open env w (file_Path file) of
      Inl err \<Rightarrow> (header_only StatusInternalServerError, log_error ''Failed to open file'' w)
    | Inr fileData \<Rightarrow>
       (\<lparr>status = StatusOK,
         headers = [(''Content-Type'', file_ContentType file),
                    (''Content-Length'', fmt_d (file_Size file)),
                    (''ETag'', quoted (file_ETag file)),
                    (''Last-Modified'', fmt_d (file_CreatedAt file))],
         body = Bytes fileData\<rparr>, w)))"

definition S3GetObject :: "env \<Rightarrow> world \<Rightarrow> User option \<Rightarrow> s3_request \<Rightarrow> response \<times> world" where
  "S3GetObject env w ctx r =
   (case ctx of
      None \<Rightarrow> (header_only StatusUnauthorized, w)
    | Some user \<Rightarrow>
   (let bucketName = req_bucketName r; objectKey = object_key r in
    if bucketName = [] \<or> objectKey = [] then (header_only StatusBadRequest, w)
    else
   (case bucket_GetByName env w bucketName (user_ID user) of
      Inl err \<Rightarrow> (header_only StatusInternalServerError, log_error ''Failed to get bucket'' w)
    | Inr None \<Rightarrow> (header_only StatusNotFound, w)
    | Inr (Some bucket) \<Rightarrow>
   if bucket_UserID bucket \<noteq> user_ID user \<and> \<not> bucket_IsPublic bucket
   then (header_only StatusForbidden, w)
   else S3GetObject_send env w bucket objectKey)))"

text \<open>
  \<^verbatim>\<open>S3DeleteObject\<close>: the checks (lines 413 to 452), then the removal (lines 454 to
  479).
\<close>

definition S3DeleteObject_remove :: "env \<Rightarrow> world \<Rightarrow> Bucket \<Rightarrow> string \<Rightarrow> response \<times> world" where
  "S3DeleteObject_remove env w bucket objectKey =
   (case file_GetByName env w (bucket_ID bucket) objectKey of
      Inl err \<Rightarrow> (header_only StatusInternalServerError, log_error ''Failed to get file'' w)
    | Inr None \<Rightarrow> (header_only StatusNoContent, w)
    | Inr (Some file) \<Rightarrow>
   (let w1 = (if FileExists w (file_Path file) then os_Remove_dropped env w (file_Path file)
              else w) in
    case file_Delete env w1 (file_ID file) of
      Inl err \<Rightarrow> (header_only StatusInternalServerError, log_error ''Failed to delete file'' w1)
    | Inr w2 \<Rightarrow> (header_only StatusNoContent, w2)))"

definition S3DeleteObject :: "env \<Rightarrow> world \<Rightarrow> User option \<Rightarrow> s3_request \<Rightarrow> response \<times> world" where
  "S3DeleteObject env w ctx r =
   (case ctx of
      None \<Rightarrow> (header_only StatusUnauthorized, w)
    | Some user \<Rightarrow>
   (let bucketName = req_bucketName r; objectKey = object_key r in
    if bucketName = [] \<or> objectKey = [] then (header_only StatusBadRequest, w)
    else
   (case bucket_GetByName env w bucketName (user_ID user) of
      Inl err \<Rightarrow> (header_only StatusInternalServerError, log_error ''Failed to get bucket'' w)
    | Inr None \<Rightarrow> (header_only StatusNotFound, w)
    | Inr (Some bucket) \<Rightarrow>
   if bucket_UserID bucket \<noteq> user_ID user then (header_only StatusForbidden, w)
   else S3DeleteObject_remove env w bucket objectKey)))"

text \<open>
  \<^verbatim>\<open>S3ListObjects\<close>: the lookup of the bucket and the check (lines 121 to 159), then
  the listing (lines 161 to 209). Where the bucket is not found under the user's id,
  the handler looks (under the comment "Try public buckets") through
  \<^verbatim>\<open>bucketRepo.List(user.ID, 1000, 0)\<close>, the buckets of the same user, for a public
  bucket of that name.
\<close>

definition S3ListObjects_page :: "env \<Rightarrow> world \<Rightarrow> Bucket \<Rightarrow> s3_request \<Rightarrow> response \<times> world" where
  "S3ListObjects_page env w bucket r =
   (let prefix' = req_prefix r;
        maxKeys = (case req_maxKeys r of Some mk \<Rightarrow> if mk > 0 then mk else 1000 | None \<Rightarrow> 1000)
    in
    case (if prefix' \<noteq> [] then file_ListByPrefix env w (bucket_ID bucket) prefix' maxKeys 0
          else file_List env w (bucket_ID bucket) maxKeys 0) of
      Inl err \<Rightarrow> (header_only StatusInternalServerError, log_error ''Failed to list files'' w)
    | Inr listed \<Rightarrow>
       (\<lparr>status = StatusOK, headers = [(''Content-Type'', ''application/xml'')],
         body = XML \<lparr>result_Name = req_bucketName r, result_Prefix = prefix',
                      result_MaxKeys = maxKeys, result_IsTruncated = False,
                      result_Contents =
                        map (\<lambda>file. \<lparr>content_Key = file_Name file,
                                      content_LastModified = file_CreatedAt file,
                                      content_ETag = quoted (file_ETag file),
                                      content_Size = file_Size file,
                                      content_StorageClass = ''STANDARD'',
                                      content_OwnerID = fmt_d (file_UserID file)\<rparr>) listed\<rparr>\<rparr>,
        w))"

definition S3ListObjects :: "env \<Rightarrow> world \<Rightarrow> User option \<Rightarrow> s3_request \<Rightarrow> response \<times> world" where
  "S3ListObjects env w ctx r =
   (case ctx of
      None \<Rightarrow> (header_only StatusUnauthorized, w)
    | Some user \<Rightarrow>
   (let bucketName = req_bucketName r in
    if bucketName = [] then (header_only StatusBadRequest, w)
    else
   (case bucket_GetByName env w bucketName (user_ID user) of
      Inl err \<Rightarrow> (header_only StatusInternalServerError, log_error ''Failed to get bucket'' w)
    | Inr found \<Rightarrow>
   (case (case found of
            Some b \<Rightarrow> Some b
          | None \<Rightarrow>
              find (\<lambda>b. bucket_Name b = bucketName \<and> bucket_IsPublic b)
                (case bucket_List env w (user_ID user) 1000 0 of
                   Inl err \<Rightarrow> [] | Inr bs \<Rightarrow> bs)) of
      None \<Rightarrow> (header_only StatusNotFound, w)
    | Some bucket \<Rightarrow>
   if bucket_UserID bucket \<noteq> user_ID user \<and> \<not> bucket_IsPublic bucket
   then (header_only StatusForbidden, w)
   else S3ListObjects_page env w bucket r))))"

section \<open>Notions for stating the results\<close>

text \<open>
  The path both put handlers write to (\<^verbatim>\<open>filePath\<close>, line 129 of \<^verbatim>\<open>api/file.go\<close> and
  line 268 of \<^verbatim>\<open>api/s3.go\<close>; its directory \<^verbatim>\<open>storageDir\<close> is \<open>storage_dir\<close> below), the
  content type they store, the row an \<^verbatim>\<open>UPDATE\<close>
  and an \<^verbatim>\<open>INSERT\<close> of theirs leave in the table, and with these the table of files
  after a put whose database operations succeed: the first row of the key updated in
  place where there is one (with every row that shares its id), a new row at the end
  otherwise. \<open>put_file_id\<close> is the id of that row, \<open>stored_row\<close> the row itself.

  \<open>wf_files\<close> is what the table gives a state: no two rows share an id, and no id is
  above the last one given out.
\<close>

definition upload_path :: "env \<Rightarrow> int \<Rightarrow> int \<Rightarrow> string \<Rightarrow> string" where
  "upload_path env userID bucketID key =
     Join [Join [getStoragePath env, fmt_d userID, fmt_d bucketID], key]"

definition content_type_or_default :: "string \<Rightarrow> string" where
  "content_type_or_default t = (if t = [] then ''application/octet-stream'' else t)"

definition updated_row :: "env \<Rightarrow> string \<Rightarrow> string \<Rightarrow> string \<Rightarrow> string \<Rightarrow> File \<Rightarrow> File" where
  "updated_row env key path ctype content g =
     g\<lparr>file_Name := key, file_Path := path, file_ContentType := content_type_or_default ctype,
       file_Size := int (length content), file_ETag := fmt_x (md5 content),
       file_UpdatedAt := now env\<rparr>"

definition inserted_row :: "env \<Rightarrow> int \<Rightarrow> int \<Rightarrow> int \<Rightarrow> string \<Rightarrow> string \<Rightarrow> string \<Rightarrow> string \<Rightarrow> File" where
  "inserted_row env id' userID bucketID key path ctype content =
     \<lparr>file_ID = id', file_BucketID = bucketID, file_Name = key, file_Path = path,
      file_ContentType = content_type_or_default ctype, file_Size = int (length content),
      file_ETag = fmt_x (md5 content), file_UserID = userID,
      file_CreatedAt = now env, file_UpdatedAt = now env\<rparr>"

definition put_files :: "env \<Rightarrow> world \<Rightarrow> int \<Rightarrow> int \<Rightarrow> string \<Rightarrow> string \<Rightarrow> string \<Rightarrow> string \<Rightarrow> File list" where
  "put_files env w userID bucketID key path ctype content =
     (case find (\<lambda>f. file_BucketID f = bucketID \<and> file_Name f = key) (files w) of
        Some existing \<Rightarrow>
          map (\<lambda>g. if file_ID g = file_ID existing
                    then updated_row env key path ctype content g else g) (files w)
      | None \<Rightarrow>
          files w @ [inserted_row env (last_file_id w + 1) userID bucketID key path ctype content])"

definition put_file_id :: "world \<Rightarrow> int \<Rightarrow> string \<Rightarrow> int" where
  "put_file_id w bucketID key =
     (case find (\<lambda>f. file_BucketID f = bucketID \<and> file_Name f = key) (files w) of
        Some existing \<Rightarrow> file_ID existing | None \<Rightarrow> last_file_id w + 1)"

text \<open>
  \<open>can_create env w dir path\<close>: in the state \<open>w\<close>, \<^verbatim>\<open>EnsureDir\<close> on the directory
  and then \<^verbatim>\<open>os.Create\<close> on the path both succeed, so that a put handler gets as far
  as the copy of the content.
\<close>

definition can_create :: "env \<Rightarrow> world \<Rightarrow> string \<Rightarrow> string \<Rightarrow> bool" where
  "can_create env w dir path =
     (case EnsureDir env w dir of
        Inl err \<Rightarrow> False
      | Inr w1 \<Rightarrow> (case os_Create env w1 path of Inl err \<Rightarrow> False | Inr w2 \<Rightarrow> True))"

definition storage_dir :: "env \<Rightarrow> int \<Rightarrow> int \<Rightarrow> string" where
  "storage_dir env userID bucketID = Join [getStoragePath env, fmt_d userID, fmt_d bucketID]"

definition wf_files :: "world \<Rightarrow> bool" where
  "wf_files w = (distinct (map file_ID (files w))
                 \<and> (\<forall>f \<in> set (files w). file_ID f \<le> last_file_id w))"

definition stored_row :: "env \<Rightarrow> world \<Rightarrow> int \<Rightarrow> int \<Rightarrow> string \<Rightarrow> string \<Rightarrow> string \<Rightarrow> string \<Rightarrow> File" where
  "stored_row env w userID bucketID key path ctype content =
     (case find (\<lambda>f. file_BucketID f = bucketID \<and> file_Name f = key) (files w) of
        Some existing \<Rightarrow> updated_row env key path ctype content existing
      | None \<Rightarrow> inserted_row env (last_file_id w + 1) userID bucketID key path ctype content)"

section \<open>Example states\<close>

text \<open>
  Two users, a bucket \<^verbatim>\<open>logs\<close> with id 1 that belongs to the first of them, and a
  state that holds this bucket and no file; the working directory is the only
  directory. No operation fails in \<open>env0\<close>.
\<close>

definition alice :: User where
  "alice = \<lparr>user_ID = 1, user_Email = ''alice@example.com''\<rparr>"

definition bob :: User where
  "bob = \<lparr>user_ID = 2, user_Email = ''bob@example.com''\<rparr>"

definition env0 :: env where
  "env0 = \<lparr>storage_path = [], like_fold = id, now = 1700000000, failing = {},
            copy_fails_at = None\<rparr>"

definition logs_bucket :: "bool \<Rightarrow> Bucket" where
  "logs_bucket pub =
     \<lparr>bucket_ID = 1, bucket_Name = ''logs'', bucket_UserID = 1, bucket_Description = [],
      bucket_IsPublic = pub, bucket_CreatedAt = 1600000000, bucket_UpdatedAt = 1600000000\<rparr>"

definition world0 :: "bool \<Rightarrow> world" where
  "world0 pub = \<lparr>buckets = [logs_bucket pub], files = [], last_file_id = 0, dirs = {''.''},
                  disk = Map.empty, logs = []\<rparr>"

text \<open>
  A state in which the bucket holds one file, \<^verbatim>\<open>a.txt\<close> with the content
  \<^verbatim>\<open>hello\<close>, uploaded by the owner.
\<close>

definition hello_file :: File where
  "hello_file =
     \<lparr>file_ID = 1, file_BucketID = 1, file_Name = ''a.txt'', file_Path = ''storage/1/1/a.txt'',
      file_ContentType = ''text/plain'', file_Size = 5,
      file_ETag = ''5d41402abc4b2a76b9719d911017c592'', file_UserID = 1,
      file_CreatedAt = 1650000000, file_UpdatedAt = 1650000000\<rparr>"

definition world1 :: "bool \<Rightarrow> world" where
  "world1 pub =
     \<lparr>buckets = [logs_bucket pub], files = [hello_file], last_file_id = 1,
      dirs = {''.'', ''storage'', ''storage/1'', ''storage/1/1''},
      disk = [''storage/1/1/a.txt'' \<mapsto> ''hello''], logs = []\<rparr>"




text \<open>The copy of the content to the disk fails after two bytes; nothing else fails.\<close>

definition env_copy_fails :: env where
  "env_copy_fails = env0\<lparr>copy_fails_at := Some 2\<rparr>"

definition put_request :: "string \<Rightarrow> string \<Rightarrow> s3_request" where
  "put_request key content =
     \<lparr>req_bucketName = ''logs'', req_wildcard = key, req_path = ''/logs/'' @ key,
      req_contentType = ''text/plain'', req_body = content, req_prefix = [],
      req_maxKeys = None\<rparr>"

section \<open>Basic facts\<close>

declare dec_nat.simps [simp del] chunks.simps [simp del]

lemma md5_hello: "fmt_x (md5 ''hello'') = ''5d41402abc4b2a76b9719d911017c592''"
  by code_simp

lemma log_error_simps [simp]:
  "buckets (log_error m w) = buckets w" "files (log_error m w) = files w"
  "last_file_id (log_error m w) = last_file_id w" "dirs (log_error m w) = dirs w"
  "disk (log_error m w) = disk w" "logs (log_error m w) = logs w @ [(Error, m)]"
  by (simp_all add: log_error_def)

lemma log_info_simps [simp]:
  "buckets (log_info m w) = buckets w" "files (log_info m w) = files w"
  "last_file_id (log_info m w) = last_file_id w" "dirs (log_info m w) = dirs w"
  "disk (log_info m w) = disk w" "logs (log_info m w) = logs w @ [(Info, m)]"
  by (simp_all add: log_info_def)

lemma os_Remove_dropped_simps [simp]:
  "buckets (os_Remove_dropped env w p) = buckets w" "files (os_Remove_dropped env w p) = files w"
  "last_file_id (os_Remove_dropped env w p) = last_file_id w"
  "dirs (os_Remove_dropped env w p) = dirs w" "logs (os_Remove_dropped env w p) = logs w"
  "disk (os_Remove_dropped env w p)
     = (if OsRemove \<in> failing env then disk w else (disk w)(p := None))"
  by (auto simp: os_Remove_dropped_def os_Remove_def)

lemma status_error_json [simp]: "status (error_json c m) = c"
  by (simp add: error_json_def)

lemma status_message_json [simp]: "status (message_json c m) = c"
  by (simp add: message_json_def)

lemma status_header_only [simp]: "status (header_only c) = c"
  by (simp add: header_only_def)

lemma EnsureDir_Inr:
  assumes "EnsureDir env w d = Inr w1"
  shows "disk w1 = disk w" "files w1 = files w" "buckets w1 = buckets w"
    "last_file_id w1 = last_file_id w" "logs w1 = logs w" "dirs w1 = dirs w \<union> set (ancestors d)"
  using assms by (auto simp: EnsureDir_def split: if_splits)

lemma os_Create_Inr:
  assumes "os_Create env w p = Inr w2"
  shows "disk w2 = (disk w)(p \<mapsto> [])" "files w2 = files w" "buckets w2 = buckets w"
    "last_file_id w2 = last_file_id w" "logs w2 = logs w" "dirs w2 = dirs w"
  using assms by (auto simp: os_Create_def split: if_splits)

lemma io_Copy_fails:
  assumes "copy_fails_at env = Some n"
  shows "io_Copy env w p c =
    (Inl IoFailure, w\<lparr>disk := (disk w)(p \<mapsto> (case disk w p of None \<Rightarrow> [] | Some old \<Rightarrow> old) @ take n c)\<rparr>)"
  using assms by (simp add: io_Copy_def)

lemma io_Copy_succeeds:
  assumes "copy_fails_at env = None"
  shows "io_Copy env w p c =
    (Inr (int (length c)), w\<lparr>disk := (disk w)(p \<mapsto> (case disk w p of None \<Rightarrow> [] | Some old \<Rightarrow> old) @ c)\<rparr>)"
  using assms by (simp add: io_Copy_def)

section \<open>What a successful put does\<close>

lemma find_None_no_dup:
  "find (\<lambda>f. file_BucketID f = b \<and> file_Name f = k) fs = None
     \<Longrightarrow> \<not> (\<exists>g \<in> set fs. file_BucketID g = b \<and> file_Name g = k)"
  by (auto simp: find_None_iff)

lemma UploadFile_commit_ok:
  assumes "UploadFile_commit env w3 user bucketID fileName partType content existingFile filePath
             (int (length content)) = (resp, w')"
    and "status resp = StatusOK"
    and "existingFile = find (\<lambda>f. file_BucketID f = bucketID \<and> file_Name f = fileName) (files w3)"
  shows "files w' = put_files env w3 (user_ID user) bucketID fileName filePath partType content"
    and "disk w' = disk w3" and "buckets w' = buckets w3" and "dirs w' = dirs w3"
    and "last_file_id w' = (case existingFile of Some e \<Rightarrow> last_file_id w3 | None \<Rightarrow> last_file_id w3 + 1)"
    and "\<exists>f. body resp = JSON (file_json f) \<and> file_ID f = put_file_id w3 bucketID fileName
            \<and> file_ETag f = fmt_x (md5 content) \<and> file_Size f = int (length content)
            \<and> file_Name f = fileName \<and> file_BucketID f = bucketID"
  using assms
  by (auto simp: UploadFile_commit_def Let_def file_Update_def file_Create_def put_files_def
        put_file_id_def updated_row_def inserted_row_def content_type_or_default_def
        split: option.splits sum.splits if_splits dest: find_None_no_dup)


lemma io_Copy_Inr:
  assumes "io_Copy env w p c = (Inr n, w3)"
  shows "copy_fails_at env = None" and "n = int (length c)"
    and "disk w3 = (disk w)(p \<mapsto> (case disk w p of None \<Rightarrow> [] | Some old \<Rightarrow> old) @ c)"
    and "files w3 = files w" and "buckets w3 = buckets w" and "dirs w3 = dirs w"
    and "last_file_id w3 = last_file_id w" and "logs w3 = logs w"
  using assms by (auto simp: io_Copy_def Let_def split: option.splits)

lemma UploadFile_store_ok:
  assumes run: "UploadFile_store env w user bucketID fileName partType content existingFile = (resp, w')"
    and ok: "status resp = StatusOK"
    and ex: "existingFile = find (\<lambda>f. file_BucketID f = bucketID \<and> file_Name f = fileName) (files w)"
  shows "files w' = put_files env w (user_ID user) bucketID fileName
                      (upload_path env (user_ID user) bucketID fileName) partType content"
    and "disk w' = (disk w)(upload_path env (user_ID user) bucketID fileName \<mapsto> content)"
    and "buckets w' = buckets w"
    and "last_file_id w' = (case existingFile of Some e \<Rightarrow> last_file_id w | None \<Rightarrow> last_file_id w + 1)"
    and "\<exists>f. body resp = JSON (file_json f) \<and> file_ID f = put_file_id w bucketID fileName
            \<and> file_ETag f = fmt_x (md5 content) \<and> file_Size f = int (length content)
            \<and> file_Name f = fileName \<and> file_BucketID f = bucketID"
    and "copy_fails_at env = None"
proof -
  define dir where "dir = Join [getStoragePath env, fmt_d (user_ID user), fmt_d bucketID]"
  define path where "path = Join [dir, fileName]"
  have path_eq: "path = upload_path env (user_ID user) bucketID fileName"
    by (simp add: path_def dir_def upload_path_def)
  from run ok obtain w1 where w1: "EnsureDir env w dir = Inr w1"
    by (cases "EnsureDir env w dir") (auto simp: UploadFile_store_def Let_def dir_def)
  from run ok w1 obtain w2 where w2: "os_Create env w1 path = Inr w2"
    by (cases "os_Create env w1 path") (auto simp: UploadFile_store_def Let_def dir_def path_def)
  obtain res w3 where cp: "io_Copy env w2 path content = (res, w3)"
    by (cases "io_Copy env w2 path content")
  from run ok w1 w2 cp obtain n where res: "res = Inr n"
    by (cases res) (auto simp: UploadFile_store_def Let_def dir_def path_def)
  note c = io_Copy_Inr[OF cp[unfolded res]]
  from run w1 w2 cp res c(2)
  have commit: "UploadFile_commit env w3 user bucketID fileName partType content existingFile path
             (int (length content)) = (resp, w')"
    by (simp add: UploadFile_store_def Let_def dir_def path_def)
  have f3: "files w3 = files w"
    by (simp add: c EnsureDir_Inr[OF w1] os_Create_Inr[OF w2])
  have l3: "last_file_id w3 = last_file_id w"
    by (simp add: c EnsureDir_Inr[OF w1] os_Create_Inr[OF w2])
  have d3: "disk w3 = (disk w)(path \<mapsto> content)"
    by (simp add: c EnsureDir_Inr[OF w1] os_Create_Inr[OF w2])
  have b3: "buckets w3 = buckets w"
    by (simp add: c EnsureDir_Inr[OF w1] os_Create_Inr[OF w2])
  have ex3: "existingFile = find (\<lambda>f. file_BucketID f = bucketID \<and> file_Name f = fileName) (files w3)"
    by (simp add: ex f3)
  note k = UploadFile_commit_ok[OF commit ok ex3]
  show "files w' = put_files env w (user_ID user) bucketID fileName
                      (upload_path env (user_ID user) bucketID fileName) partType content"
    using k(1) unfolding put_files_def f3 l3 path_eq by simp
  show "disk w' = (disk w)(upload_path env (user_ID user) bucketID fileName \<mapsto> content)"
    using k(2) d3 by (simp add: path_eq)
  show "buckets w' = buckets w"
    using k(3) b3 by simp
  show "last_file_id w' = (case existingFile of Some e \<Rightarrow> last_file_id w | None \<Rightarrow> last_file_id w + 1)"
    using k(5) unfolding l3 by simp
  show "\<exists>f. body resp = JSON (file_json f) \<and> file_ID f = put_file_id w bucketID fileName
            \<and> file_ETag f = fmt_x (md5 content) \<and> file_Size f = int (length content)
            \<and> file_Name f = fileName \<and> file_BucketID f = bucketID"
    using k(6) unfolding put_file_id_def f3 l3 by simp
  show "copy_fails_at env = None"
    by (rule c(1))
qed

lemma UploadFile_ok:
  assumes run: "UploadFile env w (Some user) (Some bucketID) (FormFile fileName partType content)
                  = (resp, w')"
    and ok: "status resp = StatusOK"
  shows "\<exists>bucket. bucket_GetByID env w bucketID = Inr (Some bucket)
            \<and> (bucket_UserID bucket = user_ID user \<or> bucket_IsPublic bucket)"
    and "fileName \<noteq> []"
    and "UploadFile_store env w user bucketID fileName partType content
           (find (\<lambda>f. file_BucketID f = bucketID \<and> file_Name f = fileName) (files w)) = (resp, w')"
proof -
  from run ok obtain bucket where b: "bucket_GetByID env w bucketID = Inr (Some bucket)"
    by (cases "bucket_GetByID env w bucketID") (auto simp: UploadFile_def split: option.splits)
  from run ok b have acc: "bucket_UserID bucket = user_ID user \<or> bucket_IsPublic bucket"
    by (auto simp: UploadFile_def split: if_splits)
  from run ok b acc have ne: "fileName \<noteq> []"
    by (auto simp: UploadFile_def split: if_splits)
  from run ok b acc ne obtain existingFile where
    g: "file_GetByName env w bucketID fileName = Inr existingFile"
    by (cases "file_GetByName env w bucketID fileName") (auto simp: UploadFile_def)
  then have e: "existingFile = find (\<lambda>f. file_BucketID f = bucketID \<and> file_Name f = fileName) (files w)"
    by (auto simp: file_GetByName_def split: if_splits)
  show "\<exists>bucket. bucket_GetByID env w bucketID = Inr (Some bucket)
            \<and> (bucket_UserID bucket = user_ID user \<or> bucket_IsPublic bucket)"
    using b acc by blast
  show "fileName \<noteq> []" by (rule ne)
  show "UploadFile_store env w user bucketID fileName partType content
           (find (\<lambda>f. file_BucketID f = bucketID \<and> file_Name f = fileName) (files w)) = (resp, w')"
    using run b acc ne g e by (auto simp: UploadFile_def)
qed


lemma find_SomeD: "find P xs = Some x \<Longrightarrow> P x \<and> x \<in> set xs"
  by (auto simp: find_Some_iff)

lemma find_map_same:
  "(\<forall>x \<in> set xs. P (g x) = P x) \<Longrightarrow> find P (map g xs) = map_option g (find P xs)"
  by (induction xs) auto

lemma find_snoc:
  "find P (xs @ [y]) = (case find P xs of Some x \<Rightarrow> Some x | None \<Rightarrow> if P y then Some y else None)"
  by (induction xs) auto

lemma find_by_id_distinct:
  assumes "distinct (map file_ID fs)" and "e \<in> set fs"
  shows "find (\<lambda>f. file_ID f = file_ID e) fs = Some e"
  using assms
proof (induction fs)
  case Nil
  then show ?case by simp
next
  case (Cons a fs)
  then show ?case by (cases "a = e") (auto simp: image_iff)
qed

lemma same_id_same_row:
  assumes "distinct (map file_ID fs)" and "e \<in> set fs" and "x \<in> set fs" and "file_ID x = file_ID e"
  shows "x = e"
  using assms by (meson distinct_map inj_onD)

lemma stored_row_fields:
  "file_ID (stored_row env w u b k p t c) = put_file_id w b k"
  "file_Path (stored_row env w u b k p t c) = p"
  "file_ETag (stored_row env w u b k p t c) = fmt_x (md5 c)"
  "file_Size (stored_row env w u b k p t c) = int (length c)"
  "file_ContentType (stored_row env w u b k p t c) = content_type_or_default t"
  "file_UpdatedAt (stored_row env w u b k p t c) = now env"
  "file_Name (stored_row env w u b k p t c) = k"
  "file_BucketID (stored_row env w u b k p t c) = b"
  by (auto simp: stored_row_def put_file_id_def updated_row_def inserted_row_def
      split: option.splits dest: find_SomeD)

lemma find_key_put_files:
  assumes "wf_files w"
  shows "find (\<lambda>f. file_BucketID f = b \<and> file_Name f = k) (put_files env w u b k p t c)
           = Some (stored_row env w u b k p t c)"
proof (cases "find (\<lambda>f. file_BucketID f = b \<and> file_Name f = k) (files w)")
  case None
  then show ?thesis
    by (simp add: put_files_def stored_row_def find_snoc inserted_row_def)
next
  case (Some e)
  then have e: "e \<in> set (files w)" "file_BucketID e = b" "file_Name e = k"
    by (auto dest: find_SomeD)
  from assms have d: "distinct (map file_ID (files w))"
    by (simp add: wf_files_def)
  let ?g = "\<lambda>g. if file_ID g = file_ID e then updated_row env k p t c g else g"
  have "\<forall>x \<in> set (files w).
          (file_BucketID (?g x) = b \<and> file_Name (?g x) = k) = (file_BucketID x = b \<and> file_Name x = k)"
    using same_id_same_row[OF d e(1)] e(2,3) by (auto simp: updated_row_def)
  then show ?thesis
    using Some by (simp add: put_files_def stored_row_def find_map_same)
qed

lemma find_id_put_files:
  assumes "wf_files w"
  shows "find (\<lambda>f. file_ID f = put_file_id w b k) (put_files env w u b k p t c)
           = Some (stored_row env w u b k p t c)"
proof (cases "find (\<lambda>f. file_BucketID f = b \<and> file_Name f = k) (files w)")
  case None
  from assms have "\<forall>f \<in> set (files w). file_ID f \<noteq> last_file_id w + 1"
    by (auto simp: wf_files_def)
  then have "find (\<lambda>f. file_ID f = last_file_id w + 1) (files w) = None"
    by (simp add: find_None_iff)
  with None show ?thesis
    by (simp add: put_files_def stored_row_def put_file_id_def find_snoc inserted_row_def)
next
  case (Some e)
  then have e: "e \<in> set (files w)"
    by (auto dest: find_SomeD)
  from assms have d: "distinct (map file_ID (files w))"
    by (simp add: wf_files_def)
  let ?g = "\<lambda>g. if file_ID g = file_ID e then updated_row env k p t c g else g"
  have "\<forall>x \<in> set (files w). (file_ID (?g x) = file_ID e) = (file_ID x = file_ID e)"
    by (auto simp: updated_row_def)
  then have "find (\<lambda>f. file_ID f = file_ID e) (map ?g (files w))
               = map_option ?g (find (\<lambda>f. file_ID f = file_ID e) (files w))"
    by (rule find_map_same)
  then show ?thesis
    using Some find_by_id_distinct[OF d e]
    by (simp add: put_files_def stored_row_def put_file_id_def)
qed

lemma file_ID_update_comp:
  "file_ID \<circ> (\<lambda>g. if file_ID g = i then updated_row env k p t c g else g) = file_ID"
  by (auto simp: fun_eq_iff updated_row_def)

lemma wf_files_put:
  assumes "wf_files w" and "files w' = put_files env w u b k p t c"
    and "last_file_id w' = (case find (\<lambda>f. file_BucketID f = b \<and> file_Name f = k) (files w) of
                             Some e \<Rightarrow> last_file_id w | None \<Rightarrow> last_file_id w + 1)"
  shows "wf_files w'"
proof (cases "find (\<lambda>f. file_BucketID f = b \<and> file_Name f = k) (files w)")
  case None
  with assms show ?thesis
    by (auto simp: wf_files_def put_files_def inserted_row_def)
next
  case (Some e)
  with assms show ?thesis
    by (auto simp: wf_files_def put_files_def file_ID_update_comp updated_row_def)
qed

lemma length_put_files_existing:
  assumes "find (\<lambda>f. file_BucketID f = b \<and> file_Name f = k) (files w) = Some e"
  shows "length (put_files env w u b k p t c) = length (files w)"
  using assms by (simp add: put_files_def)


lemma S3PutObject_commit_ok:
  assumes nf: "FileGet \<notin> failing env" "FileInsert \<notin> failing env" "FileUpdate \<notin> failing env"
    and run: "S3PutObject_commit env w3 user bucket objectKey r filePath (int (length (req_body r)))
             = (resp, w')"
  shows "files w' = put_files env w3 (user_ID user) (bucket_ID bucket) objectKey filePath
                      (req_contentType r) (req_body r)"
    and "disk w' = disk w3" and "buckets w' = buckets w3"
    and "last_file_id w' =
           (case find (\<lambda>f. file_BucketID f = bucket_ID bucket \<and> file_Name f = objectKey) (files w3) of
              Some e \<Rightarrow> last_file_id w3 | None \<Rightarrow> last_file_id w3 + 1)"
    and "resp = \<lparr>status = StatusOK, headers = [(''ETag'', quoted (fmt_x (md5 (req_body r))))],
                 body = NoBody\<rparr>"
  using assms
  by (auto simp: S3PutObject_commit_def Let_def file_GetByName_def file_Update_def file_Create_def
        put_files_def updated_row_def inserted_row_def content_type_or_default_def
        split: option.splits dest: find_None_no_dup)

lemma S3PutObject_store_ok:
  assumes nf: "FileGet \<notin> failing env" "FileInsert \<notin> failing env" "FileUpdate \<notin> failing env"
    and run: "S3PutObject_store env w user bucket objectKey r = (resp, w')"
    and ok: "status resp = StatusOK"
  shows "files w' = put_files env w (user_ID user) (bucket_ID bucket) objectKey
                      (upload_path env (user_ID user) (bucket_ID bucket) objectKey)
                      (req_contentType r) (req_body r)"
    and "disk w' = (disk w)(upload_path env (user_ID user) (bucket_ID bucket) objectKey \<mapsto> req_body r)"
    and "buckets w' = buckets w"
    and "last_file_id w' =
           (case find (\<lambda>f. file_BucketID f = bucket_ID bucket \<and> file_Name f = objectKey) (files w) of
              Some e \<Rightarrow> last_file_id w | None \<Rightarrow> last_file_id w + 1)"
    and "resp = \<lparr>status = StatusOK, headers = [(''ETag'', quoted (fmt_x (md5 (req_body r))))],
                 body = NoBody\<rparr>"
proof -
  define dir where "dir = Join [getStoragePath env, fmt_d (user_ID user), fmt_d (bucket_ID bucket)]"
  define path where "path = Join [dir, objectKey]"
  have path_eq: "path = upload_path env (user_ID user) (bucket_ID bucket) objectKey"
    by (simp add: path_def dir_def upload_path_def)
  from run ok obtain w1 where w1: "EnsureDir env w dir = Inr w1"
    by (cases "EnsureDir env w dir") (auto simp: S3PutObject_store_def Let_def dir_def)
  from run ok w1 obtain w2 where w2: "os_Create env w1 path = Inr w2"
    by (cases "os_Create env w1 path") (auto simp: S3PutObject_store_def Let_def dir_def path_def)
  obtain res w3 where cp: "io_Copy env w2 path (req_body r) = (res, w3)"
    by (cases "io_Copy env w2 path (req_body r)")
  from run ok w1 w2 cp obtain n where res: "res = Inr n"
    by (cases res) (auto simp: S3PutObject_store_def Let_def dir_def path_def)
  note c = io_Copy_Inr[OF cp[unfolded res]]
  from run w1 w2 cp res c(2)
  have commit: "S3PutObject_commit env w3 user bucket objectKey r path (int (length (req_body r)))
                  = (resp, w')"
    by (simp add: S3PutObject_store_def Let_def dir_def path_def)
  have f3: "files w3 = files w"
    by (simp add: c EnsureDir_Inr[OF w1] os_Create_Inr[OF w2])
  have l3: "last_file_id w3 = last_file_id w"
    by (simp add: c EnsureDir_Inr[OF w1] os_Create_Inr[OF w2])
  have d3: "disk w3 = (disk w)(path \<mapsto> req_body r)"
    by (simp add: c EnsureDir_Inr[OF w1] os_Create_Inr[OF w2])
  have b3: "buckets w3 = buckets w"
    by (simp add: c EnsureDir_Inr[OF w1] os_Create_Inr[OF w2])
  note k = S3PutObject_commit_ok[OF nf commit]
  show "files w' = put_files env w (user_ID user) (bucket_ID bucket) objectKey
                      (upload_path env (user_ID user) (bucket_ID bucket) objectKey)
                      (req_contentType r) (req_body r)"
    using k(1) unfolding put_files_def f3 l3 path_eq by simp
  show "disk w' = (disk w)(upload_path env (user_ID user) (bucket_ID bucket) objectKey \<mapsto> req_body r)"
    using k(2) d3 by (simp add: path_eq)
  show "buckets w' = buckets w"
    using k(3) b3 by simp
  show "last_file_id w' =
           (case find (\<lambda>f. file_BucketID f = bucket_ID bucket \<and> file_Name f = objectKey) (files w) of
              Some e \<Rightarrow> last_file_id w | None \<Rightarrow> last_file_id w + 1)"
    using k(4) unfolding f3 l3 by simp
  show "resp = \<lparr>status = StatusOK, headers = [(''ETag'', quoted (fmt_x (md5 (req_body r))))],
                 body = NoBody\<rparr>"
    by (rule k(5))
qed

lemma S3PutObject_ok:
  assumes run: "S3PutObject env w (Some user) r = (resp, w')"
    and ok: "status resp = StatusOK"
  shows "\<exists>bucket. bucket_GetByName env w (req_bucketName r) (user_ID user) = Inr (Some bucket)
            \<and> S3PutObject_store env w user bucket (object_key r) r = (resp, w')"
proof -
  from run ok have ne: "req_bucketName r \<noteq> []" "object_key r \<noteq> []"
    by (auto simp: S3PutObject_def Let_def split: if_splits)
  from run ok ne obtain bucket where
    b: "bucket_GetByName env w (req_bucketName r) (user_ID user) = Inr (Some bucket)"
    by (cases "bucket_GetByName env w (req_bucketName r) (user_ID user)")
       (auto simp: S3PutObject_def Let_def split: option.splits)
  from run ok ne b have "S3PutObject_store env w user bucket (object_key r) r = (resp, w')"
    by (auto simp: S3PutObject_def Let_def split: if_splits)
  with b show ?thesis by blast
qed

lemma bucket_GetByName_owner:
  "bucket_GetByName env w name userID = Inr (Some bucket)
    \<Longrightarrow> bucket_UserID bucket = userID \<and> bucket_Name bucket = name \<and> BucketGet \<notin> failing env
        \<and> find (\<lambda>b. bucket_Name b = name \<and> bucket_UserID b = userID) (buckets w) = Some bucket"
  by (auto simp: bucket_GetByName_def split: if_splits dest: find_SomeD)

lemma DownloadFile_ok:
  assumes "bucket_GetByID env w bucketID = Inr (Some bucket)"
    and "bucket_UserID bucket = user_ID user \<or> bucket_IsPublic bucket"
    and "file_GetByID env w fileID = Inr (Some file)" and "file_BucketID file = bucketID"
    and "disk w (file_Path file) = Some content" and "OsOpen \<notin> failing env"
  shows "DownloadFile env w (Some user) (Some bucketID) (Some fileID) =
           (\<lparr>status = StatusOK,
             headers = [(''Content-Type'', file_ContentType file),
                        (''Content-Disposition'', ''attachment; filename='' @ quoted (file_Name file)),
                        (''Content-Length'', fmt_d (file_Size file)),
                        (''ETag'', file_ETag file)],
             body = Bytes content\<rparr>,
            log_info ''File downloaded successfully'' w)"
  using assms
  by (auto simp: DownloadFile_def DownloadFile_send_def FileExists_def os_Open_def)

lemma S3GetObject_ok:
  assumes "bucket_GetByName env w (req_bucketName r) (user_ID user) = Inr (Some bucket)"
    and "req_bucketName r \<noteq> []" and "object_key r \<noteq> []"
    and "file_GetByName env w (bucket_ID bucket) (object_key r) = Inr (Some file)"
    and "disk w (file_Path file) = Some content" and "OsOpen \<notin> failing env"
  shows "S3GetObject env w (Some user) r =
           (\<lparr>status = StatusOK,
             headers = [(''Content-Type'', file_ContentType file),
                        (''Content-Length'', fmt_d (file_Size file)),
                        (''ETag'', quoted (file_ETag file)),
                        (''Last-Modified'', fmt_d (file_CreatedAt file))],
             body = Bytes content\<rparr>, w)"
  using assms bucket_GetByName_owner[OF assms(1)]
  by (auto simp: S3GetObject_def S3GetObject_send_def FileExists_def os_Open_def Let_def)


section \<open>A copy of the content that fails\<close>

lemma upload_path_storage_dir:
  "upload_path env u b k = Join [storage_dir env u b, k]"
  by (simp add: upload_path_def storage_dir_def)

lemma can_createD:
  assumes "can_create env w dir path"
  obtains w1 w2 where "EnsureDir env w dir = Inr w1" and "os_Create env w1 path = Inr w2"
  using assms by (auto simp: can_create_def split: sum.splits)

lemma UploadFile_store_copy_fails:
  assumes cf: "copy_fails_at env = Some n"
    and cc: "can_create env w (storage_dir env (user_ID user) bucketID)
               (upload_path env (user_ID user) bucketID fileName)"
  shows "(case UploadFile_store env w user bucketID fileName partType content existingFile of
            (resp, w') \<Rightarrow>
              resp = error_json StatusInternalServerError ''Failed to save file''
              \<and> logs w' = logs w @ [(Error, ''Failed to save file'')]
              \<and> files w' = files w \<and> buckets w' = buckets w
              \<and> disk w' = (if OsRemove \<in> failing env
                            then (disk w)(upload_path env (user_ID user) bucketID fileName
                                            \<mapsto> take n content)
                            else (disk w)(upload_path env (user_ID user) bucketID fileName := None)))"
proof -
  from cc obtain w1 w2 where
    w1: "EnsureDir env w (Join [getStoragePath env, fmt_d (user_ID user), fmt_d bucketID]) = Inr w1"
    and w2: "os_Create env w1 (Join [Join [getStoragePath env, fmt_d (user_ID user), fmt_d bucketID],
                                     fileName]) = Inr w2"
    by (auto elim!: can_createD simp: storage_dir_def upload_path_def)
  show ?thesis
    by (simp add: UploadFile_store_def Let_def w1 w2 io_Copy_fails[OF cf] upload_path_def
          EnsureDir_Inr[OF w1] os_Create_Inr[OF w2])
qed

lemma S3PutObject_store_copy_fails:
  assumes cf: "copy_fails_at env = Some n"
    and cc: "can_create env w (storage_dir env (user_ID user) (bucket_ID bucket))
               (upload_path env (user_ID user) (bucket_ID bucket) objectKey)"
  shows "(case S3PutObject_store env w user bucket objectKey r of
            (resp, w') \<Rightarrow>
              resp = header_only StatusInternalServerError
              \<and> logs w' = logs w @ [(Error, ''Failed to save file'')]
              \<and> files w' = files w \<and> buckets w' = buckets w
              \<and> disk w' = (if OsRemove \<in> failing env
                            then (disk w)(upload_path env (user_ID user) (bucket_ID bucket) objectKey
                                            \<mapsto> take n (req_body r))
                            else (disk w)(upload_path env (user_ID user) (bucket_ID bucket) objectKey
                                            := None)))"
proof -
  from cc obtain w1 w2 where
    w1: "EnsureDir env w (Join [getStoragePath env, fmt_d (user_ID user), fmt_d (bucket_ID bucket)])
           = Inr w1"
    and w2: "os_Create env w1 (Join [Join [getStoragePath env, fmt_d (user_ID user),
                                           fmt_d (bucket_ID bucket)], objectKey]) = Inr w2"
    by (auto elim!: can_createD simp: storage_dir_def upload_path_def)
  show ?thesis
    by (simp add: S3PutObject_store_def Let_def w1 w2 io_Copy_fails[OF cf] upload_path_def
          EnsureDir_Inr[OF w1] os_Create_Inr[OF w2])
qed

text \<open>
  Claim C9, as stated: a put whose copy fails never leaves a truncated file on the
  disk. Both handlers call \<^verbatim>\<open>os.Remove(filePath)\<close> and drop its result; where the
  removal fails as well, the response is 500 and the destination stays, with the two
  bytes of \<^verbatim>\<open>hello\<close> that were copied.
\<close>

theorem failed_copy_removal_may_fail:
  "(case UploadFile (env0\<lparr>copy_fails_at := Some 2, failing := {OsRemove}\<rparr>) (world0 False)
           (Some alice) (Some 1) (FormFile ''a.txt'' ''text/plain'' ''hello'') of
      (resp, w') \<Rightarrow> status resp = StatusInternalServerError
         \<and> disk w' ''storage/1/1/a.txt'' = Some ''he'')
   \<and> (case S3PutObject (env0\<lparr>copy_fails_at := Some 2, failing := {OsRemove}\<rparr>) (world0 False)
           (Some alice) (put_request ''a.txt'' ''hello'') of
      (resp, w') \<Rightarrow> status resp = StatusInternalServerError
         \<and> disk w' ''storage/1/1/a.txt'' = Some ''he'')"
  by code_simp

text \<open>
  Claim C9, amended. When a put on either adapter has created the destination and the
  copy of the content fails, the handler logs the error \<^verbatim>\<open>Failed to save file\<close>,
  calls \<^verbatim>\<open>os.Remove\<close> on the destination and answers 500 (\<^verbatim>\<open>UploadFile\<close> with the
  message \<^verbatim>\<open>Failed to save file\<close>); where the removal does not fail, the disk is
  afterwards as it was before the request but for the destination, which is absent,
  and the buckets and the files of the database are unchanged.
\<close>

theorem failed_copy_removes_file:
  assumes cf: "copy_fails_at env = Some n" and rm: "OsRemove \<notin> failing env"
  shows "(bucket_GetByID env w bucketID = Inr (Some bucket) \<longrightarrow>
            (bucket_UserID bucket = user_ID user \<or> bucket_IsPublic bucket) \<longrightarrow>
            fileName \<noteq> [] \<longrightarrow> FileGet \<notin> failing env \<longrightarrow>
            can_create env w (storage_dir env (user_ID user) bucketID)
              (upload_path env (user_ID user) bucketID fileName) \<longrightarrow>
            (case UploadFile env w (Some user) (Some bucketID) (FormFile fileName partType content) of
               (resp, w') \<Rightarrow>
                 resp = error_json StatusInternalServerError ''Failed to save file''
                 \<and> logs w' = logs w @ [(Error, ''Failed to save file'')]
                 \<and> files w' = files w \<and> buckets w' = buckets w
                 \<and> disk w' = (disk w)(upload_path env (user_ID user) bucketID fileName := None)))
       \<and> (bucket_GetByName env w (req_bucketName r) (user_ID user) = Inr (Some sbucket) \<longrightarrow>
            req_bucketName r \<noteq> [] \<longrightarrow> object_key r \<noteq> [] \<longrightarrow>
            can_create env w (storage_dir env (user_ID user) (bucket_ID sbucket))
              (upload_path env (user_ID user) (bucket_ID sbucket) (object_key r)) \<longrightarrow>
            (case S3PutObject env w (Some user) r of
               (resp, w') \<Rightarrow>
                 resp = header_only StatusInternalServerError
                 \<and> logs w' = logs w @ [(Error, ''Failed to save file'')]
                 \<and> files w' = files w \<and> buckets w' = buckets w
                 \<and> disk w' = (disk w)(upload_path env (user_ID user) (bucket_ID sbucket)
                                         (object_key r) := None)))"
proof (rule conjI)
  show "bucket_GetByID env w bucketID = Inr (Some bucket) \<longrightarrow>
            (bucket_UserID bucket = user_ID user \<or> bucket_IsPublic bucket) \<longrightarrow>
            fileName \<noteq> [] \<longrightarrow> FileGet \<notin> failing env \<longrightarrow>
            can_create env w (storage_dir env (user_ID user) bucketID)
              (upload_path env (user_ID user) bucketID fileName) \<longrightarrow>
            (case UploadFile env w (Some user) (Some bucketID) (FormFile fileName partType content) of
               (resp, w') \<Rightarrow>
                 resp = error_json StatusInternalServerError ''Failed to save file''
                 \<and> logs w' = logs w @ [(Error, ''Failed to save file'')]
                 \<and> files w' = files w \<and> buckets w' = buckets w
                 \<and> disk w' = (disk w)(upload_path env (user_ID user) bucketID fileName := None))"
  proof (intro impI)
    assume b: "bucket_GetByID env w bucketID = Inr (Some bucket)"
      and acc: "bucket_UserID bucket = user_ID user \<or> bucket_IsPublic bucket"
      and ne: "fileName \<noteq> []" and fg: "FileGet \<notin> failing env"
      and cc: "can_create env w (storage_dir env (user_ID user) bucketID)
              (upload_path env (user_ID user) bucketID fileName)"
    have "UploadFile env w (Some user) (Some bucketID) (FormFile fileName partType content)
            = UploadFile_store env w user bucketID fileName partType content
                (find (\<lambda>f. file_BucketID f = bucketID \<and> file_Name f = fileName) (files w))"
      using b acc ne fg by (auto simp: UploadFile_def file_GetByName_def)
    then show "case UploadFile env w (Some user) (Some bucketID) (FormFile fileName partType content) of
               (resp, w') \<Rightarrow>
                 resp = error_json StatusInternalServerError ''Failed to save file''
                 \<and> logs w' = logs w @ [(Error, ''Failed to save file'')]
                 \<and> files w' = files w \<and> buckets w' = buckets w
                 \<and> disk w' = (disk w)(upload_path env (user_ID user) bucketID fileName := None)"
      using UploadFile_store_copy_fails[OF cf cc, where partType = partType and content = content
          and existingFile
            = "find (\<lambda>f. file_BucketID f = bucketID \<and> file_Name f = fileName) (files w)"] rm
      by simp
  qed
  show "bucket_GetByName env w (req_bucketName r) (user_ID user) = Inr (Some sbucket) \<longrightarrow>
            req_bucketName r \<noteq> [] \<longrightarrow> object_key r \<noteq> [] \<longrightarrow>
            can_create env w (storage_dir env (user_ID user) (bucket_ID sbucket))
              (upload_path env (user_ID user) (bucket_ID sbucket) (object_key r)) \<longrightarrow>
            (case S3PutObject env w (Some user) r of
               (resp, w') \<Rightarrow>
                 resp = header_only StatusInternalServerError
                 \<and> logs w' = logs w @ [(Error, ''Failed to save file'')]
                 \<and> files w' = files w \<and> buckets w' = buckets w
                 \<and> disk w' = (disk w)(upload_path env (user_ID user) (bucket_ID sbucket)
                                         (object_key r) := None))"
  proof (intro impI)
    assume b: "bucket_GetByName env w (req_bucketName r) (user_ID user) = Inr (Some sbucket)"
      and ne: "req_bucketName r \<noteq> []" "object_key r \<noteq> []"
      and cc: "can_create env w (storage_dir env (user_ID user) (bucket_ID sbucket))
              (upload_path env (user_ID user) (bucket_ID sbucket) (object_key r))"
    have "S3PutObject env w (Some user) r
            = S3PutObject_store env w user sbucket (object_key r) r"
      using b ne bucket_GetByName_owner[OF b] by (auto simp: S3PutObject_def Let_def)
    then show "case S3PutObject env w (Some user) r of
               (resp, w') \<Rightarrow>
                 resp = header_only StatusInternalServerError
                 \<and> logs w' = logs w @ [(Error, ''Failed to save file'')]
                 \<and> files w' = files w \<and> buckets w' = buckets w
                 \<and> disk w' = (disk w)(upload_path env (user_ID user) (bucket_ID sbucket)
                                         (object_key r) := None)"
      using S3PutObject_store_copy_fails[OF cf cc, where r = r] rm
      by simp
  qed
qed


theorem failed_copy_removes_file_witness:
  "copy_fails_at env_copy_fails = Some 2 \<and> OsRemove \<notin> failing env_copy_fails
   \<and> FileGet \<notin> failing env_copy_fails
   \<and> bucket_GetByID env_copy_fails (world0 False) 1 = Inr (Some (logs_bucket False))
   \<and> bucket_GetByName env_copy_fails (world0 False) (req_bucketName (put_request ''a.txt'' ''hello''))
         (user_ID alice) = Inr (Some (logs_bucket False))
   \<and> bucket_UserID (logs_bucket False) = user_ID alice
   \<and> req_bucketName (put_request ''a.txt'' ''hello'') \<noteq> []
   \<and> object_key (put_request ''a.txt'' ''hello'') = ''a.txt''
   \<and> bucket_ID (logs_bucket False) = 1
   \<and> upload_path env_copy_fails (user_ID alice) 1 ''a.txt'' = ''storage/1/1/a.txt''
   \<and> can_create env_copy_fails (world0 False) (storage_dir env_copy_fails (user_ID alice) 1)
         (upload_path env_copy_fails (user_ID alice) 1 ''a.txt'')
   \<and> (case UploadFile env_copy_fails (world0 False) (Some alice) (Some 1)
              (FormFile ''a.txt'' ''text/plain'' ''hello'') of
         (resp, w') \<Rightarrow>
           resp = error_json StatusInternalServerError ''Failed to save file''
           \<and> logs w' = logs (world0 False) @ [(Error, ''Failed to save file'')]
           \<and> files w' = files (world0 False) \<and> buckets w' = buckets (world0 False)
           \<and> disk w' = (disk (world0 False))
                          (upload_path env_copy_fails (user_ID alice) 1 ''a.txt'' := None))
   \<and> (case S3PutObject env_copy_fails (world0 False) (Some alice)
              (put_request ''a.txt'' ''hello'') of
         (resp, w') \<Rightarrow>
           resp = header_only StatusInternalServerError
           \<and> logs w' = logs (world0 False) @ [(Error, ''Failed to save file'')]
           \<and> files w' = files (world0 False) \<and> buckets w' = buckets (world0 False)
           \<and> disk w' = (disk (world0 False))
                          (upload_path env_copy_fails (user_ID alice) 1 ''a.txt'' := None))"
proof -
  have h1: "copy_fails_at env_copy_fails = Some 2"
    and h2: "OsRemove \<notin> failing env_copy_fails" and h3: "FileGet \<notin> failing env_copy_fails"
    by (simp_all add: env_copy_fails_def env0_def)
  have h4: "bucket_GetByID env_copy_fails (world0 False) 1 = Inr (Some (logs_bucket False))"
    by (simp add: bucket_GetByID_def env_copy_fails_def env0_def world0_def logs_bucket_def)
  have h5: "bucket_GetByName env_copy_fails (world0 False)
              (req_bucketName (put_request ''a.txt'' ''hello'')) (user_ID alice)
              = Inr (Some (logs_bucket False))"
    by (simp add: bucket_GetByName_def env_copy_fails_def env0_def world0_def logs_bucket_def
          put_request_def alice_def)
  have h6: "bucket_UserID (logs_bucket False) = user_ID alice"
    by (simp add: logs_bucket_def alice_def)
  have h7: "req_bucketName (put_request ''a.txt'' ''hello'') \<noteq> []"
    by (simp add: put_request_def)
  have h8: "object_key (put_request ''a.txt'' ''hello'') = ''a.txt''"
    by (simp add: put_request_def object_key_def)
  have h9: "bucket_ID (logs_bucket False) = 1"
    by (simp add: logs_bucket_def)
  have h10: "upload_path env_copy_fails (user_ID alice) 1 ''a.txt'' = ''storage/1/1/a.txt''"
    by code_simp
  have h11: "can_create env_copy_fails (world0 False) (storage_dir env_copy_fails (user_ID alice) 1)
         (upload_path env_copy_fails (user_ID alice) 1 ''a.txt'')"
    by code_simp
  note t = failed_copy_removes_file[OF h1 h2, where w = "world0 False" and bucketID = 1
      and bucket = "logs_bucket False" and user = alice and fileName = "''a.txt''"
      and partType = "''text/plain''" and content = "''hello''"
      and r = "put_request ''a.txt'' ''hello''" and sbucket = "logs_bucket False"]
  from t h3 h4 h6 h11 have a: "case UploadFile env_copy_fails (world0 False) (Some alice) (Some 1)
              (FormFile ''a.txt'' ''text/plain'' ''hello'') of
         (resp, w') \<Rightarrow>
           resp = error_json StatusInternalServerError ''Failed to save file''
           \<and> logs w' = logs (world0 False) @ [(Error, ''Failed to save file'')]
           \<and> files w' = files (world0 False) \<and> buckets w' = buckets (world0 False)
           \<and> disk w' = (disk (world0 False))
                          (upload_path env_copy_fails (user_ID alice) 1 ''a.txt'' := None)"
    by simp
  from t h5 h7 h8 h9 h11 have b: "case S3PutObject env_copy_fails (world0 False) (Some alice)
              (put_request ''a.txt'' ''hello'') of
         (resp, w') \<Rightarrow>
           resp = header_only StatusInternalServerError
           \<and> logs w' = logs (world0 False) @ [(Error, ''Failed to save file'')]
           \<and> files w' = files (world0 False) \<and> buckets w' = buckets (world0 False)
           \<and> disk w' = (disk (world0 False))
                          (upload_path env_copy_fails (user_ID alice) 1 ''a.txt'' := None)"
    by simp
  show ?thesis
    by (intro conjI) (rule h1 h2 h3 h4 h5 h6 h7 h8 h9 h10 h11 a b)+
qed


section \<open>Storage errors during a put\<close>

text \<open>
  Claim C8. A put whose metadata insert fails: \<^verbatim>\<open>S3PutObject\<close> drops the result of
  \<^verbatim>\<open>fileRepo.Create\<close>, so it answers 200 with the ETag although no row was written,
  logs nothing and leaves the content on the disk; \<^verbatim>\<open>UploadFile\<close>, at the same
  request and failure, logs the error, removes the file and answers 500.
\<close>

theorem S3PutObject_drops_metadata_error:
  "(case S3PutObject (env0\<lparr>failing := {FileInsert}\<rparr>) (world0 False) (Some alice)
           (put_request ''a.txt'' ''hello'') of
      (resp, w') \<Rightarrow> status resp = StatusOK \<and> files w' = [] \<and> logs w' = []
         \<and> disk w' ''storage/1/1/a.txt'' = Some ''hello'')
   \<and> (case UploadFile (env0\<lparr>failing := {FileInsert}\<rparr>) (world0 False) (Some alice) (Some 1)
           (FormFile ''a.txt'' ''text/plain'' ''hello'') of
      (resp, w') \<Rightarrow> status resp = StatusInternalServerError \<and> files w' = []
         \<and> logs w' = [(Error, ''Failed to create file'')]
         \<and> disk w' ''storage/1/1/a.txt'' = None)"
  by code_simp

section \<open>A private bucket and a user who does not own it\<close>

text \<open>
  Claim C7, as stated: the native get and list requests of a user who does not own a
  private bucket are answered with 404. They are answered with 403: here for the
  second user and the private bucket of the first.
\<close>

theorem private_bucket_not_NotFound:
  "status (fst (GetBucket env0 (world0 False) (Some bob) (Some 1))) = StatusForbidden
   \<and> status (fst (ListFiles env0 (world0 False) (Some bob) (Some 1) None None []))
        = StatusForbidden"
  by code_simp

lemma ListFiles_page_status:
  "status (fst (ListFiles_page env w bucketID limitParam offsetParam prefix')) \<noteq> StatusNotFound"
  by (simp add: ListFiles_page_def Let_def split: sum.split prod.split)

text \<open>
  Claim C7, amended. Where the bucket of the request exists, is private and belongs to
  another user, \<^verbatim>\<open>GetBucket\<close> and \<^verbatim>\<open>ListFiles\<close> answer 403 with the message
  \<^verbatim>\<open>Access denied\<close> and change nothing. They answer 404 exactly when the lookup of
  the bucket finds none, that is when the lookup does not fail and no bucket has the id
  of the request: a user who does not own a private bucket can tell it from one that
  does not exist.
\<close>

theorem private_bucket_is_forbidden:
  "(bucket_GetByID env w bucketID = Inr (Some bucket) \<longrightarrow>
      bucket_UserID bucket \<noteq> user_ID user \<longrightarrow> \<not> bucket_IsPublic bucket \<longrightarrow>
        GetBucket env w (Some user) (Some bucketID)
          = (error_json StatusForbidden ''Access denied'', w)
        \<and> ListFiles env w (Some user) (Some bucketID) limitParam offsetParam prefix'
          = (error_json StatusForbidden ''Access denied'', w))
   \<and> (status (fst (GetBucket env w (Some user) (Some bucketID))) = StatusNotFound)
        = (bucket_GetByID env w bucketID = Inr None)
   \<and> (status (fst (ListFiles env w (Some user) (Some bucketID) limitParam offsetParam prefix'))
          = StatusNotFound)
        = (bucket_GetByID env w bucketID = Inr None)
   \<and> (bucket_GetByID env w bucketID = Inr None)
        = (BucketGet \<notin> failing env \<and> \<not> (\<exists>b \<in> set (buckets w). bucket_ID b = bucketID))"
proof (intro conjI)
  show "bucket_GetByID env w bucketID = Inr (Some bucket) \<longrightarrow>
      bucket_UserID bucket \<noteq> user_ID user \<longrightarrow> \<not> bucket_IsPublic bucket \<longrightarrow>
        GetBucket env w (Some user) (Some bucketID)
          = (error_json StatusForbidden ''Access denied'', w)
        \<and> ListFiles env w (Some user) (Some bucketID) limitParam offsetParam prefix'
          = (error_json StatusForbidden ''Access denied'', w)"
    by (simp add: GetBucket_def ListFiles_def)
  show "(status (fst (GetBucket env w (Some user) (Some bucketID))) = StatusNotFound)
        = (bucket_GetByID env w bucketID = Inr None)"
    by (simp add: GetBucket_def split: sum.split option.split)
  show "(status (fst (ListFiles env w (Some user) (Some bucketID) limitParam offsetParam prefix'))
          = StatusNotFound)
        = (bucket_GetByID env w bucketID = Inr None)"
    using ListFiles_page_status[of env w bucketID limitParam offsetParam prefix']
    by (simp add: ListFiles_def split: sum.split option.split)
  show "(bucket_GetByID env w bucketID = Inr None)
        = (BucketGet \<notin> failing env \<and> \<not> (\<exists>b \<in> set (buckets w). bucket_ID b = bucketID))"
    by (auto simp: bucket_GetByID_def find_None_iff)
qed

text \<open>
  The theorem at the second user, for the private bucket of the first (id 1) and for
  the id 7, which no bucket has.
\<close>

theorem private_bucket_is_forbidden_witness:
  "bucket_GetByID env0 (world0 False) 1 = Inr (Some (logs_bucket False))
   \<and> bucket_UserID (logs_bucket False) \<noteq> user_ID bob \<and> \<not> bucket_IsPublic (logs_bucket False)
   \<and> GetBucket env0 (world0 False) (Some bob) (Some 1)
        = (error_json StatusForbidden ''Access denied'', world0 False)
   \<and> ListFiles env0 (world0 False) (Some bob) (Some 1) (Some 10) None ''a''
        = (error_json StatusForbidden ''Access denied'', world0 False)
   \<and> bucket_GetByID env0 (world0 False) 7 = Inr None
   \<and> status (fst (GetBucket env0 (world0 False) (Some bob) (Some 7))) = StatusNotFound
   \<and> status (fst (ListFiles env0 (world0 False) (Some bob) (Some 7) (Some 10) None ''a''))
        = StatusNotFound"
proof -
  have h1: "bucket_GetByID env0 (world0 False) 1 = Inr (Some (logs_bucket False))"
    by (simp add: bucket_GetByID_def env0_def world0_def logs_bucket_def)
  have h2: "bucket_UserID (logs_bucket False) \<noteq> user_ID bob"
    by (simp add: logs_bucket_def bob_def)
  have h3: "\<not> bucket_IsPublic (logs_bucket False)"
    by (simp add: logs_bucket_def)
  have h4: "bucket_GetByID env0 (world0 False) 7 = Inr None"
    by (simp add: bucket_GetByID_def env0_def world0_def logs_bucket_def)
  note t1 = private_bucket_is_forbidden[where env = env0 and w = "world0 False" and bucketID = 1
      and bucket = "logs_bucket False" and user = bob and limitParam = "Some 10"
      and offsetParam = None and prefix' = "''a''"]
  note t2 = private_bucket_is_forbidden[where env = env0 and w = "world0 False" and bucketID = 7
      and bucket = "logs_bucket False" and user = bob and limitParam = "Some 10"
      and offsetParam = None and prefix' = "''a''"]
  from t1 h1 h2 h3 have a: "GetBucket env0 (world0 False) (Some bob) (Some 1)
        = (error_json StatusForbidden ''Access denied'', world0 False)"
    and b: "ListFiles env0 (world0 False) (Some bob) (Some 1) (Some 10) None ''a''
        = (error_json StatusForbidden ''Access denied'', world0 False)"
    by simp_all
  from t2 h4 have c: "status (fst (GetBucket env0 (world0 False) (Some bob) (Some 7))) = StatusNotFound"
    and d: "status (fst (ListFiles env0 (world0 False) (Some bob) (Some 7) (Some 10) None ''a''))
        = StatusNotFound"
    by simp_all
  show ?thesis
    by (intro conjI) (rule h1 h2 h3 h4 a b c d)+
qed

section \<open>A public bucket and a user who does not own it\<close>

text \<open>
  Claim C2. The second user and the public bucket of the first. On the native adapter
  the upload, the download and the listing succeed. On the S3 adapter the same
  requests are answered with 404: the handlers find the bucket with
  \<^verbatim>\<open>bucketRepo.GetByName(bucketName, user.ID)\<close>, among the buckets of the requesting
  user, so the test of \<^verbatim>\<open>bucket.IsPublic\<close> that follows is never reached for a bucket
  of another user, and the second lookup of \<^verbatim>\<open>S3ListObjects\<close> goes through the
  buckets of the same user again.
\<close>

theorem public_bucket_s3_non_owner:
  "status (fst (UploadFile env0 (world0 True) (Some bob) (Some 1)
                  (FormFile ''a.txt'' ''text/plain'' ''hello''))) = StatusOK
   \<and> status (fst (S3PutObject env0 (world0 True) (Some bob) (put_request ''a.txt'' ''hello'')))
        = StatusNotFound
   \<and> status (fst (DownloadFile env0 (world1 True) (Some bob) (Some 1) (Some 1))) = StatusOK
   \<and> status (fst (S3GetObject env0 (world1 True) (Some bob) (put_request ''a.txt'' [])))
        = StatusNotFound
   \<and> status (fst (ListFiles env0 (world1 True) (Some bob) (Some 1) None None [])) = StatusOK
   \<and> status (fst (S3ListObjects env0 (world1 True) (Some bob) (put_request ''a.txt'' [])))
        = StatusNotFound"
  by code_simp

section \<open>Deleting a bucket\<close>

lemma file_Count_pos:
  assumes "\<exists>f \<in> set (files w). file_BucketID f = bucketID"
  shows "file_Count env w bucketID = Inl DbFailure \<or> (\<exists>n. n > 0 \<and> file_Count env w bucketID = Inr n)"
proof -
  from assms have "filter (\<lambda>f. file_BucketID f = bucketID) (files w) \<noteq> []"
    by (auto simp: filter_empty_conv)
  then show ?thesis by (auto simp: file_Count_def)
qed

lemma DeleteBucket_remove_nonempty:
  assumes "\<exists>f \<in> set (files w). file_BucketID f = bucketID"
  shows "(case DeleteBucket_remove env w bucketID of
            (resp, w') \<Rightarrow> status resp \<noteq> StatusOK \<and> buckets w' = buckets w \<and> files w' = files w
               \<and> disk w' = disk w)"
  using file_Count_pos[OF assms, of env]
  by (auto simp: DeleteBucket_remove_def)

lemma DeleteBucket_remove_nonempty_owner:
  assumes "\<exists>f \<in> set (files w). file_BucketID f = bucketID" and "FileCount \<notin> failing env"
  shows "DeleteBucket_remove env w bucketID
           = (error_json StatusBadRequest ''Cannot delete bucket with existing files'', w)"
  using file_Count_pos[OF assms(1), of env] assms(2)
  by (auto simp: DeleteBucket_remove_def file_Count_def)

lemma DeleteBucket_remove_empty:
  assumes "\<forall>f \<in> set (files w). file_BucketID f \<noteq> bucketID"
    and "FileCount \<notin> failing env" and "BucketDelete \<notin> failing env"
  shows "DeleteBucket_remove env w bucketID
           = (message_json StatusOK ''Bucket deleted successfully'',
              log_info ''Bucket deleted successfully''
                (w\<lparr>buckets := filter (\<lambda>b. bucket_ID b \<noteq> bucketID) (buckets w)\<rparr>))"
proof -
  from assms(1) have "filter (\<lambda>f. file_BucketID f = bucketID) (files w) = []"
    by (auto simp: filter_empty_conv)
  then show ?thesis using assms(2,3)
    by (simp add: DeleteBucket_remove_def file_Count_def bucket_Delete_def)
qed

text \<open>
  Claim C5, as stated: whoever asks, the deletion of a bucket that holds an object
  fails with the error that the bucket is not empty. A user who does not own the bucket
  is answered 403 \<^verbatim>\<open>Access denied\<close>, before the files are counted; the owner is
  answered 400 \<^verbatim>\<open>Cannot delete bucket with existing files\<close>.
\<close>

theorem delete_bucket_by_non_owner:
  "(case DeleteBucket env0 (world1 False) (Some bob) (Some 1) of
      (resp, w') \<Rightarrow> resp = error_json StatusForbidden ''Access denied'')
   \<and> (case DeleteBucket env0 (world1 False) (Some alice) (Some 1) of
      (resp, w') \<Rightarrow> resp = error_json StatusBadRequest ''Cannot delete bucket with existing files'')"
  by code_simp


text \<open>
  Claim C5, amended. The deletion of a bucket that holds an object fails whoever asks
  and leaves the buckets, the files and the disk as they are. A user who does not own
  the bucket is answered 403; the owner is answered 400 with the message that the
  bucket has files, when the count of the files succeeds. For a bucket that holds no
  object, the owner's deletion succeeds when the database does not fail: the rows of the
  bucket are deleted, and nothing else is changed but the log.
\<close>

theorem delete_bucket_with_files:
  "((\<exists>f \<in> set (files w). file_BucketID f = bucketID) \<longrightarrow>
      (case DeleteBucket env w ctx (Some bucketID) of
         (resp, w') \<Rightarrow> status resp \<noteq> StatusOK \<and> buckets w' = buckets w \<and> files w' = files w
            \<and> disk w' = disk w))
   \<and> (bucket_GetByID env w bucketID = Inr (Some bucket) \<longrightarrow>
        bucket_UserID bucket \<noteq> user_ID user \<longrightarrow>
          DeleteBucket env w (Some user) (Some bucketID)
            = (error_json StatusForbidden ''Access denied'', w))
   \<and> (bucket_GetByID env w bucketID = Inr (Some bucket) \<longrightarrow>
        bucket_UserID bucket = user_ID user \<longrightarrow> FileCount \<notin> failing env \<longrightarrow>
        (\<exists>f \<in> set (files w). file_BucketID f = bucketID) \<longrightarrow>
          DeleteBucket env w (Some user) (Some bucketID)
            = (error_json StatusBadRequest ''Cannot delete bucket with existing files'', w))
   \<and> (bucket_GetByID env w bucketID = Inr (Some bucket) \<longrightarrow>
        bucket_UserID bucket = user_ID user \<longrightarrow> FileCount \<notin> failing env \<longrightarrow>
        BucketDelete \<notin> failing env \<longrightarrow>
        (\<forall>f \<in> set (files w). file_BucketID f \<noteq> bucketID) \<longrightarrow>
          DeleteBucket env w (Some user) (Some bucketID)
            = (message_json StatusOK ''Bucket deleted successfully'',
               log_info ''Bucket deleted successfully''
                 (w\<lparr>buckets := filter (\<lambda>b. bucket_ID b \<noteq> bucketID) (buckets w)\<rparr>)))"
proof (intro conjI impI)
  assume ne: "\<exists>f \<in> set (files w). file_BucketID f = bucketID"
  show "case DeleteBucket env w ctx (Some bucketID) of
         (resp, w') \<Rightarrow> status resp \<noteq> StatusOK \<and> buckets w' = buckets w \<and> files w' = files w
            \<and> disk w' = disk w"
    using DeleteBucket_remove_nonempty[OF ne, of env]
    by (simp add: DeleteBucket_def split: option.split sum.split)
next
  assume "bucket_GetByID env w bucketID = Inr (Some bucket)" "bucket_UserID bucket \<noteq> user_ID user"
  then show "DeleteBucket env w (Some user) (Some bucketID)
            = (error_json StatusForbidden ''Access denied'', w)"
    by (simp add: DeleteBucket_def)
next
  assume "bucket_GetByID env w bucketID = Inr (Some bucket)" "bucket_UserID bucket = user_ID user"
    "FileCount \<notin> failing env" "\<exists>f \<in> set (files w). file_BucketID f = bucketID"
  then show "DeleteBucket env w (Some user) (Some bucketID)
            = (error_json StatusBadRequest ''Cannot delete bucket with existing files'', w)"
    by (simp add: DeleteBucket_def DeleteBucket_remove_nonempty_owner)
next
  assume "bucket_GetByID env w bucketID = Inr (Some bucket)" "bucket_UserID bucket = user_ID user"
    "FileCount \<notin> failing env" "BucketDelete \<notin> failing env" "\<forall>f \<in> set (files w). file_BucketID f \<noteq> bucketID"
  then show "DeleteBucket env w (Some user) (Some bucketID)
            = (message_json StatusOK ''Bucket deleted successfully'',
               log_info ''Bucket deleted successfully''
                 (w\<lparr>buckets := filter (\<lambda>b. bucket_ID b \<noteq> bucketID) (buckets w)\<rparr>))"
    by (simp add: DeleteBucket_def DeleteBucket_remove_empty)
qed

theorem delete_bucket_with_files_witness:
  "(\<exists>f \<in> set (files (world1 False)). file_BucketID f = 1)
   \<and> bucket_GetByID env0 (world1 False) 1 = Inr (Some (logs_bucket False))
   \<and> bucket_UserID (logs_bucket False) \<noteq> user_ID bob
   \<and> bucket_UserID (logs_bucket False) = user_ID alice
   \<and> FileCount \<notin> failing env0 \<and> BucketDelete \<notin> failing env0
   \<and> files (world0 False) = []
   \<and> bucket_GetByID env0 (world0 False) 1 = Inr (Some (logs_bucket False))
   \<and> (case DeleteBucket env0 (world1 False) (Some bob) (Some 1) of
         (resp, w') \<Rightarrow> status resp \<noteq> StatusOK \<and> buckets w' = buckets (world1 False)
            \<and> files w' = files (world1 False) \<and> disk w' = disk (world1 False))
   \<and> DeleteBucket env0 (world1 False) (Some bob) (Some 1)
        = (error_json StatusForbidden ''Access denied'', world1 False)
   \<and> DeleteBucket env0 (world1 False) (Some alice) (Some 1)
        = (error_json StatusBadRequest ''Cannot delete bucket with existing files'', world1 False)
   \<and> DeleteBucket env0 (world0 False) (Some alice) (Some 1)
        = (message_json StatusOK ''Bucket deleted successfully'',
           log_info ''Bucket deleted successfully''
             ((world0 False)\<lparr>buckets := filter (\<lambda>b. bucket_ID b \<noteq> 1) (buckets (world0 False))\<rparr>))"
proof -
  have h1: "\<exists>f \<in> set (files (world1 False)). file_BucketID f = 1"
    by (simp add: world1_def hello_file_def)
  have h2: "bucket_GetByID env0 (world1 False) 1 = Inr (Some (logs_bucket False))"
    by (simp add: bucket_GetByID_def env0_def world1_def logs_bucket_def)
  have h3: "bucket_UserID (logs_bucket False) \<noteq> user_ID bob"
    by (simp add: logs_bucket_def bob_def)
  have h4: "bucket_UserID (logs_bucket False) = user_ID alice"
    by (simp add: logs_bucket_def alice_def)
  have h5: "FileCount \<notin> failing env0" "BucketDelete \<notin> failing env0"
    by (simp_all add: env0_def)
  have h6: "files (world0 False) = []"
    by (simp add: world0_def)
  have h7: "bucket_GetByID env0 (world0 False) 1 = Inr (Some (logs_bucket False))"
    by (simp add: bucket_GetByID_def env0_def world0_def logs_bucket_def)
  note t1 = delete_bucket_with_files[where env = env0 and w = "world1 False"
      and bucketID = 1 and bucket = "logs_bucket False" and user = bob and ctx = "Some bob"]
  note t2 = delete_bucket_with_files[where env = env0 and w = "world1 False"
      and bucketID = 1 and bucket = "logs_bucket False" and user = alice]
  note t3 = delete_bucket_with_files[where env = env0 and w = "world0 False"
      and bucketID = 1 and bucket = "logs_bucket False" and user = alice]
  show ?thesis
    using h1 h2 h3 h4 h5 h6 h7 t1 t2 t3 by simp
qed

section \<open>Listing by prefix\<close>

lemma like_match_any: "like_match fd ''%'' s"
  by (induction s) auto

lemma like_match_prefix:
  assumes "CHR ''%'' \<notin> set p" and "CHR ''_'' \<notin> set p"
  shows "like_match fd (p @ ''%'') s = prefix (map fd p) (map fd s)"
  using assms
proof (induction p arbitrary: s)
  case Nil
  then show ?case using like_match_any[of fd s] by simp
next
  case (Cons c p)
  then show ?case by (cases s) auto
qed












section \<open>Upload, then download\<close>

lemma bucket_GetByID_found:
  "bucket_GetByID env w bucketID = Inr (Some bucket)
     \<Longrightarrow> find (\<lambda>b. bucket_ID b = bucketID) (buckets w) = Some bucket"
  by (auto simp: bucket_GetByID_def split: if_splits)

lemma native_roundtrip:
  assumes wf: "wf_files w"
    and run: "UploadFile env w (Some user) (Some bucketID) (FormFile fileName partType content)
                = (resp, w')"
    and ok: "status resp = StatusOK"
    and nf: "BucketGet \<notin> failing envG" "FileGet \<notin> failing envG" "OsOpen \<notin> failing envG"
  shows "\<exists>f. body resp = JSON (file_json f) \<and> file_ETag f = fmt_x (md5 content)
           \<and> (case DownloadFile envG w' (Some user) (Some bucketID) (Some (file_ID f)) of
                 (resp2, w2) \<Rightarrow> status resp2 = StatusOK \<and> body resp2 = Bytes content
                    \<and> map_of (headers resp2) ''ETag'' = Some (fmt_x (md5 content)))"
proof -
  let ?path = "upload_path env (user_ID user) bucketID fileName"
  let ?row = "stored_row env w (user_ID user) bucketID fileName ?path partType content"
  note u = UploadFile_ok[OF run ok]
  note st = UploadFile_store_ok[OF u(3) ok refl]
  from u(1) obtain bucket where b: "bucket_GetByID env w bucketID = Inr (Some bucket)"
    and acc: "bucket_UserID bucket = user_ID user \<or> bucket_IsPublic bucket"
    by blast
  from st(5) obtain f where f: "body resp = JSON (file_json f)"
    "file_ID f = put_file_id w bucketID fileName" "file_ETag f = fmt_x (md5 content)"
    by blast
  have b2: "bucket_GetByID envG w' bucketID = Inr (Some bucket)"
    using bucket_GetByID_found[OF b] nf(1) st(3) by (simp add: bucket_GetByID_def)
  have g: "file_GetByID envG w' (file_ID f) = Inr (Some ?row)"
    using find_id_put_files[OF wf] nf(2) st(1) f(2) by (simp add: file_GetByID_def)
  have d: "disk w' (file_Path ?row) = Some content"
    using st(2) by (simp add: stored_row_fields)
  have "DownloadFile envG w' (Some user) (Some bucketID) (Some (file_ID f)) =
           (\<lparr>status = StatusOK,
             headers = [(''Content-Type'', file_ContentType ?row),
                        (''Content-Disposition'', ''attachment; filename='' @ quoted (file_Name ?row)),
                        (''Content-Length'', fmt_d (file_Size ?row)),
                        (''ETag'', file_ETag ?row)],
             body = Bytes content\<rparr>,
            log_info ''File downloaded successfully'' w')"
    by (rule DownloadFile_ok[OF b2 acc g _ d nf(3)]) (simp add: stored_row_fields)
  then have dl: "case DownloadFile envG w' (Some user) (Some bucketID) (Some (file_ID f)) of
                 (resp2, w2) \<Rightarrow> status resp2 = StatusOK \<and> body resp2 = Bytes content
                    \<and> map_of (headers resp2) ''ETag'' = Some (fmt_x (md5 content))"
    by (simp add: stored_row_fields)
  show ?thesis
    by (rule exI[of _ f], intro conjI, rule f(1), rule f(3), rule dl)
qed

lemma s3_roundtrip:
  assumes wf: "wf_files w"
    and run: "S3PutObject env w (Some user) r = (resp, w')"
    and ok: "status resp = StatusOK"
    and nf1: "FileGet \<notin> failing env" "FileInsert \<notin> failing env" "FileUpdate \<notin> failing env"
    and nf2: "BucketGet \<notin> failing envG" "FileGet \<notin> failing envG" "OsOpen \<notin> failing envG"
    and same: "req_bucketName rG = req_bucketName r" "object_key rG = object_key r"
  shows "map_of (headers resp) ''ETag'' = Some (quoted (fmt_x (md5 (req_body r))))
       \<and> (case S3GetObject envG w' (Some user) rG of
             (resp2, w2) \<Rightarrow> status resp2 = StatusOK \<and> body resp2 = Bytes (req_body r)
                \<and> map_of (headers resp2) ''ETag'' = Some (quoted (fmt_x (md5 (req_body r)))))"
proof -
  from S3PutObject_ok[OF run ok] obtain bucket where
    b: "bucket_GetByName env w (req_bucketName r) (user_ID user) = Inr (Some bucket)"
    and store: "S3PutObject_store env w user bucket (object_key r) r = (resp, w')"
    by blast
  let ?path = "upload_path env (user_ID user) (bucket_ID bucket) (object_key r)"
  let ?row = "stored_row env w (user_ID user) (bucket_ID bucket) (object_key r) ?path
                (req_contentType r) (req_body r)"
  note st = S3PutObject_store_ok[OF nf1 store ok]
  from run ok have ne: "req_bucketName r \<noteq> []" "object_key r \<noteq> []"
    by (auto simp: S3PutObject_def Let_def split: if_splits)
  have b2: "bucket_GetByName envG w' (req_bucketName rG) (user_ID user) = Inr (Some bucket)"
    using bucket_GetByName_owner[OF b] nf2(1) st(3) same(1) by (simp add: bucket_GetByName_def)
  have g: "file_GetByName envG w' (bucket_ID bucket) (object_key rG) = Inr (Some ?row)"
    using find_key_put_files[OF wf] nf2(2) st(1) same(2) by (simp add: file_GetByName_def)
  have d: "disk w' (file_Path ?row) = Some (req_body r)"
    using st(2) by (simp add: stored_row_fields)
  have "S3GetObject envG w' (Some user) rG =
           (\<lparr>status = StatusOK,
             headers = [(''Content-Type'', file_ContentType ?row),
                        (''Content-Length'', fmt_d (file_Size ?row)),
                        (''ETag'', quoted (file_ETag ?row)),
                        (''Last-Modified'', fmt_d (file_CreatedAt ?row))],
             body = Bytes (req_body r)\<rparr>, w')"
    by (rule S3GetObject_ok[OF b2 _ _ g d nf2(3)]) (simp_all add: same ne)
  then have "case S3GetObject envG w' (Some user) rG of
             (resp2, w2) \<Rightarrow> status resp2 = StatusOK \<and> body resp2 = Bytes (req_body r)
                \<and> map_of (headers resp2) ''ETag'' = Some (quoted (fmt_x (md5 (req_body r))))"
    by (simp add: stored_row_fields)
  with st(5) show ?thesis by simp
qed

text \<open>
  Claim C4. After an upload that succeeded, a download of the same object returns the
  bytes that were uploaded, and the ETag of the upload and of the download is the
  hexadecimal MD5 digest of these bytes: as it is in the JSON of \<^verbatim>\<open>UploadFile\<close> and in
  the header of \<^verbatim>\<open>DownloadFile\<close>, between double quotes in the headers of
  \<^verbatim>\<open>S3PutObject\<close> and \<^verbatim>\<open>S3GetObject\<close>. The table of files is well formed before the
  upload, the database and the opening of the file do not fail during the download and,
  for \<^verbatim>\<open>S3PutObject\<close>, which answers 200 also when its metadata is not written (claim
  C8), the operations on the table of files do not fail during the upload.
\<close>

theorem put_then_get_returns_content:
  "(wf_files w \<longrightarrow>
      UploadFile env w (Some user) (Some bucketID) (FormFile fileName partType content)
        = (resp, w') \<longrightarrow>
      status resp = StatusOK \<longrightarrow>
      BucketGet \<notin> failing envG \<longrightarrow> FileGet \<notin> failing envG \<longrightarrow> OsOpen \<notin> failing envG \<longrightarrow>
      (\<exists>f. body resp = JSON (file_json f) \<and> file_ETag f = fmt_x (md5 content)
           \<and> (case DownloadFile envG w' (Some user) (Some bucketID) (Some (file_ID f)) of
                 (resp2, w2) \<Rightarrow> status resp2 = StatusOK \<and> body resp2 = Bytes content
                    \<and> map_of (headers resp2) ''ETag'' = Some (fmt_x (md5 content)))))
   \<and> (wf_files w \<longrightarrow>
        S3PutObject env w (Some user) r = (sresp, sw') \<longrightarrow> status sresp = StatusOK \<longrightarrow>
        FileGet \<notin> failing env \<longrightarrow> FileInsert \<notin> failing env \<longrightarrow> FileUpdate \<notin> failing env \<longrightarrow>
        BucketGet \<notin> failing envG \<longrightarrow> FileGet \<notin> failing envG \<longrightarrow> OsOpen \<notin> failing envG \<longrightarrow>
        req_bucketName rG = req_bucketName r \<longrightarrow> object_key rG = object_key r \<longrightarrow>
        map_of (headers sresp) ''ETag'' = Some (quoted (fmt_x (md5 (req_body r))))
        \<and> (case S3GetObject envG sw' (Some user) rG of
              (resp2, w2) \<Rightarrow> status resp2 = StatusOK \<and> body resp2 = Bytes (req_body r)
                 \<and> map_of (headers resp2) ''ETag'' = Some (quoted (fmt_x (md5 (req_body r))))))"
proof (rule conjI)
  show "wf_files w \<longrightarrow>
      UploadFile env w (Some user) (Some bucketID) (FormFile fileName partType content)
        = (resp, w') \<longrightarrow>
      status resp = StatusOK \<longrightarrow>
      BucketGet \<notin> failing envG \<longrightarrow> FileGet \<notin> failing envG \<longrightarrow> OsOpen \<notin> failing envG \<longrightarrow>
      (\<exists>f. body resp = JSON (file_json f) \<and> file_ETag f = fmt_x (md5 content)
           \<and> (case DownloadFile envG w' (Some user) (Some bucketID) (Some (file_ID f)) of
                 (resp2, w2) \<Rightarrow> status resp2 = StatusOK \<and> body resp2 = Bytes content
                    \<and> map_of (headers resp2) ''ETag'' = Some (fmt_x (md5 content))))"
    by (intro impI, rule native_roundtrip, assumption+)
  show "wf_files w \<longrightarrow>
        S3PutObject env w (Some user) r = (sresp, sw') \<longrightarrow> status sresp = StatusOK \<longrightarrow>
        FileGet \<notin> failing env \<longrightarrow> FileInsert \<notin> failing env \<longrightarrow> FileUpdate \<notin> failing env \<longrightarrow>
        BucketGet \<notin> failing envG \<longrightarrow> FileGet \<notin> failing envG \<longrightarrow> OsOpen \<notin> failing envG \<longrightarrow>
        req_bucketName rG = req_bucketName r \<longrightarrow> object_key rG = object_key r \<longrightarrow>
        map_of (headers sresp) ''ETag'' = Some (quoted (fmt_x (md5 (req_body r))))
        \<and> (case S3GetObject envG sw' (Some user) rG of
              (resp2, w2) \<Rightarrow> status resp2 = StatusOK \<and> body resp2 = Bytes (req_body r)
                 \<and> map_of (headers resp2) ''ETag'' = Some (quoted (fmt_x (md5 (req_body r)))))"
    by (intro impI, rule s3_roundtrip, assumption+)
qed


text \<open>
  The theorem at the upload of \<^verbatim>\<open>hello\<close> as \<^verbatim>\<open>a.txt\<close> by the owner of the bucket; the
  digest there is the one of \<open>md5_hello\<close>.
\<close>

theorem put_then_get_returns_content_witness:
  "wf_files (world0 False)
   \<and> status (fst (UploadFile env0 (world0 False) (Some alice) (Some 1)
                    (FormFile ''a.txt'' ''text/plain'' ''hello''))) = StatusOK
   \<and> status (fst (S3PutObject env0 (world0 False) (Some alice) (put_request ''a.txt'' ''hello'')))
        = StatusOK
   \<and> failing env0 = {}
   \<and> req_bucketName (put_request ''a.txt'' []) = req_bucketName (put_request ''a.txt'' ''hello'')
   \<and> object_key (put_request ''a.txt'' []) = object_key (put_request ''a.txt'' ''hello'')
   \<and> (\<exists>f. body (fst (UploadFile env0 (world0 False) (Some alice) (Some 1)
                       (FormFile ''a.txt'' ''text/plain'' ''hello''))) = JSON (file_json f)
         \<and> file_ETag f = fmt_x (md5 ''hello'')
         \<and> (case DownloadFile env0
                    (snd (UploadFile env0 (world0 False) (Some alice) (Some 1)
                            (FormFile ''a.txt'' ''text/plain'' ''hello'')))
                    (Some alice) (Some 1) (Some (file_ID f)) of
               (resp2, w2) \<Rightarrow> status resp2 = StatusOK \<and> body resp2 = Bytes ''hello''
                  \<and> map_of (headers resp2) ''ETag'' = Some (fmt_x (md5 ''hello''))))
   \<and> map_of (headers (fst (S3PutObject env0 (world0 False) (Some alice)
                              (put_request ''a.txt'' ''hello'')))) ''ETag''
        = Some (quoted (fmt_x (md5 (req_body (put_request ''a.txt'' ''hello'')))))
   \<and> (case S3GetObject env0
              (snd (S3PutObject env0 (world0 False) (Some alice) (put_request ''a.txt'' ''hello'')))
              (Some alice) (put_request ''a.txt'' []) of
         (resp2, w2) \<Rightarrow> status resp2 = StatusOK
            \<and> body resp2 = Bytes (req_body (put_request ''a.txt'' ''hello''))
            \<and> map_of (headers resp2) ''ETag''
                 = Some (quoted (fmt_x (md5 (req_body (put_request ''a.txt'' ''hello''))))))"
proof -
  let ?U = "UploadFile env0 (world0 False) (Some alice) (Some 1)
              (FormFile ''a.txt'' ''text/plain'' ''hello'')"
  let ?P = "S3PutObject env0 (world0 False) (Some alice) (put_request ''a.txt'' ''hello'')"
  have wf: "wf_files (world0 False)"
    by (simp add: wf_files_def world0_def)
  have u: "?U = (fst ?U, snd ?U)" and p: "?P = (fst ?P, snd ?P)"
    by simp_all
  have ok: "status (fst ?U) = StatusOK \<and> status (fst ?P) = StatusOK"
    by code_simp
  have nf: "failing env0 = {}"
    by (simp add: env0_def)
  have k1: "req_bucketName (put_request ''a.txt'' []) = req_bucketName (put_request ''a.txt'' ''hello'')"
    by (simp add: put_request_def)
  have k2: "object_key (put_request ''a.txt'' []) = object_key (put_request ''a.txt'' ''hello'')"
    by (simp add: put_request_def object_key_def)
  note t = put_then_get_returns_content[where w = "world0 False" and env = env0 and envG = env0
      and user = alice and bucketID = 1 and fileName = "''a.txt''" and partType = "''text/plain''"
      and content = "''hello''" and resp = "fst ?U" and w' = "snd ?U"
      and r = "put_request ''a.txt'' ''hello''" and rG = "put_request ''a.txt'' []"
      and sresp = "fst ?P" and sw' = "snd ?P"]
  from t wf u ok nf have a: "\<exists>f. body (fst ?U) = JSON (file_json f)
         \<and> file_ETag f = fmt_x (md5 ''hello'')
         \<and> (case DownloadFile env0 (snd ?U) (Some alice) (Some 1) (Some (file_ID f)) of
               (resp2, w2) \<Rightarrow> status resp2 = StatusOK \<and> body resp2 = Bytes ''hello''
                  \<and> map_of (headers resp2) ''ETag'' = Some (fmt_x (md5 ''hello'')))"
    by simp
  from t wf p ok nf k1 k2 have b: "map_of (headers (fst ?P)) ''ETag''
        = Some (quoted (fmt_x (md5 (req_body (put_request ''a.txt'' ''hello'')))))
   \<and> (case S3GetObject env0 (snd ?P) (Some alice) (put_request ''a.txt'' []) of
         (resp2, w2) \<Rightarrow> status resp2 = StatusOK
            \<and> body resp2 = Bytes (req_body (put_request ''a.txt'' ''hello''))
            \<and> map_of (headers resp2) ''ETag''
                 = Some (quoted (fmt_x (md5 (req_body (put_request ''a.txt'' ''hello''))))))"
    by simp
  show ?thesis
    using wf ok nf k1 k2 a b by (intro conjI) (simp_all only:)
qed

section \<open>A second upload to the same key\<close>

lemma length_filter_map_same:
  "(\<forall>x \<in> set xs. P (g x) = P x) \<Longrightarrow> length (filter P (map g xs)) = length (filter P xs)"
  by (induction xs) auto

lemma updated_row_keeps:
  "file_ID (updated_row env k p t c g) = file_ID g"
  "file_BucketID (updated_row env k p t c g) = file_BucketID g"
  "file_Name (updated_row env k p t c g) = k"
  by (simp_all add: updated_row_def)

lemma second_put_in_place:
  assumes wf: "wf_files w"
    and f1: "files wA = put_files envA w uA b k pA tA cA"
    and l1: "last_file_id wA = (case find (\<lambda>f. file_BucketID f = b \<and> file_Name f = k) (files w) of
                                 Some e \<Rightarrow> last_file_id w | None \<Rightarrow> last_file_id w + 1)"
    and f2: "files wB = put_files envB wA uB b k pB tB cB"
  shows "\<exists>row1. find (\<lambda>f. file_BucketID f = b \<and> file_Name f = k) (files wA) = Some row1
           \<and> file_ID row1 = put_file_id w b k
           \<and> put_file_id wA b k = file_ID row1
           \<and> files wB = map (\<lambda>g. if g = row1 then updated_row envB k pB tB cB row1 else g) (files wA)
           \<and> length (filter (\<lambda>f. file_BucketID f = b \<and> file_Name f = k) (files wB))
                = length (filter (\<lambda>f. file_BucketID f = b \<and> file_Name f = k) (files wA))"
proof -
  define row1 where "row1 = stored_row envA w uA b k pA tA cA"
  have wf1: "wf_files wA"
    by (rule wf_files_put[OF wf f1 l1])
  have k1: "find (\<lambda>f. file_BucketID f = b \<and> file_Name f = k) (files wA) = Some row1"
    using find_key_put_files[OF wf] f1 by (simp add: row1_def)
  from find_SomeD[OF k1]
  have in1: "row1 \<in> set (files wA)" and rb: "file_BucketID row1 = b" and rn: "file_Name row1 = k"
    by simp_all
  have id1: "file_ID row1 = put_file_id w b k"
    by (simp add: row1_def stored_row_fields)
  have id2: "put_file_id wA b k = file_ID row1"
    using k1 by (simp add: put_file_id_def)
  define g where "g = (\<lambda>x. if file_ID x = file_ID row1 then updated_row envB k pB tB cB x else x)"
  have m: "files wB = map g (files wA)"
    using f2 k1 by (simp add: put_files_def g_def)
  from wf1 have d: "distinct (map file_ID (files wA))"
    by (simp add: wf_files_def)
  have gx: "g x = (if x = row1 then updated_row envB k pB tB cB row1 else x)"
    if x: "x \<in> set (files wA)" for x
  proof (cases "file_ID x = file_ID row1")
    case True
    then have "x = row1" by (rule same_id_same_row[OF d in1 x])
    then show ?thesis by (simp add: g_def)
  next
    case False
    then have "x \<noteq> row1" by auto
    with False show ?thesis by (simp add: g_def)
  qed
  have m2: "files wB = map (\<lambda>g. if g = row1 then updated_row envB k pB tB cB row1 else g) (files wA)"
    unfolding m by (rule map_cong[OF refl]) (rule gx)
  have same: "\<forall>x \<in> set (files wA).
          (file_BucketID (g x) = b \<and> file_Name (g x) = k) = (file_BucketID x = b \<and> file_Name x = k)"
  proof
    fix x assume x: "x \<in> set (files wA)"
    show "(file_BucketID (g x) = b \<and> file_Name (g x) = k) = (file_BucketID x = b \<and> file_Name x = k)"
      unfolding gx[OF x] by (simp add: updated_row_keeps rb rn)
  qed
  have len: "length (filter (\<lambda>f. file_BucketID f = b \<and> file_Name f = k) (files wB))
                = length (filter (\<lambda>f. file_BucketID f = b \<and> file_Name f = k) (files wA))"
    unfolding m by (rule length_filter_map_same[OF same])
  show ?thesis
    by (rule exI[of _ row1], intro conjI, rule k1, rule id1, rule id2, rule m2, rule len)
qed

lemma native_second_upload:
  assumes wf: "wf_files w"
    and runA: "UploadFile envA w (Some userA) (Some bucketID) (FormFile key typeA contentA)
                 = (respA, wA)"
    and okA: "status respA = StatusOK"
    and runB: "UploadFile envB wA (Some userB) (Some bucketID) (FormFile key typeB contentB)
                 = (respB, wB)"
    and okB: "status respB = StatusOK"
  shows "\<exists>row1 fA fB.
           find (\<lambda>f. file_BucketID f = bucketID \<and> file_Name f = key) (files wA) = Some row1
         \<and> body respA = JSON (file_json fA) \<and> file_ID fA = file_ID row1
         \<and> body respB = JSON (file_json fB) \<and> file_ID fB = file_ID row1
         \<and> files wB = map (\<lambda>g. if g = row1
               then row1\<lparr>file_Name := key,
                         file_Path := upload_path envB (user_ID userB) bucketID key,
                         file_ContentType := content_type_or_default typeB,
                         file_Size := int (length contentB),
                         file_ETag := fmt_x (md5 contentB),
                         file_UpdatedAt := now envB\<rparr>
               else g) (files wA)
         \<and> length (filter (\<lambda>f. file_BucketID f = bucketID \<and> file_Name f = key) (files wB))
             = length (filter (\<lambda>f. file_BucketID f = bucketID \<and> file_Name f = key) (files wA))"
proof -
  note uA = UploadFile_ok[OF runA okA]
  note stA = UploadFile_store_ok[OF uA(3) okA refl]
  note uB = UploadFile_ok[OF runB okB]
  note stB = UploadFile_store_ok[OF uB(3) okB refl]
  from second_put_in_place[OF wf stA(1) stA(4) stB(1)] obtain row1 where
    r: "find (\<lambda>f. file_BucketID f = bucketID \<and> file_Name f = key) (files wA) = Some row1"
      "file_ID row1 = put_file_id w bucketID key"
      "put_file_id wA bucketID key = file_ID row1"
      "files wB = map (\<lambda>g. if g = row1
          then updated_row envB key (upload_path envB (user_ID userB) bucketID key) typeB contentB row1
          else g) (files wA)"
      "length (filter (\<lambda>f. file_BucketID f = bucketID \<and> file_Name f = key) (files wB))
         = length (filter (\<lambda>f. file_BucketID f = bucketID \<and> file_Name f = key) (files wA))"
    by blast
  from stA(5) obtain fA where fA: "body respA = JSON (file_json fA)"
    "file_ID fA = put_file_id w bucketID key"
    by blast
  from stB(5) obtain fB where fB: "body respB = JSON (file_json fB)"
    "file_ID fB = put_file_id wA bucketID key"
    by blast
  have iA: "file_ID fA = file_ID row1" using fA(2) r(2) by simp
  have iB: "file_ID fB = file_ID row1" using fB(2) r(3) by simp
  show ?thesis
    by (rule exI[of _ row1], rule exI[of _ fA], rule exI[of _ fB], intro conjI,
        rule r(1), rule fA(1), rule iA, rule fB(1), rule iB,
        rule r(4)[unfolded updated_row_def], rule r(5))
qed

lemma s3_second_put:
  assumes wf: "wf_files w"
    and runA: "S3PutObject envA w (Some userA) rA = (respA, wA)"
    and okA: "status respA = StatusOK"
    and nfA: "FileGet \<notin> failing envA" "FileInsert \<notin> failing envA" "FileUpdate \<notin> failing envA"
    and runB: "S3PutObject envB wA (Some userA) rB = (respB, wB)"
    and okB: "status respB = StatusOK"
    and nfB: "FileGet \<notin> failing envB" "FileInsert \<notin> failing envB" "FileUpdate \<notin> failing envB"
    and same: "req_bucketName rB = req_bucketName rA" "object_key rB = object_key rA"
  shows "\<exists>bucket row1.
           bucket_GetByName envA w (req_bucketName rA) (user_ID userA) = Inr (Some bucket)
         \<and> find (\<lambda>f. file_BucketID f = bucket_ID bucket \<and> file_Name f = object_key rA) (files wA)
             = Some row1
         \<and> files wB = map (\<lambda>g. if g = row1
               then row1\<lparr>file_Name := object_key rA,
                         file_Path := upload_path envB (user_ID userA) (bucket_ID bucket)
                                        (object_key rA),
                         file_ContentType := content_type_or_default (req_contentType rB),
                         file_Size := int (length (req_body rB)),
                         file_ETag := fmt_x (md5 (req_body rB)),
                         file_UpdatedAt := now envB\<rparr>
               else g) (files wA)
         \<and> length (filter (\<lambda>f. file_BucketID f = bucket_ID bucket \<and> file_Name f = object_key rA)
                      (files wB))
             = length (filter (\<lambda>f. file_BucketID f = bucket_ID bucket \<and> file_Name f = object_key rA)
                         (files wA))"
proof -
  from S3PutObject_ok[OF runA okA] obtain bucket where
    bA: "bucket_GetByName envA w (req_bucketName rA) (user_ID userA) = Inr (Some bucket)"
    and storeA: "S3PutObject_store envA w userA bucket (object_key rA) rA = (respA, wA)"
    by blast
  note stA = S3PutObject_store_ok[OF nfA storeA okA]
  from S3PutObject_ok[OF runB okB] obtain bucket' where
    bB: "bucket_GetByName envB wA (req_bucketName rB) (user_ID userA) = Inr (Some bucket')"
    and storeB': "S3PutObject_store envB wA userA bucket' (object_key rB) rB = (respB, wB)"
    by blast
  from bucket_GetByName_owner[OF bA] bucket_GetByName_owner[OF bB] stA(3) same(1)
  have "bucket' = bucket" by simp
  with storeB' same(2)
  have storeB: "S3PutObject_store envB wA userA bucket (object_key rA) rB = (respB, wB)"
    by simp
  note stB = S3PutObject_store_ok[OF nfB storeB okB]
  from second_put_in_place[OF wf stA(1) stA(4) stB(1)] obtain row1 where
    r: "find (\<lambda>f. file_BucketID f = bucket_ID bucket \<and> file_Name f = object_key rA) (files wA)
          = Some row1"
      "files wB = map (\<lambda>g. if g = row1
          then updated_row envB (object_key rA)
                 (upload_path envB (user_ID userA) (bucket_ID bucket) (object_key rA))
                 (req_contentType rB) (req_body rB) row1
          else g) (files wA)"
      "length (filter (\<lambda>f. file_BucketID f = bucket_ID bucket \<and> file_Name f = object_key rA)
                 (files wB))
         = length (filter (\<lambda>f. file_BucketID f = bucket_ID bucket \<and> file_Name f = object_key rA)
                     (files wA))"
    by blast
  show ?thesis
    by (rule exI[of _ bucket], rule exI[of _ row1], intro conjI,
        rule bA, rule r(1), rule r(2)[unfolded updated_row_def], rule r(3))
qed

text \<open>
  Claim C3. Two uploads to the same bucket and key that both succeed: the second one
  leaves the table of files as the first one left it, but for the one row of the key,
  in which the name, the path, the content type, the size, the ETag and the time of the
  update are those of the second upload and every other field, the id among them, is
  as it was; the table has as many rows for the key as before. \<^verbatim>\<open>UploadFile\<close>
  answers both times with that id. The table of files is well formed before the first
  upload and, for \<^verbatim>\<open>S3PutObject\<close>, which answers 200 also when its metadata is not
  written (claim C8), the operations on the table of files do not fail.
\<close>

theorem second_upload_updates_in_place:
  "(wf_files w \<longrightarrow>
      UploadFile envA w (Some userA) (Some bucketID) (FormFile key typeA contentA) = (respA, wA) \<longrightarrow>
      status respA = StatusOK \<longrightarrow>
      UploadFile envB wA (Some userB) (Some bucketID) (FormFile key typeB contentB) = (respB, wB) \<longrightarrow>
      status respB = StatusOK \<longrightarrow>
      (\<exists>row1 fA fB.
             find (\<lambda>f. file_BucketID f = bucketID \<and> file_Name f = key) (files wA) = Some row1
           \<and> body respA = JSON (file_json fA) \<and> file_ID fA = file_ID row1
           \<and> body respB = JSON (file_json fB) \<and> file_ID fB = file_ID row1
           \<and> files wB = map (\<lambda>g. if g = row1
                 then row1\<lparr>file_Name := key,
                           file_Path := upload_path envB (user_ID userB) bucketID key,
                           file_ContentType := content_type_or_default typeB,
                           file_Size := int (length contentB),
                           file_ETag := fmt_x (md5 contentB),
                           file_UpdatedAt := now envB\<rparr>
                 else g) (files wA)
           \<and> length (filter (\<lambda>f. file_BucketID f = bucketID \<and> file_Name f = key) (files wB))
               = length (filter (\<lambda>f. file_BucketID f = bucketID \<and> file_Name f = key) (files wA))))
   \<and> (wf_files w \<longrightarrow>
      S3PutObject envA w (Some userA) rA = (srespA, swA) \<longrightarrow> status srespA = StatusOK \<longrightarrow>
      FileGet \<notin> failing envA \<longrightarrow> FileInsert \<notin> failing envA \<longrightarrow> FileUpdate \<notin> failing envA \<longrightarrow>
      S3PutObject envB swA (Some userA) rB = (srespB, swB) \<longrightarrow> status srespB = StatusOK \<longrightarrow>
      FileGet \<notin> failing envB \<longrightarrow> FileInsert \<notin> failing envB \<longrightarrow> FileUpdate \<notin> failing envB \<longrightarrow>
      req_bucketName rB = req_bucketName rA \<longrightarrow> object_key rB = object_key rA \<longrightarrow>
      (\<exists>bucket row1.
             bucket_GetByName envA w (req_bucketName rA) (user_ID userA) = Inr (Some bucket)
           \<and> find (\<lambda>f. file_BucketID f = bucket_ID bucket \<and> file_Name f = object_key rA) (files swA)
               = Some row1
           \<and> files swB = map (\<lambda>g. if g = row1
                 then row1\<lparr>file_Name := object_key rA,
                           file_Path := upload_path envB (user_ID userA) (bucket_ID bucket)
                                          (object_key rA),
                           file_ContentType := content_type_or_default (req_contentType rB),
                           file_Size := int (length (req_body rB)),
                           file_ETag := fmt_x (md5 (req_body rB)),
                           file_UpdatedAt := now envB\<rparr>
                 else g) (files swA)
           \<and> length (filter (\<lambda>f. file_BucketID f = bucket_ID bucket \<and> file_Name f = object_key rA)
                        (files swB))
               = length (filter (\<lambda>f. file_BucketID f = bucket_ID bucket \<and> file_Name f = object_key rA)
                           (files swA))))"
proof (rule conjI)
  show "wf_files w \<longrightarrow>
      UploadFile envA w (Some userA) (Some bucketID) (FormFile key typeA contentA) = (respA, wA) \<longrightarrow>
      status respA = StatusOK \<longrightarrow>
      UploadFile envB wA (Some userB) (Some bucketID) (FormFile key typeB contentB) = (respB, wB) \<longrightarrow>
      status respB = StatusOK \<longrightarrow>
      (\<exists>row1 fA fB.
             find (\<lambda>f. file_BucketID f = bucketID \<and> file_Name f = key) (files wA) = Some row1
           \<and> body respA = JSON (file_json fA) \<and> file_ID fA = file_ID row1
           \<and> body respB = JSON (file_json fB) \<and> file_ID fB = file_ID row1
           \<and> files wB = map (\<lambda>g. if g = row1
                 then row1\<lparr>file_Name := key,
                           file_Path := upload_path envB (user_ID userB) bucketID key,
                           file_ContentType := content_type_or_default typeB,
                           file_Size := int (length contentB),
                           file_ETag := fmt_x (md5 contentB),
                           file_UpdatedAt := now envB\<rparr>
                 else g) (files wA)
           \<and> length (filter (\<lambda>f. file_BucketID f = bucketID \<and> file_Name f = key) (files wB))
               = length (filter (\<lambda>f. file_BucketID f = bucketID \<and> file_Name f = key) (files wA)))"
    by (intro impI, rule native_second_upload, assumption+)
  show "wf_files w \<longrightarrow>
      S3PutObject envA w (Some userA) rA = (srespA, swA) \<longrightarrow> status srespA = StatusOK \<longrightarrow>
      FileGet \<notin> failing envA \<longrightarrow> FileInsert \<notin> failing envA \<longrightarrow> FileUpdate \<notin> failing envA \<longrightarrow>
      S3PutObject envB swA (Some userA) rB = (srespB, swB) \<longrightarrow> status srespB = StatusOK \<longrightarrow>
      FileGet \<notin> failing envB \<longrightarrow> FileInsert \<notin> failing envB \<longrightarrow> FileUpdate \<notin> failing envB \<longrightarrow>
      req_bucketName rB = req_bucketName rA \<longrightarrow> object_key rB = object_key rA \<longrightarrow>
      (\<exists>bucket row1.
             bucket_GetByName envA w (req_bucketName rA) (user_ID userA) = Inr (Some bucket)
           \<and> find (\<lambda>f. file_BucketID f = bucket_ID bucket \<and> file_Name f = object_key rA) (files swA)
               = Some row1
           \<and> files swB = map (\<lambda>g. if g = row1
                 then row1\<lparr>file_Name := object_key rA,
                           file_Path := upload_path envB (user_ID userA) (bucket_ID bucket)
                                          (object_key rA),
                           file_ContentType := content_type_or_default (req_contentType rB),
                           file_Size := int (length (req_body rB)),
                           file_ETag := fmt_x (md5 (req_body rB)),
                           file_UpdatedAt := now envB\<rparr>
                 else g) (files swA)
           \<and> length (filter (\<lambda>f. file_BucketID f = bucket_ID bucket \<and> file_Name f = object_key rA)
                        (files swB))
               = length (filter (\<lambda>f. file_BucketID f = bucket_ID bucket \<and> file_Name f = object_key rA)
                           (files swA)))"
    by (intro impI, rule s3_second_put, assumption+)
qed

text \<open>
  The theorem at two uploads of \<^verbatim>\<open>a.txt\<close> by the owner of the bucket, \<^verbatim>\<open>hello\<close> and
  then \<^verbatim>\<open>bye\<close>, the second one with no content type.
\<close>

theorem second_upload_updates_in_place_witness:
  "wf_files (world0 False)
   \<and> status (fst (UploadFile env0 (world0 False) (Some alice) (Some 1) (FormFile ''a.txt'' ''text/plain'' ''hello''))) = StatusOK
   \<and> status (fst (UploadFile env0 (snd (UploadFile env0 (world0 False) (Some alice) (Some 1) (FormFile ''a.txt'' ''text/plain'' ''hello''))) (Some alice) (Some 1) (FormFile ''a.txt'' [] ''bye''))) = StatusOK
   \<and> status (fst (S3PutObject env0 (world0 False) (Some alice) (put_request ''a.txt'' ''hello''))) = StatusOK
   \<and> status (fst (S3PutObject env0 (snd (S3PutObject env0 (world0 False) (Some alice) (put_request ''a.txt'' ''hello''))) (Some alice) (put_request ''a.txt'' ''bye''))) = StatusOK
   \<and> failing env0 = {}
   \<and> req_bucketName (put_request ''a.txt'' ''bye'') = req_bucketName (put_request ''a.txt'' ''hello'')
   \<and> object_key (put_request ''a.txt'' ''bye'') = object_key (put_request ''a.txt'' ''hello'')
   \<and> (\<exists>row1 fA fB.
          find (\<lambda>f. file_BucketID f = 1 \<and> file_Name f = ''a.txt'') (files (snd (UploadFile env0 (world0 False) (Some alice) (Some 1) (FormFile ''a.txt'' ''text/plain'' ''hello'')))) = Some row1
        \<and> body (fst (UploadFile env0 (world0 False) (Some alice) (Some 1) (FormFile ''a.txt'' ''text/plain'' ''hello''))) = JSON (file_json fA) \<and> file_ID fA = file_ID row1
        \<and> body (fst (UploadFile env0 (snd (UploadFile env0 (world0 False) (Some alice) (Some 1) (FormFile ''a.txt'' ''text/plain'' ''hello''))) (Some alice) (Some 1) (FormFile ''a.txt'' [] ''bye''))) = JSON (file_json fB) \<and> file_ID fB = file_ID row1
        \<and> files (snd (UploadFile env0 (snd (UploadFile env0 (world0 False) (Some alice) (Some 1) (FormFile ''a.txt'' ''text/plain'' ''hello''))) (Some alice) (Some 1) (FormFile ''a.txt'' [] ''bye''))) = map (\<lambda>g. if g = row1
              then row1\<lparr>file_Name := ''a.txt'',
                        file_Path := upload_path env0 (user_ID alice) 1 ''a.txt'',
                        file_ContentType := content_type_or_default [],
                        file_Size := int (length ''bye''),
                        file_ETag := fmt_x (md5 ''bye''),
                        file_UpdatedAt := now env0\<rparr>
              else g) (files (snd (UploadFile env0 (world0 False) (Some alice) (Some 1) (FormFile ''a.txt'' ''text/plain'' ''hello''))))
        \<and> length (filter (\<lambda>f. file_BucketID f = 1 \<and> file_Name f = ''a.txt'') (files (snd (UploadFile env0 (snd (UploadFile env0 (world0 False) (Some alice) (Some 1) (FormFile ''a.txt'' ''text/plain'' ''hello''))) (Some alice) (Some 1) (FormFile ''a.txt'' [] ''bye'')))))
            = length (filter (\<lambda>f. file_BucketID f = 1 \<and> file_Name f = ''a.txt'') (files (snd (UploadFile env0 (world0 False) (Some alice) (Some 1) (FormFile ''a.txt'' ''text/plain'' ''hello''))))))
   \<and> (\<exists>bucket row1.
          bucket_GetByName env0 (world0 False) (req_bucketName (put_request ''a.txt'' ''hello'')) (user_ID alice) = Inr (Some bucket)
        \<and> find (\<lambda>f. file_BucketID f = bucket_ID bucket \<and> file_Name f = object_key (put_request ''a.txt'' ''hello'')) (files (snd (S3PutObject env0 (world0 False) (Some alice) (put_request ''a.txt'' ''hello''))))
            = Some row1
        \<and> files (snd (S3PutObject env0 (snd (S3PutObject env0 (world0 False) (Some alice) (put_request ''a.txt'' ''hello''))) (Some alice) (put_request ''a.txt'' ''bye''))) = map (\<lambda>g. if g = row1
              then row1\<lparr>file_Name := object_key (put_request ''a.txt'' ''hello''),
                        file_Path := upload_path env0 (user_ID alice) (bucket_ID bucket)
                                       (object_key (put_request ''a.txt'' ''hello'')),
                        file_ContentType := content_type_or_default (req_contentType (put_request ''a.txt'' ''bye'')),
                        file_Size := int (length (req_body (put_request ''a.txt'' ''bye''))),
                        file_ETag := fmt_x (md5 (req_body (put_request ''a.txt'' ''bye''))),
                        file_UpdatedAt := now env0\<rparr>
              else g) (files (snd (S3PutObject env0 (world0 False) (Some alice) (put_request ''a.txt'' ''hello''))))
        \<and> length (filter (\<lambda>f. file_BucketID f = bucket_ID bucket \<and> file_Name f = object_key (put_request ''a.txt'' ''hello''))
                     (files (snd (S3PutObject env0 (snd (S3PutObject env0 (world0 False) (Some alice) (put_request ''a.txt'' ''hello''))) (Some alice) (put_request ''a.txt'' ''bye'')))))
            = length (filter (\<lambda>f. file_BucketID f = bucket_ID bucket \<and> file_Name f = object_key (put_request ''a.txt'' ''hello''))
                        (files (snd (S3PutObject env0 (world0 False) (Some alice) (put_request ''a.txt'' ''hello''))))))"
proof -
  let ?UA = "UploadFile env0 (world0 False) (Some alice) (Some 1)
               (FormFile ''a.txt'' ''text/plain'' ''hello'')"
  let ?UB = "UploadFile env0 (snd ?UA) (Some alice) (Some 1) (FormFile ''a.txt'' [] ''bye'')"
  let ?PA = "S3PutObject env0 (world0 False) (Some alice) (put_request ''a.txt'' ''hello'')"
  let ?PB = "S3PutObject env0 (snd ?PA) (Some alice) (put_request ''a.txt'' ''bye'')"
  have wf: "wf_files (world0 False)"
    by (simp add: wf_files_def world0_def)
  have uA: "?UA = (fst ?UA, snd ?UA)" and uB: "?UB = (fst ?UB, snd ?UB)"
    and pA: "?PA = (fst ?PA, snd ?PA)" and pB: "?PB = (fst ?PB, snd ?PB)"
    by simp_all
  have okUA: "status (fst ?UA) = StatusOK"
    by code_simp
  have okUB: "status (fst ?UB) = StatusOK"
    by code_simp
  have okPA: "status (fst ?PA) = StatusOK"
    by code_simp
  have okPB: "status (fst ?PB) = StatusOK"
    by code_simp
  have nf: "failing env0 = {}"
    by (simp add: env0_def)
  have k1: "req_bucketName (put_request ''a.txt'' ''bye'') = req_bucketName (put_request ''a.txt'' ''hello'')"
    by (simp add: put_request_def)
  have k2: "object_key (put_request ''a.txt'' ''bye'') = object_key (put_request ''a.txt'' ''hello'')"
    by (simp add: put_request_def object_key_def)
  note t = second_upload_updates_in_place[where w = "world0 False" and envA = env0 and envB = env0
      and userA = alice and userB = alice and bucketID = 1 and key = "''a.txt''"
      and typeA = "''text/plain''" and contentA = "''hello''" and typeB = "[]"
      and contentB = "''bye''" and respA = "fst ?UA" and wA = "snd ?UA"
      and respB = "fst ?UB" and wB = "snd ?UB"
      and rA = "put_request ''a.txt'' ''hello''" and rB = "put_request ''a.txt'' ''bye''"
      and srespA = "fst ?PA" and swA = "snd ?PA" and srespB = "fst ?PB" and swB = "snd ?PB"]
  from t wf uA uB okUA okUB have a: "(\<exists>row1 fA fB.
          find (\<lambda>f. file_BucketID f = 1 \<and> file_Name f = ''a.txt'') (files (snd ?UA)) = Some row1
        \<and> body (fst ?UA) = JSON (file_json fA) \<and> file_ID fA = file_ID row1
        \<and> body (fst ?UB) = JSON (file_json fB) \<and> file_ID fB = file_ID row1
        \<and> files (snd ?UB) = map (\<lambda>g. if g = row1
              then row1\<lparr>file_Name := ''a.txt'',
                        file_Path := upload_path env0 (user_ID alice) 1 ''a.txt'',
                        file_ContentType := content_type_or_default [],
                        file_Size := int (length ''bye''),
                        file_ETag := fmt_x (md5 ''bye''),
                        file_UpdatedAt := now env0\<rparr>
              else g) (files (snd ?UA))
        \<and> length (filter (\<lambda>f. file_BucketID f = 1 \<and> file_Name f = ''a.txt'') (files (snd ?UB)))
            = length (filter (\<lambda>f. file_BucketID f = 1 \<and> file_Name f = ''a.txt'') (files (snd ?UA))))"
    by simp
  from t wf pA pB okPA okPB nf k1 k2 have b: "(\<exists>bucket row1.
          bucket_GetByName env0 (world0 False) (req_bucketName (put_request ''a.txt'' ''hello'')) (user_ID alice) = Inr (Some bucket)
        \<and> find (\<lambda>f. file_BucketID f = bucket_ID bucket \<and> file_Name f = object_key (put_request ''a.txt'' ''hello'')) (files (snd ?PA))
            = Some row1
        \<and> files (snd ?PB) = map (\<lambda>g. if g = row1
              then row1\<lparr>file_Name := object_key (put_request ''a.txt'' ''hello''),
                        file_Path := upload_path env0 (user_ID alice) (bucket_ID bucket)
                                       (object_key (put_request ''a.txt'' ''hello'')),
                        file_ContentType := content_type_or_default (req_contentType (put_request ''a.txt'' ''bye'')),
                        file_Size := int (length (req_body (put_request ''a.txt'' ''bye''))),
                        file_ETag := fmt_x (md5 (req_body (put_request ''a.txt'' ''bye''))),
                        file_UpdatedAt := now env0\<rparr>
              else g) (files (snd ?PA))
        \<and> length (filter (\<lambda>f. file_BucketID f = bucket_ID bucket \<and> file_Name f = object_key (put_request ''a.txt'' ''hello''))
                     (files (snd ?PB)))
            = length (filter (\<lambda>f. file_BucketID f = bucket_ID bucket \<and> file_Name f = object_key (put_request ''a.txt'' ''hello''))
                        (files (snd ?PA))))"
    by simp
  show ?thesis
    using wf okUA okUB okPA okPB nf k1 k2 a b by (intro conjI) (simp_all only:)
qed

section \<open>The path of the content\<close>

lemma set_put_files:
  assumes "wf_files w"
  shows "set (put_files env w u b k p t c) \<subseteq> insert (stored_row env w u b k p t c) (set (files w))"
proof (cases "find (\<lambda>f. file_BucketID f = b \<and> file_Name f = k) (files w)")
  case None
  then show ?thesis
    by (auto simp: put_files_def stored_row_def)
next
  case (Some e)
  then have e: "e \<in> set (files w)"
    by (auto dest: find_SomeD)
  from assms have d: "distinct (map file_ID (files w))"
    by (simp add: wf_files_def)
  let ?g = "\<lambda>x. if file_ID x = file_ID e then updated_row env k p t c x else x"
  have step: "?g x \<in> insert (updated_row env k p t c e) (set (files w))"
    if x: "x \<in> set (files w)" for x
  proof (cases "file_ID x = file_ID e")
    case True
    then have "x = e" by (rule same_id_same_row[OF d e x])
    then show ?thesis by simp
  next
    case False
    with x show ?thesis by simp
  qed
  have "set (map ?g (files w)) \<subseteq> insert (updated_row env k p t c e) (set (files w))"
  proof
    fix y assume "y \<in> set (map ?g (files w))"
    then obtain x where x: "x \<in> set (files w)" and y: "y = ?g x"
      by auto
    show "y \<in> insert (updated_row env k p t c e) (set (files w))"
      unfolding y by (rule step[OF x])
  qed
  with Some show ?thesis
    by (simp add: put_files_def stored_row_def)
qed

lemma put_twice_paths:
  assumes wf: "wf_files w"
    and f1: "files wA = put_files envA w uA b k pA tA cA"
    and l1: "last_file_id wA = (case find (\<lambda>f. file_BucketID f = b \<and> file_Name f = k) (files w) of
                                 Some e \<Rightarrow> last_file_id w | None \<Rightarrow> last_file_id w + 1)"
    and f2: "files wB = put_files envB wA uB b k pB tB cB"
    and ne: "pA \<noteq> pB"
  shows "\<exists>row1 row2.
           find (\<lambda>f. file_BucketID f = b \<and> file_Name f = k) (files wA) = Some row1
         \<and> file_Path row1 = pA
         \<and> find (\<lambda>f. file_BucketID f = b \<and> file_Name f = k) (files wB) = Some row2
         \<and> file_ID row2 = file_ID row1 \<and> file_Path row2 = pB
         \<and> length (filter (\<lambda>f. file_BucketID f = b \<and> file_Name f = k) (files wB))
             = length (filter (\<lambda>f. file_BucketID f = b \<and> file_Name f = k) (files wA))
         \<and> {f \<in> set (files wB). file_Path f = pA}
             \<subseteq> {f \<in> set (files w). file_ID f \<noteq> file_ID row1}"
proof -
  define row1 where "row1 = stored_row envA w uA b k pA tA cA"
  define row2 where "row2 = stored_row envB wA uB b k pB tB cB"
  have wfA: "wf_files wA"
    by (rule wf_files_put[OF wf f1 l1])
  from wfA have d: "distinct (map file_ID (files wA))"
    by (simp add: wf_files_def)
  have k1: "find (\<lambda>f. file_BucketID f = b \<and> file_Name f = k) (files wA) = Some row1"
    using find_key_put_files[OF wf] f1 by (simp add: row1_def)
  from find_SomeD[OF k1] have in1: "row1 \<in> set (files wA)"
    by simp
  have p1: "file_Path row1 = pA"
    by (simp add: row1_def stored_row_fields)
  have k2: "find (\<lambda>f. file_BucketID f = b \<and> file_Name f = k) (files wB) = Some row2"
    using find_key_put_files[OF wfA] f2 by (simp add: row2_def)
  have i2: "file_ID row2 = file_ID row1"
    using k1 by (simp add: row2_def stored_row_fields put_file_id_def)
  have p2: "file_Path row2 = pB"
    by (simp add: row2_def stored_row_fields)
  from second_put_in_place[OF wf f1 l1 f2] k1
  have len: "length (filter (\<lambda>f. file_BucketID f = b \<and> file_Name f = k) (files wB))
             = length (filter (\<lambda>f. file_BucketID f = b \<and> file_Name f = k) (files wA))"
    by auto
  have sub: "{f \<in> set (files wB). file_Path f = pA}
               \<subseteq> {f \<in> set (files w). file_ID f \<noteq> file_ID row1}"
  proof
    fix f assume "f \<in> {f \<in> set (files wB). file_Path f = pA}"
    then have fB: "f \<in> set (files wB)" and fp: "file_Path f = pA"
      by simp_all
    from fB set_put_files[OF wfA, of envB uB b k pB tB cB] f2
    have "f = row2 \<or> f \<in> set (files wA)"
      by (auto simp: row2_def)
    with fp p2 ne have fA: "f \<in> set (files wA)"
      by auto
    have nid: "file_ID f \<noteq> file_ID row1"
    proof
      assume "file_ID f = file_ID row1"
      then have "f = row1"
        by (rule same_id_same_row[OF d in1 fA])
      with k1 f2 have "f \<notin> set (files wB) \<or> updated_row envB k pB tB cB row1 = row1"
        using second_put_in_place[OF wf f1 l1 f2] by auto
      moreover have "file_Path (updated_row envB k pB tB cB row1) = pB"
        by (simp add: updated_row_def)
      ultimately show False
        using fB p1 ne by auto
    qed
    from fA set_put_files[OF wf, of envA uA b k pA tA cA] f1
    have "f = row1 \<or> f \<in> set (files w)"
      by (auto simp: row1_def)
    with nid have "f \<in> set (files w)"
      by auto
    with nid show "f \<in> {f \<in> set (files w). file_ID f \<noteq> file_ID row1}"
      by simp
  qed
  show ?thesis
    by (rule exI[of _ row1], rule exI[of _ row2], intro conjI,
        rule k1, rule p1, rule k2, rule i2, rule p2, rule len, rule sub)
qed

lemma native_upload_path:
  assumes wf: "wf_files w"
    and run: "UploadFile env w (Some user) (Some bucketID) (FormFile key partType content)
                = (resp, w')"
    and ok: "status resp = StatusOK"
  shows "disk w' (upload_path env (user_ID user) bucketID key) = Some content
       \<and> (\<exists>row. find (\<lambda>f. file_BucketID f = bucketID \<and> file_Name f = key) (files w') = Some row
              \<and> file_Path row = upload_path env (user_ID user) bucketID key)"
proof -
  note u = UploadFile_ok[OF run ok]
  note st = UploadFile_store_ok[OF u(3) ok refl]
  let ?path = "upload_path env (user_ID user) bucketID key"
  let ?row = "stored_row env w (user_ID user) bucketID key ?path partType content"
  have d: "disk w' ?path = Some content"
    using st(2) by simp
  have k: "find (\<lambda>f. file_BucketID f = bucketID \<and> file_Name f = key) (files w') = Some ?row"
    using find_key_put_files[OF wf] st(1) by simp
  have p: "file_Path ?row = ?path"
    by (simp add: stored_row_fields)
  show ?thesis
    by (rule conjI, rule d, rule exI[of _ ?row], rule conjI, rule k, rule p)
qed

lemma s3_put_path:
  assumes wf: "wf_files w"
    and run: "S3PutObject env w (Some user) r = (resp, w')"
    and ok: "status resp = StatusOK"
    and nf: "FileGet \<notin> failing env" "FileInsert \<notin> failing env" "FileUpdate \<notin> failing env"
  shows "\<exists>bucket row.
           bucket_GetByName env w (req_bucketName r) (user_ID user) = Inr (Some bucket)
         \<and> disk w' (upload_path env (user_ID user) (bucket_ID bucket) (object_key r))
             = Some (req_body r)
         \<and> find (\<lambda>f. file_BucketID f = bucket_ID bucket \<and> file_Name f = object_key r) (files w')
             = Some row
         \<and> file_Path row = upload_path env (user_ID user) (bucket_ID bucket) (object_key r)"
proof -
  from S3PutObject_ok[OF run ok] obtain bucket where
    b: "bucket_GetByName env w (req_bucketName r) (user_ID user) = Inr (Some bucket)"
    and store: "S3PutObject_store env w user bucket (object_key r) r = (resp, w')"
    by blast
  note st = S3PutObject_store_ok[OF nf store ok]
  let ?path = "upload_path env (user_ID user) (bucket_ID bucket) (object_key r)"
  let ?row = "stored_row env w (user_ID user) (bucket_ID bucket) (object_key r) ?path
                (req_contentType r) (req_body r)"
  have d: "disk w' ?path = Some (req_body r)"
    using st(2) by simp
  have k: "find (\<lambda>f. file_BucketID f = bucket_ID bucket \<and> file_Name f = object_key r) (files w')
             = Some ?row"
    using find_key_put_files[OF wf] st(1) by simp
  have p: "file_Path ?row = ?path"
    by (simp add: stored_row_fields)
  show ?thesis
    by (rule exI[of _ bucket], rule exI[of _ ?row], intro conjI, rule b, rule d, rule k, rule p)
qed

lemma native_overwrite_by_other:
  assumes wf: "wf_files w"
    and runA: "UploadFile envA w (Some userA) (Some bucketID) (FormFile key typeA contentA)
                 = (respA, wA)"
    and okA: "status respA = StatusOK"
    and runB: "UploadFile envB wA (Some userB) (Some bucketID) (FormFile key typeB contentB)
                 = (respB, wB)"
    and okB: "status respB = StatusOK"
    and ne: "upload_path envA (user_ID userA) bucketID key
               \<noteq> upload_path envB (user_ID userB) bucketID key"
  shows "\<exists>row1 row2.
           find (\<lambda>f. file_BucketID f = bucketID \<and> file_Name f = key) (files wA) = Some row1
         \<and> file_Path row1 = upload_path envA (user_ID userA) bucketID key
         \<and> find (\<lambda>f. file_BucketID f = bucketID \<and> file_Name f = key) (files wB) = Some row2
         \<and> file_ID row2 = file_ID row1
         \<and> file_Path row2 = upload_path envB (user_ID userB) bucketID key
         \<and> length (filter (\<lambda>f. file_BucketID f = bucketID \<and> file_Name f = key) (files wB))
             = length (filter (\<lambda>f. file_BucketID f = bucketID \<and> file_Name f = key) (files wA))
         \<and> {f \<in> set (files wB). file_Path f = upload_path envA (user_ID userA) bucketID key}
             \<subseteq> {f \<in> set (files w). file_ID f \<noteq> file_ID row1}
         \<and> disk wB (upload_path envA (user_ID userA) bucketID key) = Some contentA
         \<and> disk wB (upload_path envB (user_ID userB) bucketID key) = Some contentB"
proof -
  note uA = UploadFile_ok[OF runA okA]
  note stA = UploadFile_store_ok[OF uA(3) okA refl]
  note uB = UploadFile_ok[OF runB okB]
  note stB = UploadFile_store_ok[OF uB(3) okB refl]
  let ?pA = "upload_path envA (user_ID userA) bucketID key"
  let ?pB = "upload_path envB (user_ID userB) bucketID key"
  from put_twice_paths[OF wf stA(1) stA(4) stB(1) ne] obtain row1 row2 where
    r: "find (\<lambda>f. file_BucketID f = bucketID \<and> file_Name f = key) (files wA) = Some row1"
      "file_Path row1 = ?pA"
      "find (\<lambda>f. file_BucketID f = bucketID \<and> file_Name f = key) (files wB) = Some row2"
      "file_ID row2 = file_ID row1" "file_Path row2 = ?pB"
      "length (filter (\<lambda>f. file_BucketID f = bucketID \<and> file_Name f = key) (files wB))
         = length (filter (\<lambda>f. file_BucketID f = bucketID \<and> file_Name f = key) (files wA))"
      "{f \<in> set (files wB). file_Path f = ?pA} \<subseteq> {f \<in> set (files w). file_ID f \<noteq> file_ID row1}"
    by blast
  have dA: "disk wB ?pA = Some contentA"
    using stA(2) stB(2) ne by simp
  have dB: "disk wB ?pB = Some contentB"
    using stB(2) by simp
  show ?thesis
    by (rule exI[of _ row1], rule exI[of _ row2], intro conjI,
        rule r(1), rule r(2), rule r(3), rule r(4), rule r(5), rule r(6), rule r(7),
        rule dA, rule dB)
qed

text \<open>
  Claim C10. After an upload that succeeded, the content is on the disk at
  \<open>upload_path\<close>, the path made of the storage base, the id of the user who uploads,
  the id of the bucket and the key, and the row of the key holds this path: for
  \<^verbatim>\<open>UploadFile\<close>, where the user may be another one than the owner of the bucket, and
  for \<^verbatim>\<open>S3PutObject\<close>. When a second user then uploads to the same bucket and key with
  \<^verbatim>\<open>UploadFile\<close>, and the two paths differ, the row of the key is the same record (the
  same id, no further row for the key) with the path of the second user, both files are
  on the disk, each with the content of its upload, and a row that still holds the
  path of the first user is a row of another record that was in the table before the
  first upload: neither upload leaves a reference to that path. The table of files is
  well formed at the start and, for \<^verbatim>\<open>S3PutObject\<close>, the operations on the table of
  files do not fail (claim C8). That the two paths differ is a hypothesis because
  \<^verbatim>\<open>filepath.Join\<close> resolves the \<^verbatim>\<open>..\<close> elements of a key: the key \<^verbatim>\<open>../../x\<close> gives
  every user the same path (claim C1), and then the second upload replaces the file of
  the first.
\<close>

theorem content_path_is_uploaders:
  "(wf_files w \<longrightarrow>
      UploadFile env w (Some user) (Some bucketID) (FormFile key partType content) = (resp, w') \<longrightarrow>
      status resp = StatusOK \<longrightarrow>
      disk w' (upload_path env (user_ID user) bucketID key) = Some content
      \<and> (\<exists>row. find (\<lambda>f. file_BucketID f = bucketID \<and> file_Name f = key) (files w') = Some row
             \<and> file_Path row = upload_path env (user_ID user) bucketID key))
   \<and> (wf_files w \<longrightarrow>
      S3PutObject env w (Some user) r = (sresp, sw') \<longrightarrow> status sresp = StatusOK \<longrightarrow>
      FileGet \<notin> failing env \<longrightarrow> FileInsert \<notin> failing env \<longrightarrow> FileUpdate \<notin> failing env \<longrightarrow>
      (\<exists>bucket row.
           bucket_GetByName env w (req_bucketName r) (user_ID user) = Inr (Some bucket)
         \<and> disk sw' (upload_path env (user_ID user) (bucket_ID bucket) (object_key r))
             = Some (req_body r)
         \<and> find (\<lambda>f. file_BucketID f = bucket_ID bucket \<and> file_Name f = object_key r) (files sw')
             = Some row
         \<and> file_Path row = upload_path env (user_ID user) (bucket_ID bucket) (object_key r)))
   \<and> (wf_files w \<longrightarrow>
      UploadFile envA w (Some userA) (Some bucketID) (FormFile key typeA contentA) = (respA, wA) \<longrightarrow>
      status respA = StatusOK \<longrightarrow>
      UploadFile envB wA (Some userB) (Some bucketID) (FormFile key typeB contentB) = (respB, wB) \<longrightarrow>
      status respB = StatusOK \<longrightarrow>
      upload_path envA (user_ID userA) bucketID key \<noteq> upload_path envB (user_ID userB) bucketID key \<longrightarrow>
      (\<exists>row1 row2.
           find (\<lambda>f. file_BucketID f = bucketID \<and> file_Name f = key) (files wA) = Some row1
         \<and> file_Path row1 = upload_path envA (user_ID userA) bucketID key
         \<and> find (\<lambda>f. file_BucketID f = bucketID \<and> file_Name f = key) (files wB) = Some row2
         \<and> file_ID row2 = file_ID row1
         \<and> file_Path row2 = upload_path envB (user_ID userB) bucketID key
         \<and> length (filter (\<lambda>f. file_BucketID f = bucketID \<and> file_Name f = key) (files wB))
             = length (filter (\<lambda>f. file_BucketID f = bucketID \<and> file_Name f = key) (files wA))
         \<and> {f \<in> set (files wB). file_Path f = upload_path envA (user_ID userA) bucketID key}
             \<subseteq> {f \<in> set (files w). file_ID f \<noteq> file_ID row1}
         \<and> disk wB (upload_path envA (user_ID userA) bucketID key) = Some contentA
         \<and> disk wB (upload_path envB (user_ID userB) bucketID key) = Some contentB))"
proof (intro conjI)
  show "wf_files w \<longrightarrow>
      UploadFile env w (Some user) (Some bucketID) (FormFile key partType content) = (resp, w') \<longrightarrow>
      status resp = StatusOK \<longrightarrow>
      disk w' (upload_path env (user_ID user) bucketID key) = Some content
      \<and> (\<exists>row. find (\<lambda>f. file_BucketID f = bucketID \<and> file_Name f = key) (files w') = Some row
             \<and> file_Path row = upload_path env (user_ID user) bucketID key)"
    by (intro impI, rule native_upload_path, assumption+)
  show "wf_files w \<longrightarrow>
      S3PutObject env w (Some user) r = (sresp, sw') \<longrightarrow> status sresp = StatusOK \<longrightarrow>
      FileGet \<notin> failing env \<longrightarrow> FileInsert \<notin> failing env \<longrightarrow> FileUpdate \<notin> failing env \<longrightarrow>
      (\<exists>bucket row.
           bucket_GetByName env w (req_bucketName r) (user_ID user) = Inr (Some bucket)
         \<and> disk sw' (upload_path env (user_ID user) (bucket_ID bucket) (object_key r))
             = Some (req_body r)
         \<and> find (\<lambda>f. file_BucketID f = bucket_ID bucket \<and> file_Name f = object_key r) (files sw')
             = Some row
         \<and> file_Path row = upload_path env (user_ID user) (bucket_ID bucket) (object_key r))"
    by (intro impI, rule s3_put_path, assumption+)
  show "wf_files w \<longrightarrow>
      UploadFile envA w (Some userA) (Some bucketID) (FormFile key typeA contentA) = (respA, wA) \<longrightarrow>
      status respA = StatusOK \<longrightarrow>
      UploadFile envB wA (Some userB) (Some bucketID) (FormFile key typeB contentB) = (respB, wB) \<longrightarrow>
      status respB = StatusOK \<longrightarrow>
      upload_path envA (user_ID userA) bucketID key \<noteq> upload_path envB (user_ID userB) bucketID key \<longrightarrow>
      (\<exists>row1 row2.
           find (\<lambda>f. file_BucketID f = bucketID \<and> file_Name f = key) (files wA) = Some row1
         \<and> file_Path row1 = upload_path envA (user_ID userA) bucketID key
         \<and> find (\<lambda>f. file_BucketID f = bucketID \<and> file_Name f = key) (files wB) = Some row2
         \<and> file_ID row2 = file_ID row1
         \<and> file_Path row2 = upload_path envB (user_ID userB) bucketID key
         \<and> length (filter (\<lambda>f. file_BucketID f = bucketID \<and> file_Name f = key) (files wB))
             = length (filter (\<lambda>f. file_BucketID f = bucketID \<and> file_Name f = key) (files wA))
         \<and> {f \<in> set (files wB). file_Path f = upload_path envA (user_ID userA) bucketID key}
             \<subseteq> {f \<in> set (files w). file_ID f \<noteq> file_ID row1}
         \<and> disk wB (upload_path envA (user_ID userA) bucketID key) = Some contentA
         \<and> disk wB (upload_path envB (user_ID userB) bucketID key) = Some contentB)"
    by (intro impI, rule native_overwrite_by_other, assumption+)
qed

text \<open>
  The theorem at a public bucket: its owner uploads \<^verbatim>\<open>hello\<close> as \<^verbatim>\<open>a.txt\<close>, then the
  second user uploads \<^verbatim>\<open>bye\<close> under the same name. The two paths are
  \<^verbatim>\<open>storage/1/1/a.txt\<close> and \<^verbatim>\<open>storage/2/1/a.txt\<close>.
\<close>

theorem content_path_is_uploaders_witness:
  "wf_files (world0 True)
   \<and> status (fst (UploadFile env0 (world0 True) (Some alice) (Some 1) (FormFile ''a.txt'' ''text/plain'' ''hello''))) = StatusOK
   \<and> status (fst (UploadFile env0 (snd (UploadFile env0 (world0 True) (Some alice) (Some 1) (FormFile ''a.txt'' ''text/plain'' ''hello''))) (Some bob) (Some 1) (FormFile ''a.txt'' ''text/plain'' ''bye''))) = StatusOK
   \<and> status (fst (S3PutObject env0 (world0 True) (Some alice) (put_request ''a.txt'' ''hello''))) = StatusOK
   \<and> failing env0 = {}
   \<and> upload_path env0 (user_ID alice) 1 ''a.txt'' = ''storage/1/1/a.txt''
   \<and> upload_path env0 (user_ID bob) 1 ''a.txt'' = ''storage/2/1/a.txt''
   \<and> upload_path env0 (user_ID alice) 1 ''a.txt'' \<noteq> upload_path env0 (user_ID bob) 1 ''a.txt''
   \<and> disk (snd (UploadFile env0 (world0 True) (Some alice) (Some 1) (FormFile ''a.txt'' ''text/plain'' ''hello''))) (upload_path env0 (user_ID alice) 1 ''a.txt'') = Some ''hello''
      \<and> (\<exists>row. find (\<lambda>f. file_BucketID f = 1 \<and> file_Name f = ''a.txt'') (files (snd (UploadFile env0 (world0 True) (Some alice) (Some 1) (FormFile ''a.txt'' ''text/plain'' ''hello'')))) = Some row
             \<and> file_Path row = upload_path env0 (user_ID alice) 1 ''a.txt'')
   \<and> (\<exists>bucket row.
           bucket_GetByName env0 (world0 True) (req_bucketName (put_request ''a.txt'' ''hello'')) (user_ID alice) = Inr (Some bucket)
         \<and> disk (snd (S3PutObject env0 (world0 True) (Some alice) (put_request ''a.txt'' ''hello''))) (upload_path env0 (user_ID alice) (bucket_ID bucket) (object_key (put_request ''a.txt'' ''hello'')))
             = Some (req_body (put_request ''a.txt'' ''hello''))
         \<and> find (\<lambda>f. file_BucketID f = bucket_ID bucket \<and> file_Name f = object_key (put_request ''a.txt'' ''hello'')) (files (snd (S3PutObject env0 (world0 True) (Some alice) (put_request ''a.txt'' ''hello''))))
             = Some row
         \<and> file_Path row = upload_path env0 (user_ID alice) (bucket_ID bucket) (object_key (put_request ''a.txt'' ''hello'')))
   \<and> (\<exists>row1 row2.
           find (\<lambda>f. file_BucketID f = 1 \<and> file_Name f = ''a.txt'') (files (snd (UploadFile env0 (world0 True) (Some alice) (Some 1) (FormFile ''a.txt'' ''text/plain'' ''hello'')))) = Some row1
         \<and> file_Path row1 = upload_path env0 (user_ID alice) 1 ''a.txt''
         \<and> find (\<lambda>f. file_BucketID f = 1 \<and> file_Name f = ''a.txt'') (files (snd (UploadFile env0 (snd (UploadFile env0 (world0 True) (Some alice) (Some 1) (FormFile ''a.txt'' ''text/plain'' ''hello''))) (Some bob) (Some 1) (FormFile ''a.txt'' ''text/plain'' ''bye'')))) = Some row2
         \<and> file_ID row2 = file_ID row1
         \<and> file_Path row2 = upload_path env0 (user_ID bob) 1 ''a.txt''
         \<and> length (filter (\<lambda>f. file_BucketID f = 1 \<and> file_Name f = ''a.txt'') (files (snd (UploadFile env0 (snd (UploadFile env0 (world0 True) (Some alice) (Some 1) (FormFile ''a.txt'' ''text/plain'' ''hello''))) (Some bob) (Some 1) (FormFile ''a.txt'' ''text/plain'' ''bye'')))))
             = length (filter (\<lambda>f. file_BucketID f = 1 \<and> file_Name f = ''a.txt'') (files (snd (UploadFile env0 (world0 True) (Some alice) (Some 1) (FormFile ''a.txt'' ''text/plain'' ''hello'')))))
         \<and> {f \<in> set (files (snd (UploadFile env0 (snd (UploadFile env0 (world0 True) (Some alice) (Some 1) (FormFile ''a.txt'' ''text/plain'' ''hello''))) (Some bob) (Some 1) (FormFile ''a.txt'' ''text/plain'' ''bye'')))). file_Path f = upload_path env0 (user_ID alice) 1 ''a.txt''}
             \<subseteq> {f \<in> set (files (world0 True)). file_ID f \<noteq> file_ID row1}
         \<and> disk (snd (UploadFile env0 (snd (UploadFile env0 (world0 True) (Some alice) (Some 1) (FormFile ''a.txt'' ''text/plain'' ''hello''))) (Some bob) (Some 1) (FormFile ''a.txt'' ''text/plain'' ''bye''))) (upload_path env0 (user_ID alice) 1 ''a.txt'') = Some ''hello''
         \<and> disk (snd (UploadFile env0 (snd (UploadFile env0 (world0 True) (Some alice) (Some 1) (FormFile ''a.txt'' ''text/plain'' ''hello''))) (Some bob) (Some 1) (FormFile ''a.txt'' ''text/plain'' ''bye''))) (upload_path env0 (user_ID bob) 1 ''a.txt'') = Some ''bye'')"
proof -
  let ?UA = "UploadFile env0 (world0 True) (Some alice) (Some 1)
               (FormFile ''a.txt'' ''text/plain'' ''hello'')"
  let ?UB = "UploadFile env0 (snd ?UA) (Some bob) (Some 1)
               (FormFile ''a.txt'' ''text/plain'' ''bye'')"
  let ?PA = "S3PutObject env0 (world0 True) (Some alice) (put_request ''a.txt'' ''hello'')"
  have wf: "wf_files (world0 True)"
    by (simp add: wf_files_def world0_def)
  have uA: "?UA = (fst ?UA, snd ?UA)" and uB: "?UB = (fst ?UB, snd ?UB)"
    and pA: "?PA = (fst ?PA, snd ?PA)"
    by simp_all
  have okUA: "status (fst ?UA) = StatusOK"
    by code_simp
  have okUB: "status (fst ?UB) = StatusOK"
    by code_simp
  have okPA: "status (fst ?PA) = StatusOK"
    by code_simp
  have nf: "failing env0 = {}"
    by (simp add: env0_def)
  have p1: "upload_path env0 (user_ID alice) 1 ''a.txt'' = ''storage/1/1/a.txt''"
    by code_simp
  have p2: "upload_path env0 (user_ID bob) 1 ''a.txt'' = ''storage/2/1/a.txt''"
    by code_simp
  have ne: "upload_path env0 (user_ID alice) 1 ''a.txt'' \<noteq> upload_path env0 (user_ID bob) 1 ''a.txt''"
    unfolding p1 p2 by simp
  note t = content_path_is_uploaders[where w = "world0 True" and env = env0 and user = alice
      and bucketID = 1 and key = "''a.txt''" and partType = "''text/plain''"
      and content = "''hello''" and resp = "fst ?UA" and w' = "snd ?UA"
      and r = "put_request ''a.txt'' ''hello''" and sresp = "fst ?PA" and sw' = "snd ?PA"
      and envA = env0 and envB = env0 and userA = alice and userB = bob
      and typeA = "''text/plain''" and contentA = "''hello''" and typeB = "''text/plain''"
      and contentB = "''bye''" and respA = "fst ?UA" and wA = "snd ?UA"
      and respB = "fst ?UB" and wB = "snd ?UB"]
  from t wf uA okUA have a: "disk (snd ?UA) (upload_path env0 (user_ID alice) 1 ''a.txt'') = Some ''hello''
      \<and> (\<exists>row. find (\<lambda>f. file_BucketID f = 1 \<and> file_Name f = ''a.txt'') (files (snd ?UA)) = Some row
             \<and> file_Path row = upload_path env0 (user_ID alice) 1 ''a.txt'')"
    by simp
  from t wf pA okPA nf have b: "(\<exists>bucket row.
           bucket_GetByName env0 (world0 True) (req_bucketName (put_request ''a.txt'' ''hello'')) (user_ID alice) = Inr (Some bucket)
         \<and> disk (snd ?PA) (upload_path env0 (user_ID alice) (bucket_ID bucket) (object_key (put_request ''a.txt'' ''hello'')))
             = Some (req_body (put_request ''a.txt'' ''hello''))
         \<and> find (\<lambda>f. file_BucketID f = bucket_ID bucket \<and> file_Name f = object_key (put_request ''a.txt'' ''hello'')) (files (snd ?PA))
             = Some row
         \<and> file_Path row = upload_path env0 (user_ID alice) (bucket_ID bucket) (object_key (put_request ''a.txt'' ''hello'')))"
    by simp
  from t wf uA uB okUA okUB ne have c: "(\<exists>row1 row2.
           find (\<lambda>f. file_BucketID f = 1 \<and> file_Name f = ''a.txt'') (files (snd ?UA)) = Some row1
         \<and> file_Path row1 = upload_path env0 (user_ID alice) 1 ''a.txt''
         \<and> find (\<lambda>f. file_BucketID f = 1 \<and> file_Name f = ''a.txt'') (files (snd ?UB)) = Some row2
         \<and> file_ID row2 = file_ID row1
         \<and> file_Path row2 = upload_path env0 (user_ID bob) 1 ''a.txt''
         \<and> length (filter (\<lambda>f. file_BucketID f = 1 \<and> file_Name f = ''a.txt'') (files (snd ?UB)))
             = length (filter (\<lambda>f. file_BucketID f = 1 \<and> file_Name f = ''a.txt'') (files (snd ?UA)))
         \<and> {f \<in> set (files (snd ?UB)). file_Path f = upload_path env0 (user_ID alice) 1 ''a.txt''}
             \<subseteq> {f \<in> set (files (world0 True)). file_ID f \<noteq> file_ID row1}
         \<and> disk (snd ?UB) (upload_path env0 (user_ID alice) 1 ''a.txt'') = Some ''hello''
         \<and> disk (snd ?UB) (upload_path env0 (user_ID bob) 1 ''a.txt'') = Some ''bye'')"
    by simp
  show ?thesis
    by (intro conjI) (rule wf okUA okUB okPA nf p1 p2 ne a[THEN conjunct1] a[THEN conjunct2] b c)+
qed

section \<open>Keys that leave the directory of the bucket\<close>

lemma UploadFile_commit_status:
  assumes "FileInsert \<notin> failing env" and "FileUpdate \<notin> failing env"
    and "existingFile = find (\<lambda>f. file_BucketID f = bucketID \<and> file_Name f = fileName) (files w3)"
  shows "status (fst (UploadFile_commit env w3 user bucketID fileName partType content existingFile
                        filePath n)) = StatusOK"
proof (cases existingFile)
  case None
  with assms(3) have "\<not> (\<exists>g \<in> set (files w3). file_BucketID g = bucketID \<and> file_Name g = fileName)"
    by (simp add: find_None_no_dup)
  with None assms(1) show ?thesis
    by (simp add: UploadFile_commit_def Let_def file_Create_def)
next
  case (Some existing)
  with assms(2) show ?thesis
    by (simp add: UploadFile_commit_def Let_def file_Update_def)
qed

lemma UploadFile_store_status:
  assumes nf: "FileInsert \<notin> failing env" "FileUpdate \<notin> failing env"
    and cf: "copy_fails_at env = None"
    and cc: "can_create env w (storage_dir env (user_ID user) bucketID)
               (upload_path env (user_ID user) bucketID fileName)"
    and ex: "existingFile = find (\<lambda>f. file_BucketID f = bucketID \<and> file_Name f = fileName) (files w)"
  shows "status (fst (UploadFile_store env w user bucketID fileName partType content existingFile))
           = StatusOK"
proof -
  from cc obtain w1 w2 where
    w1: "EnsureDir env w (Join [getStoragePath env, fmt_d (user_ID user), fmt_d bucketID]) = Inr w1"
    and w2: "os_Create env w1 (Join [Join [getStoragePath env, fmt_d (user_ID user), fmt_d bucketID],
                                     fileName]) = Inr w2"
    by (auto elim!: can_createD simp: storage_dir_def upload_path_def)
  have ex3: "existingFile = find (\<lambda>f. file_BucketID f = bucketID \<and> file_Name f = fileName)
               (files (w2\<lparr>disk := (disk w2)(Join [Join [getStoragePath env, fmt_d (user_ID user),
                     fmt_d bucketID], fileName] \<mapsto>
                   (case disk w2 (Join [Join [getStoragePath env, fmt_d (user_ID user),
                     fmt_d bucketID], fileName]) of None \<Rightarrow> [] | Some old \<Rightarrow> old) @ content)\<rparr>))"
    using ex by (simp add: EnsureDir_Inr[OF w1] os_Create_Inr[OF w2])
  show ?thesis
    by (simp add: UploadFile_store_def Let_def w1 w2 io_Copy_succeeds[OF cf]
          UploadFile_commit_status[OF nf ex3])
qed

lemma UploadFile_status:
  assumes b: "bucket_GetByID env w bucketID = Inr (Some bucket)"
    and acc: "bucket_UserID bucket = user_ID user \<or> bucket_IsPublic bucket"
    and ne: "fileName \<noteq> []"
    and nf: "FileGet \<notin> failing env" "FileInsert \<notin> failing env" "FileUpdate \<notin> failing env"
    and cf: "copy_fails_at env = None"
    and cc: "can_create env w (storage_dir env (user_ID user) bucketID)
               (upload_path env (user_ID user) bucketID fileName)"
  shows "status (fst (UploadFile env w (Some user) (Some bucketID)
                        (FormFile fileName partType content))) = StatusOK"
proof -
  have g: "file_GetByName env w bucketID fileName
             = Inr (find (\<lambda>f. file_BucketID f = bucketID \<and> file_Name f = fileName) (files w))"
    using nf(1) by (simp add: file_GetByName_def)
  have "UploadFile env w (Some user) (Some bucketID) (FormFile fileName partType content)
          = UploadFile_store env w user bucketID fileName partType content
              (find (\<lambda>f. file_BucketID f = bucketID \<and> file_Name f = fileName) (files w))"
    using acc ne by (auto simp: UploadFile_def b g)
  then show ?thesis
    by (simp add: UploadFile_store_status[OF nf(2,3) cf cc refl])
qed

lemma S3PutObject_store_status:
  assumes cf: "copy_fails_at env = None"
    and cc: "can_create env w (storage_dir env (user_ID user) (bucket_ID bucket))
               (upload_path env (user_ID user) (bucket_ID bucket) objectKey)"
  shows "status (fst (S3PutObject_store env w user bucket objectKey r)) = StatusOK"
proof -
  from cc obtain w1 w2 where
    w1: "EnsureDir env w (Join [getStoragePath env, fmt_d (user_ID user), fmt_d (bucket_ID bucket)])
           = Inr w1"
    and w2: "os_Create env w1 (Join [Join [getStoragePath env, fmt_d (user_ID user),
                                           fmt_d (bucket_ID bucket)], objectKey]) = Inr w2"
    by (auto elim!: can_createD simp: storage_dir_def upload_path_def)
  show ?thesis
    by (simp add: S3PutObject_store_def Let_def w1 w2 io_Copy_succeeds[OF cf]
          S3PutObject_commit_def)
qed

lemma S3PutObject_status:
  assumes b: "bucket_GetByName env w (req_bucketName r) (user_ID user) = Inr (Some bucket)"
    and ne: "req_bucketName r \<noteq> []" "object_key r \<noteq> []"
    and cf: "copy_fails_at env = None"
    and cc: "can_create env w (storage_dir env (user_ID user) (bucket_ID bucket))
               (upload_path env (user_ID user) (bucket_ID bucket) (object_key r))"
  shows "status (fst (S3PutObject env w (Some user) r)) = StatusOK"
proof -
  from bucket_GetByName_owner[OF b] have own: "bucket_UserID bucket = user_ID user"
    by simp
  have "S3PutObject env w (Some user) r = S3PutObject_store env w user bucket (object_key r) r"
    using ne own by (simp add: S3PutObject_def Let_def b)
  then show ?thesis
    by (simp add: S3PutObject_store_status[OF cf cc])
qed

lemma native_any_key:
  assumes wf: "wf_files w"
    and b: "bucket_GetByID env w bucketID = Inr (Some bucket)"
    and acc: "bucket_UserID bucket = user_ID user \<or> bucket_IsPublic bucket"
    and ne: "key \<noteq> []"
    and nf: "FileGet \<notin> failing env" "FileInsert \<notin> failing env" "FileUpdate \<notin> failing env"
    and cf: "copy_fails_at env = None"
    and cc: "can_create env w (storage_dir env (user_ID user) bucketID)
               (upload_path env (user_ID user) bucketID key)"
    and run: "UploadFile env w (Some user) (Some bucketID) (FormFile key partType content)
                = (resp, w')"
  shows "status resp = StatusOK
       \<and> disk w' (upload_path env (user_ID user) bucketID key) = Some content
       \<and> (\<exists>row. find (\<lambda>f. file_BucketID f = bucketID \<and> file_Name f = key) (files w') = Some row
              \<and> file_Name row = key
              \<and> file_Path row = upload_path env (user_ID user) bucketID key)"
proof -
  have ok: "status resp = StatusOK"
    using UploadFile_status[OF b acc ne nf cf cc, of partType content] run by simp
  note u = UploadFile_ok[OF run ok]
  note st = UploadFile_store_ok[OF u(3) ok refl]
  let ?path = "upload_path env (user_ID user) bucketID key"
  let ?row = "stored_row env w (user_ID user) bucketID key ?path partType content"
  have d: "disk w' ?path = Some content"
    using st(2) by simp
  have k: "find (\<lambda>f. file_BucketID f = bucketID \<and> file_Name f = key) (files w') = Some ?row"
    using find_key_put_files[OF wf] st(1) by simp
  have n: "file_Name ?row = key" and p: "file_Path ?row = ?path"
    by (simp_all add: stored_row_fields)
  show ?thesis
    by (rule conjI, rule ok, rule conjI, rule d, rule exI[of _ ?row], intro conjI,
        rule k, rule n, rule p)
qed

lemma s3_any_key:
  assumes wf: "wf_files w"
    and b: "bucket_GetByName env w (req_bucketName r) (user_ID user) = Inr (Some bucket)"
    and ne: "req_bucketName r \<noteq> []" "object_key r \<noteq> []"
    and nf: "FileGet \<notin> failing env" "FileInsert \<notin> failing env" "FileUpdate \<notin> failing env"
    and cf: "copy_fails_at env = None"
    and cc: "can_create env w (storage_dir env (user_ID user) (bucket_ID bucket))
               (upload_path env (user_ID user) (bucket_ID bucket) (object_key r))"
    and run: "S3PutObject env w (Some user) r = (resp, w')"
  shows "status resp = StatusOK
       \<and> disk w' (upload_path env (user_ID user) (bucket_ID bucket) (object_key r))
           = Some (req_body r)
       \<and> (\<exists>row. find (\<lambda>f. file_BucketID f = bucket_ID bucket \<and> file_Name f = object_key r)
                  (files w') = Some row
              \<and> file_Name row = object_key r
              \<and> file_Path row = upload_path env (user_ID user) (bucket_ID bucket) (object_key r))"
proof -
  have ok: "status resp = StatusOK"
    using S3PutObject_status[OF b ne cf cc] run by simp
  from S3PutObject_ok[OF run ok] b have
    store: "S3PutObject_store env w user bucket (object_key r) r = (resp, w')"
    by auto
  note st = S3PutObject_store_ok[OF nf store ok]
  let ?path = "upload_path env (user_ID user) (bucket_ID bucket) (object_key r)"
  let ?row = "stored_row env w (user_ID user) (bucket_ID bucket) (object_key r) ?path
                (req_contentType r) (req_body r)"
  have d: "disk w' ?path = Some (req_body r)"
    using st(2) by simp
  have k: "find (\<lambda>f. file_BucketID f = bucket_ID bucket \<and> file_Name f = object_key r) (files w')
             = Some ?row"
    using find_key_put_files[OF wf] st(1) by simp
  have n: "file_Name ?row = object_key r" and p: "file_Path ?row = ?path"
    by (simp_all add: stored_row_fields)
  show ?thesis
    by (rule conjI, rule ok, rule conjI, rule d, rule exI[of _ ?row], intro conjI,
        rule k, rule n, rule p)
qed

text \<open>
  Claim C1, as stated: a key that resolves outside the directory of the bucket is
  rejected before anything is written. The owner of the bucket \<^verbatim>\<open>logs\<close> (user 1,
  bucket 1, directory \<^verbatim>\<open>storage/1/1\<close>) puts \<^verbatim>\<open>hello\<close> at the URL
  \<^verbatim>\<open>/logs/..%2F..%2Fevil.txt\<close>. The key decodes to \<^verbatim>\<open>../../evil.txt\<close>, the answer is
  200, the content is at \<^verbatim>\<open>storage/evil.txt\<close>, which is not below the directory of the
  bucket, and the table has a row with this key and this path.
\<close>

theorem traversal_key_reaches_disk:
  "object_key (put_request ''..%2F..%2Fevil.txt'' ''hello'') = ''../../evil.txt''
   \<and> storage_dir env0 (user_ID alice) 1 = ''storage/1/1''
   \<and> status (fst (S3PutObject env0 (world0 False) (Some alice) (put_request ''..%2F..%2Fevil.txt'' ''hello''))) = StatusOK
   \<and> disk (snd (S3PutObject env0 (world0 False) (Some alice) (put_request ''..%2F..%2Fevil.txt'' ''hello''))) ''storage/evil.txt'' = Some ''hello''
   \<and> map file_Name (files (snd (S3PutObject env0 (world0 False) (Some alice) (put_request ''..%2F..%2Fevil.txt'' ''hello'')))) = [''../../evil.txt'']
   \<and> map file_Path (files (snd (S3PutObject env0 (world0 False) (Some alice) (put_request ''..%2F..%2Fevil.txt'' ''hello'')))) = [''storage/evil.txt'']"
proof -
  let ?P = "S3PutObject env0 (world0 False) (Some alice)
              (put_request ''..%2F..%2Fevil.txt'' ''hello'')"
  have k: "object_key (put_request ''..%2F..%2Fevil.txt'' ''hello'') = ''../../evil.txt''"
    by code_simp
  have d: "storage_dir env0 (user_ID alice) 1 = ''storage/1/1''"
    by code_simp
  have s: "status (fst ?P) = StatusOK"
    by code_simp
  have c: "disk (snd ?P) ''storage/evil.txt'' = Some ''hello''"
    by code_simp
  have n: "map file_Name (files (snd ?P)) = [''../../evil.txt'']"
    by code_simp
  have p: "map file_Path (files (snd ?P)) = [''storage/evil.txt'']"
    by code_simp
  show ?thesis
    by (intro conjI) (rule k d s c n p)+
qed

text \<open>
  Claim C1, amended. Neither handler looks at the shape of the key. For every key that
  is not empty: when the requester may write to the bucket, the storage directory and
  the file at \<open>upload_path\<close> can be created, and neither the copy nor an operation on
  the table of files fails, the answer is 200, the content is at \<open>upload_path\<close>, which
  is \<^verbatim>\<open>filepath.Join\<close> of the directory of the bucket and the key, with the \<^verbatim>\<open>..\<close>
  elements of the key resolved, and the row of the key holds the key as it was given
  and this path.
\<close>

theorem put_takes_any_key:
  "(wf_files w \<longrightarrow>
      bucket_GetByID env w bucketID = Inr (Some bucket) \<longrightarrow>
      (bucket_UserID bucket = user_ID user \<or> bucket_IsPublic bucket) \<longrightarrow>
      key \<noteq> [] \<longrightarrow>
      FileGet \<notin> failing env \<longrightarrow> FileInsert \<notin> failing env \<longrightarrow> FileUpdate \<notin> failing env \<longrightarrow>
      copy_fails_at env = None \<longrightarrow>
      can_create env w (storage_dir env (user_ID user) bucketID)
        (upload_path env (user_ID user) bucketID key) \<longrightarrow>
      UploadFile env w (Some user) (Some bucketID) (FormFile key partType content) = (resp, w') \<longrightarrow>
      status resp = StatusOK
      \<and> disk w' (upload_path env (user_ID user) bucketID key) = Some content
      \<and> (\<exists>row. find (\<lambda>f. file_BucketID f = bucketID \<and> file_Name f = key) (files w') = Some row
             \<and> file_Name row = key
             \<and> file_Path row = upload_path env (user_ID user) bucketID key))
   \<and> (wf_files w \<longrightarrow>
      bucket_GetByName env w (req_bucketName r) (user_ID user) = Inr (Some sbucket) \<longrightarrow>
      req_bucketName r \<noteq> [] \<longrightarrow> object_key r \<noteq> [] \<longrightarrow>
      FileGet \<notin> failing env \<longrightarrow> FileInsert \<notin> failing env \<longrightarrow> FileUpdate \<notin> failing env \<longrightarrow>
      copy_fails_at env = None \<longrightarrow>
      can_create env w (storage_dir env (user_ID user) (bucket_ID sbucket))
        (upload_path env (user_ID user) (bucket_ID sbucket) (object_key r)) \<longrightarrow>
      S3PutObject env w (Some user) r = (sresp, sw') \<longrightarrow>
      status sresp = StatusOK
      \<and> disk sw' (upload_path env (user_ID user) (bucket_ID sbucket) (object_key r))
          = Some (req_body r)
      \<and> (\<exists>row. find (\<lambda>f. file_BucketID f = bucket_ID sbucket \<and> file_Name f = object_key r)
                 (files sw') = Some row
             \<and> file_Name row = object_key r
             \<and> file_Path row = upload_path env (user_ID user) (bucket_ID sbucket) (object_key r)))"
proof (rule conjI)
  show "wf_files w \<longrightarrow>
      bucket_GetByID env w bucketID = Inr (Some bucket) \<longrightarrow>
      (bucket_UserID bucket = user_ID user \<or> bucket_IsPublic bucket) \<longrightarrow>
      key \<noteq> [] \<longrightarrow>
      FileGet \<notin> failing env \<longrightarrow> FileInsert \<notin> failing env \<longrightarrow> FileUpdate \<notin> failing env \<longrightarrow>
      copy_fails_at env = None \<longrightarrow>
      can_create env w (storage_dir env (user_ID user) bucketID)
        (upload_path env (user_ID user) bucketID key) \<longrightarrow>
      UploadFile env w (Some user) (Some bucketID) (FormFile key partType content) = (resp, w') \<longrightarrow>
      status resp = StatusOK
      \<and> disk w' (upload_path env (user_ID user) bucketID key) = Some content
      \<and> (\<exists>row. find (\<lambda>f. file_BucketID f = bucketID \<and> file_Name f = key) (files w') = Some row
             \<and> file_Name row = key
             \<and> file_Path row = upload_path env (user_ID user) bucketID key)"
    by (intro impI, rule native_any_key, assumption+)
  show "wf_files w \<longrightarrow>
      bucket_GetByName env w (req_bucketName r) (user_ID user) = Inr (Some sbucket) \<longrightarrow>
      req_bucketName r \<noteq> [] \<longrightarrow> object_key r \<noteq> [] \<longrightarrow>
      FileGet \<notin> failing env \<longrightarrow> FileInsert \<notin> failing env \<longrightarrow> FileUpdate \<notin> failing env \<longrightarrow>
      copy_fails_at env = None \<longrightarrow>
      can_create env w (storage_dir env (user_ID user) (bucket_ID sbucket))
        (upload_path env (user_ID user) (bucket_ID sbucket) (object_key r)) \<longrightarrow>
      S3PutObject env w (Some user) r = (sresp, sw') \<longrightarrow>
      status sresp = StatusOK
      \<and> disk sw' (upload_path env (user_ID user) (bucket_ID sbucket) (object_key r))
          = Some (req_body r)
      \<and> (\<exists>row. find (\<lambda>f. file_BucketID f = bucket_ID sbucket \<and> file_Name f = object_key r)
                 (files sw') = Some row
             \<and> file_Name row = object_key r
             \<and> file_Path row = upload_path env (user_ID user) (bucket_ID sbucket) (object_key r))"
    by (intro impI, rule s3_any_key, assumption+)
qed

text \<open>
  The theorem at the upload of \<^verbatim>\<open>a.txt\<close> with \<^verbatim>\<open>UploadFile\<close> and at the put of
  \<^verbatim>\<open>../../evil.txt\<close> with \<^verbatim>\<open>S3PutObject\<close>, both by the owner of the bucket.
\<close>

theorem put_takes_any_key_witness:
  "wf_files (world0 False)
   \<and> bucket_GetByID env0 (world0 False) 1 = Inr (Some (logs_bucket False))
   \<and> bucket_GetByName env0 (world0 False) (req_bucketName (put_request ''..%2F..%2Fevil.txt'' ''hello'')) (user_ID alice)
        = Inr (Some (logs_bucket False))
   \<and> bucket_UserID (logs_bucket False) = user_ID alice
   \<and> object_key (put_request ''..%2F..%2Fevil.txt'' ''hello'') = ''../../evil.txt''
   \<and> failing env0 = {} \<and> copy_fails_at env0 = None
   \<and> can_create env0 (world0 False) (storage_dir env0 (user_ID alice) 1)
        (upload_path env0 (user_ID alice) 1 ''a.txt'')
   \<and> can_create env0 (world0 False) (storage_dir env0 (user_ID alice) (bucket_ID (logs_bucket False)))
        (upload_path env0 (user_ID alice) (bucket_ID (logs_bucket False)) (object_key (put_request ''..%2F..%2Fevil.txt'' ''hello'')))
   \<and> upload_path env0 (user_ID alice) (bucket_ID (logs_bucket False)) (object_key (put_request ''..%2F..%2Fevil.txt'' ''hello''))
        = ''storage/evil.txt''
   \<and> status (fst (UploadFile env0 (world0 False) (Some alice) (Some 1) (FormFile ''a.txt'' ''text/plain'' ''hello''))) = StatusOK
      \<and> disk (snd (UploadFile env0 (world0 False) (Some alice) (Some 1) (FormFile ''a.txt'' ''text/plain'' ''hello''))) (upload_path env0 (user_ID alice) 1 ''a.txt'') = Some ''hello''
      \<and> (\<exists>row. find (\<lambda>f. file_BucketID f = 1 \<and> file_Name f = ''a.txt'') (files (snd (UploadFile env0 (world0 False) (Some alice) (Some 1) (FormFile ''a.txt'' ''text/plain'' ''hello'')))) = Some row
             \<and> file_Name row = ''a.txt''
             \<and> file_Path row = upload_path env0 (user_ID alice) 1 ''a.txt'')
   \<and> status (fst (S3PutObject env0 (world0 False) (Some alice) (put_request ''..%2F..%2Fevil.txt'' ''hello''))) = StatusOK
      \<and> disk (snd (S3PutObject env0 (world0 False) (Some alice) (put_request ''..%2F..%2Fevil.txt'' ''hello''))) (upload_path env0 (user_ID alice) (bucket_ID (logs_bucket False)) (object_key (put_request ''..%2F..%2Fevil.txt'' ''hello'')))
          = Some (req_body (put_request ''..%2F..%2Fevil.txt'' ''hello''))
      \<and> (\<exists>row. find (\<lambda>f. file_BucketID f = bucket_ID (logs_bucket False) \<and> file_Name f = object_key (put_request ''..%2F..%2Fevil.txt'' ''hello''))
                 (files (snd (S3PutObject env0 (world0 False) (Some alice) (put_request ''..%2F..%2Fevil.txt'' ''hello'')))) = Some row
             \<and> file_Name row = object_key (put_request ''..%2F..%2Fevil.txt'' ''hello'')
             \<and> file_Path row = upload_path env0 (user_ID alice) (bucket_ID (logs_bucket False)) (object_key (put_request ''..%2F..%2Fevil.txt'' ''hello'')))"
proof -
  let ?U = "UploadFile env0 (world0 False) (Some alice) (Some 1)
              (FormFile ''a.txt'' ''text/plain'' ''hello'')"
  let ?r = "put_request ''..%2F..%2Fevil.txt'' ''hello''"
  let ?P = "S3PutObject env0 (world0 False) (Some alice) ?r"
  have wf: "wf_files (world0 False)"
    by (simp add: wf_files_def world0_def)
  have b1: "bucket_GetByID env0 (world0 False) 1 = Inr (Some (logs_bucket False))"
    by (simp add: bucket_GetByID_def env0_def world0_def logs_bucket_def)
  have b2: "bucket_GetByName env0 (world0 False) (req_bucketName ?r) (user_ID alice)
              = Inr (Some (logs_bucket False))"
    by (simp add: bucket_GetByName_def env0_def world0_def logs_bucket_def put_request_def
          alice_def)
  have own: "bucket_UserID (logs_bucket False) = user_ID alice"
    by (simp add: logs_bucket_def alice_def)
  have k: "object_key ?r = ''../../evil.txt''"
    by code_simp
  have nf: "failing env0 = {}" and cf: "copy_fails_at env0 = None"
    by (simp_all add: env0_def)
  have c1: "can_create env0 (world0 False) (storage_dir env0 (user_ID alice) 1)
              (upload_path env0 (user_ID alice) 1 ''a.txt'')"
    by code_simp
  have c2: "can_create env0 (world0 False)
              (storage_dir env0 (user_ID alice) (bucket_ID (logs_bucket False)))
              (upload_path env0 (user_ID alice) (bucket_ID (logs_bucket False)) (object_key ?r))"
    by code_simp
  have p: "upload_path env0 (user_ID alice) (bucket_ID (logs_bucket False)) (object_key ?r)
             = ''storage/evil.txt''"
    by code_simp
  have bn: "req_bucketName ?r \<noteq> []"
    by (simp add: put_request_def)
  have kn: "object_key ?r \<noteq> []"
    unfolding k by simp
  have u: "?U = (fst ?U, snd ?U)" and pp: "?P = (fst ?P, snd ?P)"
    by simp_all
  note t = put_takes_any_key[where w = "world0 False" and env = env0 and user = alice
      and bucketID = 1 and bucket = "logs_bucket False" and key = "''a.txt''"
      and partType = "''text/plain''" and content = "''hello''" and resp = "fst ?U"
      and w' = "snd ?U" and r = ?r and sbucket = "logs_bucket False" and sresp = "fst ?P"
      and sw' = "snd ?P"]
  have a: "status (fst ?U) = StatusOK
      \<and> disk (snd ?U) (upload_path env0 (user_ID alice) 1 ''a.txt'') = Some ''hello''
      \<and> (\<exists>row. find (\<lambda>f. file_BucketID f = 1 \<and> file_Name f = ''a.txt'') (files (snd ?U)) = Some row
             \<and> file_Name row = ''a.txt''
             \<and> file_Path row = upload_path env0 (user_ID alice) 1 ''a.txt'')"
    using t[THEN conjunct1] wf b1 own nf cf c1 u by simp
  have b: "status (fst ?P) = StatusOK
      \<and> disk (snd ?P) (upload_path env0 (user_ID alice) (bucket_ID (logs_bucket False)) (object_key ?r))
          = Some (req_body ?r)
      \<and> (\<exists>row. find (\<lambda>f. file_BucketID f = bucket_ID (logs_bucket False) \<and> file_Name f = object_key ?r)
                 (files (snd ?P)) = Some row
             \<and> file_Name row = object_key ?r
             \<and> file_Path row = upload_path env0 (user_ID alice) (bucket_ID (logs_bucket False)) (object_key ?r))"
    using t[THEN conjunct2] wf b2 bn kn nf cf c2 pp by simp
  show ?thesis
    by (intro conjI) (rule wf b1 b2 own k nf cf c1 c2 p a[THEN conjunct1]
        a[THEN conjunct2, THEN conjunct1] a[THEN conjunct2, THEN conjunct2]
        b[THEN conjunct1] b[THEN conjunct2, THEN conjunct1] b[THEN conjunct2, THEN conjunct2])+
qed

end
